theory Spec2Isabelle
  imports Main "HOL-Library.Char_ord" "HOL-Library.List_Lexorder" "HOL-Library.Product_Lexorder"
begin

section \<open>TicketDrop: waiting room, reservations and idempotent checkout\<close>

text \<open>
  A shallow embedding of the request handlers of \<^verbatim>\<open>api/src/routes/reservations.ts\<close>
  (reservations and waiting room), \<^verbatim>\<open>api/src/routes/checkout.ts\<close>, the two rate limiters
  \<^verbatim>\<open>api/src/utils/rateLimiter.ts\<close> and \<^verbatim>\<open>src/utils/rateLimiter.ts\<close>, and the
  expiration worker. Identifiers are strings, instants are milliseconds since the epoch,
  the relational store is a record of row lists in insertion order, and the Redis store is
  a single key space with optional expiry instants. Every handler takes the instant of the
  request and the identifiers the random generators hand out during the request, and returns
  its reply together with the new stores.
\<close>

type_synonym uuid = string
type_synonym instant = int

subsection \<open>Redis\<close>

record token_data =
  td_eventId :: uuid
  td_token :: string
  td_userId :: string
  td_joinedAt :: instant

text \<open>
  A value is a plain string, an integer (the decimal string that \<^verbatim>\<open>toString\<close> writes and
  \<^verbatim>\<open>parseInt\<close> and \<^verbatim>\<open>INCR\<close> read back), the JSON of a waiting-room token, or a sorted
  set, kept ordered by (score, member).
\<close>

datatype rval = RStr string | RInt int | RTok token_data | RZset "(int \<times> string) list"

datatype redis_error = Redis_unreachable | Redis_wrongtype

record redis_store =
  up :: bool
  kv :: "string \<rightharpoonup> (rval \<times> instant option)"

definition live :: "redis_store \<Rightarrow> instant \<Rightarrow> string \<Rightarrow> (rval \<times> instant option) option" where
  "live r now k =
     (case kv r k of
        None \<Rightarrow> None
      | Some (v, e) \<Rightarrow>
          (case e of
             None \<Rightarrow> Some (v, None)
           | Some t \<Rightarrow> if t \<le> now then None else Some (v, Some t)))"

definition redis_get :: "redis_store \<Rightarrow> instant \<Rightarrow> string \<Rightarrow> redis_error + rval option" where
  "redis_get r now k =
     (if \<not> up r then Inl Redis_unreachable
      else case live r now k of
             None \<Rightarrow> Inr None
           | Some (RZset z, e) \<Rightarrow> Inl Redis_wrongtype
           | Some (v, e) \<Rightarrow> Inr (Some v))"

definition redis_set :: "redis_store \<Rightarrow> string \<Rightarrow> rval \<Rightarrow> redis_error + redis_store" where
  "redis_set r k v =
     (if \<not> up r then Inl Redis_unreachable
      else Inr (r\<lparr>kv := (kv r)(k \<mapsto> (v, None))\<rparr>))"

definition redis_set_ex :: "redis_store \<Rightarrow> instant \<Rightarrow> string \<Rightarrow> rval \<Rightarrow> int \<Rightarrow> redis_error + redis_store" where
  "redis_set_ex r now k v seconds =
     (if \<not> up r then Inl Redis_unreachable
      else Inr (r\<lparr>kv := (kv r)(k \<mapsto> (v, Some (now + seconds * 1000)))\<rparr>))"

definition redis_incr :: "redis_store \<Rightarrow> instant \<Rightarrow> string \<Rightarrow> redis_error + (int \<times> redis_store)" where
  "redis_incr r now k =
     (if \<not> up r then Inl Redis_unreachable
      else case live r now k of
             None \<Rightarrow> Inr (1, r\<lparr>kv := (kv r)(k \<mapsto> (RInt 1, None))\<rparr>)
           | Some (RInt n, e) \<Rightarrow> Inr (n + 1, r\<lparr>kv := (kv r)(k \<mapsto> (RInt (n + 1), e))\<rparr>)
           | Some (v, e) \<Rightarrow> Inl Redis_wrongtype)"

definition redis_expire :: "redis_store \<Rightarrow> instant \<Rightarrow> string \<Rightarrow> int \<Rightarrow> redis_error + redis_store" where
  "redis_expire r now k seconds =
     (if \<not> up r then Inl Redis_unreachable
      else case live r now k of
             None \<Rightarrow> Inr r
           | Some (v, e) \<Rightarrow> Inr (r\<lparr>kv := (kv r)(k \<mapsto> (v, Some (now + seconds * 1000)))\<rparr>))"

text \<open>\<^verbatim>\<open>TTL\<close>: -2 for a missing key, -1 for a key without expiry, else the remaining
  time rounded to seconds.\<close>

definition redis_ttl :: "redis_store \<Rightarrow> instant \<Rightarrow> string \<Rightarrow> redis_error + int" where
  "redis_ttl r now k =
     (if \<not> up r then Inl Redis_unreachable
      else case live r now k of
             None \<Rightarrow> Inr (- 2)
           | Some (v, None) \<Rightarrow> Inr (- 1)
           | Some (v, Some t) \<Rightarrow> Inr ((t - now + 500) div 1000))"

definition redis_del :: "redis_store \<Rightarrow> string \<Rightarrow> redis_error + redis_store" where
  "redis_del r k =
     (if \<not> up r then Inl Redis_unreachable
      else Inr (r\<lparr>kv := (kv r)(k := None)\<rparr>))"

definition zset_of :: "redis_store \<Rightarrow> instant \<Rightarrow> string \<Rightarrow> redis_error + ((int \<times> string) list \<times> instant option)" where
  "zset_of r now k =
     (if \<not> up r then Inl Redis_unreachable
      else case live r now k of
             None \<Rightarrow> Inr ([], None)
           | Some (RZset z, e) \<Rightarrow> Inr (z, e)
           | Some (v, e) \<Rightarrow> Inl Redis_wrongtype)"

definition redis_zadd :: "redis_store \<Rightarrow> instant \<Rightarrow> string \<Rightarrow> int \<Rightarrow> string \<Rightarrow> redis_error + redis_store" where
  "redis_zadd r now k score member =
     (case zset_of r now k of
        Inl e \<Rightarrow> Inl e
      | Inr (z, e) \<Rightarrow>
          Inr (r\<lparr>kv := (kv r)(k \<mapsto>
                 (RZset (insort (score, member) (filter (\<lambda>(s, m). m \<noteq> member) z)), e))\<rparr>))"

definition redis_zcard :: "redis_store \<Rightarrow> instant \<Rightarrow> string \<Rightarrow> redis_error + int" where
  "redis_zcard r now k =
     (case zset_of r now k of
        Inl e \<Rightarrow> Inl e
      | Inr (z, e) \<Rightarrow> Inr (int (length z)))"

fun index_of :: "'a \<Rightarrow> 'a list \<Rightarrow> int option" where
  "index_of x [] = None"
| "index_of x (y # ys) =
     (if x = y then Some 0
      else case index_of x ys of None \<Rightarrow> None | Some i \<Rightarrow> Some (i + 1))"

definition redis_zrank :: "redis_store \<Rightarrow> instant \<Rightarrow> string \<Rightarrow> string \<Rightarrow> redis_error + int option" where
  "redis_zrank r now k member =
     (case zset_of r now k of
        Inl e \<Rightarrow> Inl e
      | Inr (z, e) \<Rightarrow> Inr (index_of member (map snd z)))"

subsection \<open>Rate limiters\<close>

record rate_result =
  allowed :: bool
  remaining :: int
  retryAfter :: "int option"

text \<open>\<^verbatim>\<open>api/src/utils/rateLimiter.ts\<close>: the limiter the route handlers import. A Redis
  command that raises makes the whole call raise (\<open>Inl\<close>).\<close>

definition rateLimit ::
  "redis_store \<Rightarrow> instant \<Rightarrow> string \<Rightarrow> int \<Rightarrow> int \<Rightarrow> redis_error + (rate_result \<times> redis_store)" where
  "rateLimit r now key limit windowSeconds =
     (let namespacedKey = ''rate_limit:'' @ key in
      case redis_incr r now namespacedKey of
        Inl e \<Rightarrow> Inl e
      | Inr (count, r1) \<Rightarrow>
          (case (if count = 1 then redis_expire r1 now namespacedKey windowSeconds else Inr r1) of
             Inl e \<Rightarrow> Inl e
           | Inr r2 \<Rightarrow>
               if count > limit then
                 (case redis_ttl r2 now namespacedKey of
                    Inl e \<Rightarrow> Inl e
                  | Inr ttl \<Rightarrow>
                      Inr (\<lparr>allowed = False, remaining = 0,
                            retryAfter = Some (if ttl > 0 then ttl else windowSeconds)\<rparr>, r2))
               else
                 Inr (\<lparr>allowed = True, remaining = max 0 (limit - count), retryAfter = None\<rparr>, r2)))"

text \<open>\<^verbatim>\<open>src/utils/rateLimiter.ts\<close>: the same body inside \<^verbatim>\<open>try\<close>, with a \<^verbatim>\<open>catch\<close> that
  allows the request.\<close>

definition rateLimit_fail_open ::
  "redis_store \<Rightarrow> instant \<Rightarrow> string \<Rightarrow> int \<Rightarrow> int \<Rightarrow> redis_error + (rate_result \<times> redis_store)" where
  "rateLimit_fail_open r now key limit windowSeconds =
     (case rateLimit r now key limit windowSeconds of
        Inl e \<Rightarrow> Inr (\<lparr>allowed = True, remaining = limit, retryAfter = None\<rparr>, r)
      | Inr res \<Rightarrow> Inr res)"

subsection \<open>Relational store\<close>

text \<open>
  The tables of \<^verbatim>\<open>api/db/init.sql\<close> with the columns the handlers read or write.
  \<^verbatim>\<open>INTEGER\<close> columns under a \<^verbatim>\<open>CHECK (... >= 0)\<close> or \<^verbatim>\<open>CHECK (... > 0)\<close> constraint are
  natural numbers. Rows are kept in insertion order; \<^verbatim>\<open>rows[0]\<close> of a query is the first
  matching row.
\<close>

datatype event_status = Draft | Scheduled | On_sale | Closed | Event_canceled

record event =
  e_id :: uuid
  e_status :: event_status
  e_paused :: bool
  e_on_sale_at :: instant

record ticket_tier =
  t_id :: uuid
  t_event_id :: uuid
  t_name :: string
  t_price_cents :: nat
  t_capacity :: nat
  t_per_user_limit :: nat

datatype reservation_status = Active | Expired | Converted | Canceled

record reservation =
  r_id :: uuid
  r_event_id :: uuid
  r_tier_id :: uuid
  r_user_token :: string
  r_quantity :: nat
  r_status :: reservation_status
  r_expires_at :: instant
  r_created_at :: instant

datatype session_status = Pending | Completed | Failed | Session_expired

record checkout_session =
  cs_id :: uuid
  cs_reservation_id :: uuid
  cs_idempotency_key :: string
  cs_status :: session_status
  cs_created_at :: instant

datatype order_status = Paid | Refunded | Order_canceled

record order_row =
  o_id :: uuid
  o_checkout_session_id :: uuid
  o_reservation_id :: uuid
  o_event_id :: uuid
  o_tier_id :: uuid
  o_user_token :: string
  o_quantity :: nat
  o_total_price_cents :: nat
  o_status :: order_status
  o_created_at :: instant

record ticket =
  k_id :: uuid
  k_order_id :: uuid
  k_event_id :: uuid
  k_tier_id :: uuid
  k_user_token :: string
  k_code :: string
  k_qr_sig :: string
  k_created_at :: instant

record database =
  events :: "event list"
  ticket_tiers :: "ticket_tier list"
  reservations :: "reservation list"
  checkout_sessions :: "checkout_session list"
  orders :: "order_row list"
  tickets :: "ticket list"

record stores =
  db :: database
  redis :: redis_store

subsection \<open>Local time\<close>

text \<open>
  The handlers move an instant by minutes with
  \<^verbatim>\<open>d.setMinutes(d.getMinutes() + n)\<close>, which works on the local time of the process. A
  time zone gives the offset of local time from UTC in milliseconds, at a UTC instant
  (\<open>LocalTZA(t, true)\<close> of ECMAScript) and at a local time value (\<open>LocalTZA(t, false)\<close>,
  which reads a local time that is repeated or skipped at a transition with the offset before
  the transition).
\<close>

record time_zone =
  offset_at_utc :: "instant \<Rightarrow> int"
  offset_at_local :: "int \<Rightarrow> int"

text \<open>\<^verbatim>\<open>setMinutes\<close>: the local time of \<open>t\<close>, its minutes field moved by \<open>n\<close> with the carry
  of \<open>MakeTime\<close>, read back as a UTC instant.\<close>

definition setMinutes_plus :: "time_zone \<Rightarrow> instant \<Rightarrow> int \<Rightarrow> instant" where
  "setMinutes_plus tz t n =
     (let localTime = t + offset_at_utc tz t;
          moved = localTime + n * 60000
      in moved - offset_at_local tz moved)"

definition utc_zone :: time_zone where
  "utc_zone = \<lparr>offset_at_utc = (\<lambda>t. 0), offset_at_local = (\<lambda>t. 0)\<rparr>"

text \<open>\<^verbatim>\<open>appConfig\<close> of \<^verbatim>\<open>api/src/config.ts\<close>, and with it the time zone the environment
  of the process sets (\<^verbatim>\<open>TZ\<close>).\<close>

record app_config =
  tokenTtlSeconds :: int
  accessTtlSeconds :: int
  waveSize :: int
  waveAdvanceIntervalMs :: int
  ttlMinutes :: int
  perEventLimit :: int
  timeZone :: time_zone

definition default_config :: app_config where
  "default_config =
     \<lparr>tokenTtlSeconds = 3600, accessTtlSeconds = 180, waveSize = 100,
      waveAdvanceIntervalMs = 30000, ttlMinutes = 3, perEventLimit = 6, timeZone = utc_zone\<rparr>"

text \<open>JavaScript truthiness of an optional string (a header, a body field, a query
  parameter) and of the reply of \<^verbatim>\<open>GET\<close>; \<^verbatim>\<open>a || b\<close> on optional strings.\<close>

definition truthy :: "string option \<Rightarrow> bool" where
  "truthy x = (case x of None \<Rightarrow> False | Some v \<Rightarrow> v \<noteq> [])"

definition truthy_val :: "rval option \<Rightarrow> bool" where
  "truthy_val x = (case x of None \<Rightarrow> False | Some (RStr v) \<Rightarrow> v \<noteq> [] | Some v \<Rightarrow> True)"

definition js_or :: "string option \<Rightarrow> string \<Rightarrow> string" where
  "js_or a b = (case a of None \<Rightarrow> b | Some v \<Rightarrow> if v = [] then b else v)"

subsection \<open>POST /events/:id/reservations\<close>

text \<open>The four aggregate queries of the handler.\<close>

definition user_paid :: "database \<Rightarrow> uuid \<Rightarrow> string \<Rightarrow> nat" where
  "user_paid d eid userId =
     sum_list (map o_quantity
       (filter (\<lambda>x. o_event_id x = eid \<and> o_user_token x = userId \<and> o_status x = Paid) (orders d)))"

definition user_held :: "database \<Rightarrow> uuid \<Rightarrow> string \<Rightarrow> instant \<Rightarrow> nat" where
  "user_held d eid userId now =
     sum_list (map r_quantity
       (filter (\<lambda>r. r_event_id r = eid \<and> r_user_token r = userId \<and> r_status r = Active
                    \<and> now < r_expires_at r) (reservations d)))"

definition reserved_qty :: "database \<Rightarrow> uuid \<Rightarrow> instant \<Rightarrow> nat" where
  "reserved_qty d tid now =
     sum_list (map r_quantity
       (filter (\<lambda>r. r_tier_id r = tid \<and> r_status r = Active \<and> now < r_expires_at r)
          (reservations d)))"

definition sold_qty :: "database \<Rightarrow> uuid \<Rightarrow> nat" where
  "sold_qty d tid =
     sum_list (map o_quantity
       (filter (\<lambda>x. o_tier_id x = tid \<and> o_status x = Paid) (orders d)))"

datatype reserve_reply =
    Reserved reservation
  | Missing_fields
  | Bad_quantity
  | User_id_required
  | Reserve_rate_limited int
  | Not_admitted
  | Event_not_found
  | Sales_paused
  | Tier_not_found
  | Purchase_limit_exceeded int nat nat int
  | Per_tier_limit_exceeded nat
  | Double_hold uuid instant
  | Not_enough_tickets int int
  | Reserve_failed

fun reserve_status :: "reserve_reply \<Rightarrow> nat" where
  "reserve_status (Reserved r) = 201"
| "reserve_status Missing_fields = 400"
| "reserve_status Bad_quantity = 400"
| "reserve_status User_id_required = 400"
| "reserve_status (Reserve_rate_limited n) = 429"
| "reserve_status Not_admitted = 403"
| "reserve_status Event_not_found = 404"
| "reserve_status Sales_paused = 403"
| "reserve_status Tier_not_found = 404"
| "reserve_status (Purchase_limit_exceeded l p h q) = 403"
| "reserve_status (Per_tier_limit_exceeded n) = 400"
| "reserve_status (Double_hold i e) = 409"
| "reserve_status (Not_enough_tickets a q) = 409"
| "reserve_status Reserve_failed = 500"

text \<open>Decimal digits of a number, as a template literal prints it.\<close>

fun show_nat :: "nat \<Rightarrow> string" where
  "show_nat n =
     (if n < 10 then [char_of (48 + n)]
      else show_nat (n div 10) @ [char_of (48 + n mod 10)])"


text \<open>
  The transaction, from \<^verbatim>\<open>BEGIN\<close> to \<^verbatim>\<open>COMMIT\<close>, run without another transaction in
  between: one step on the database at one instant. The lock it takes (the row of the tier,
  \<^verbatim>\<open>FOR UPDATE\<close>) keeps two reservations of one tier from overlapping; it does not hold
  off a reservation of another tier, a session creation or a confirmation.
  Every \<^verbatim>\<open>ROLLBACK\<close> branch returns the database it was given.
  The primary key of the new row is \<open>new_id\<close>; a key that is already taken makes the
  \<^verbatim>\<open>INSERT\<close> raise, which the handler answers with 500 after \<^verbatim>\<open>ROLLBACK\<close>.
\<close>

definition reserve_tx ::
  "app_config \<Rightarrow> instant \<Rightarrow> uuid \<Rightarrow> uuid \<Rightarrow> uuid \<Rightarrow> int \<Rightarrow> string \<Rightarrow> database
     \<Rightarrow> reserve_reply \<times> database" where
  "reserve_tx cfg now new_id eid tier_id quantity userId d =
     (case filter (\<lambda>e. e_id e = eid \<and> e_status e \<noteq> Draft) (events d) of
        [] \<Rightarrow> (Event_not_found, d)
      | ev # evs \<Rightarrow>
          if e_paused ev then (Sales_paused, d)
          else
            (case filter (\<lambda>t. t_id t = tier_id \<and> t_event_id t = eid) (ticket_tiers d) of
               [] \<Rightarrow> (Tier_not_found, d)
             | tier # tiers \<Rightarrow>
                 let totalPurchased = user_paid d eid userId;
                     totalHeld = user_held d eid userId now;
                     projectedTotal = int totalPurchased + int totalHeld + quantity
                 in
                   if projectedTotal > perEventLimit cfg then
                     (Purchase_limit_exceeded (perEventLimit cfg) totalPurchased totalHeld quantity, d)
                   else if quantity > int (t_per_user_limit tier) then
                     (Per_tier_limit_exceeded (t_per_user_limit tier), d)
                   else
                     (case filter (\<lambda>r. r_event_id r = eid \<and> r_user_token r = userId
                                         \<and> r_status r = Active \<and> now < r_expires_at r)
                             (reservations d) of
                        existing # rest \<Rightarrow> (Double_hold (r_id existing) (r_expires_at existing), d)
                      | [] \<Rightarrow>
                          let reserved = reserved_qty d tier_id now;
                              sold = sold_qty d tier_id;
                              available = int (t_capacity tier) - int reserved - int sold
                          in
                            if quantity > available then (Not_enough_tickets available quantity, d)
                            else if new_id \<in> set (map r_id (reservations d)) then (Reserve_failed, d)
                            else
                              let row = \<lparr>r_id = new_id, r_event_id = eid, r_tier_id = tier_id,
                                         r_user_token = userId, r_quantity = nat quantity,
                                         r_status = Active,
                                         r_expires_at =
                                           setMinutes_plus (timeZone cfg) now (ttlMinutes cfg),
                                         r_created_at = now\<rparr>
                              in (Reserved row, d\<lparr>reservations := reservations d @ [row]\<rparr>))))"

record reserve_request =
  rq_event_id :: uuid
  rq_tier_id :: "string option"
  rq_quantity :: "int option"
  rq_token :: "string option"
  rq_user_id :: "string option"

definition reserve ::
  "app_config \<Rightarrow> instant \<Rightarrow> uuid \<Rightarrow> reserve_request \<Rightarrow> stores \<Rightarrow> reserve_reply \<times> stores" where
  "reserve cfg now new_id rq s =
     (case (rq_tier_id rq, rq_quantity rq, rq_token rq) of
        (Some tier_id, Some quantity, Some token) \<Rightarrow>
          if tier_id = [] \<or> quantity = 0 \<or> token = [] then (Missing_fields, s)
          else if quantity \<le> 0 then (Bad_quantity, s)
          else
            (case rq_user_id rq of
               None \<Rightarrow> (User_id_required, s)
             | Some userId \<Rightarrow>
                 if userId = [] then (User_id_required, s)
                 else
                   (case rateLimit (redis s) now
                           (''reservations:'' @ rq_event_id rq @ '':'' @ userId) 5 60 of
                      Inl e \<Rightarrow> (Reserve_failed, s)
                    | Inr (rl, r1) \<Rightarrow>
                        if \<not> allowed rl then
                          (Reserve_rate_limited (case retryAfter rl of None \<Rightarrow> 60 | Some n \<Rightarrow> n),
                           s\<lparr>redis := r1\<rparr>)
                        else
                          (case redis_get r1 now
                                  (''waiting_room_access:'' @ rq_event_id rq @ '':'' @ token) of
                             Inl e \<Rightarrow> (Reserve_failed, s\<lparr>redis := r1\<rparr>)
                           | Inr hasAccess \<Rightarrow>
                               if \<not> truthy_val hasAccess then (Not_admitted, s\<lparr>redis := r1\<rparr>)
                               else
                                 (case reserve_tx cfg now new_id (rq_event_id rq) tier_id quantity
                                         userId (db s) of
                                    (reply, d') \<Rightarrow> (reply, \<lparr>db = d', redis = r1\<rparr>)))))
      | other \<Rightarrow> (Missing_fields, s))"

text \<open>Invariant I1 at an instant: no tier holds or has sold more than its capacity.\<close>

definition no_oversell :: "database \<Rightarrow> instant \<Rightarrow> bool" where
  "no_oversell d now =
     (\<forall>t \<in> set (ticket_tiers d). reserved_qty d (t_id t) now + sold_qty d (t_id t) \<le> t_capacity t)"

subsection \<open>POST /checkout/sessions\<close>

text \<open>\<^verbatim>\<open>reservations r JOIN ticket_tiers t ON r.tier_id = t.id WHERE r.id = $1\<close>.\<close>

definition reservation_with_tier :: "database \<Rightarrow> uuid \<Rightarrow> (reservation \<times> ticket_tier) list" where
  "reservation_with_tier d rid =
     concat (map (\<lambda>r. map (\<lambda>t. (r, t)) (filter (\<lambda>t. t_id t = r_tier_id r) (ticket_tiers d)))
               (filter (\<lambda>r. r_id r = rid) (reservations d)))"

datatype session_reply =
    Session_created checkout_session reservation ticket_tier
  | Session_existing checkout_session reservation ticket_tier
  | Session_of_reservation checkout_session reservation ticket_tier
  | Session_rate_limited int
  | Session_error nat string

fun session_reply_status :: "session_reply \<Rightarrow> nat" where
  "session_reply_status (Session_created c r t) = 201"
| "session_reply_status (Session_existing c r t) = 200"
| "session_reply_status (Session_of_reservation c r t) = 200"
| "session_reply_status (Session_rate_limited n) = 429"
| "session_reply_status (Session_error code msg) = code"

fun session_reply_error :: "session_reply \<Rightarrow> string option" where
  "session_reply_error (Session_rate_limited n) = Some ''rate_limited''"
| "session_reply_error (Session_error code msg) = Some msg"
| "session_reply_error other = None"

fun session_reply_id :: "session_reply \<Rightarrow> uuid option" where
  "session_reply_id (Session_created c r t) = Some (cs_id c)"
| "session_reply_id (Session_existing c r t) = Some (cs_id c)"
| "session_reply_id (Session_of_reservation c r t) = Some (cs_id c)"
| "session_reply_id other = None"

definition set_reservation_status :: "uuid \<Rightarrow> reservation_status \<Rightarrow> database \<Rightarrow> database" where
  "set_reservation_status rid st d =
     d\<lparr>reservations := map (\<lambda>r. if r_id r = rid then r\<lparr>r_status := st\<rparr> else r) (reservations d)\<rparr>"

definition set_session_status :: "uuid \<Rightarrow> session_status \<Rightarrow> database \<Rightarrow> database" where
  "set_session_status cid st d =
     d\<lparr>checkout_sessions :=
          map (\<lambda>c. if cs_id c = cid then c\<lparr>cs_status := st\<rparr> else c) (checkout_sessions d)\<rparr>"

text \<open>\<^verbatim>\<open>UPDATE reservations SET expires_at = $1 WHERE id = $2 AND status = 'active'\<close>.\<close>

definition extend_reservation :: "uuid \<Rightarrow> instant \<Rightarrow> database \<Rightarrow> database" where
  "extend_reservation rid expiresAt d =
     d\<lparr>reservations :=
          map (\<lambda>r. if r_id r = rid \<and> r_status r = Active then r\<lparr>r_expires_at := expiresAt\<rparr> else r)
            (reservations d)\<rparr>"

text \<open>
  The queries of the handler, after the header checks and the rate limiter. They run on the
  pool with autocommit, outside any transaction and without a lock: what has been written
  stays when a later query raises, and other transactions can commit between any two of
  them. The handler is cut where that matters here. \<open>create_session_check\<close> is the part
  up to the test of \<^verbatim>\<open>now >= expiresAt\<close> and the lookup of a pending session, at the
  instant of \<^verbatim>\<open>const now = new Date()\<close>: it ends the request (\<open>Inl\<close>) or goes on with
  the reservation and the tier it has read (\<open>Inr\<close>).
\<close>

definition create_session_check ::
  "instant \<Rightarrow> string \<Rightarrow> uuid \<Rightarrow> database
     \<Rightarrow> (session_reply \<times> database) + (reservation \<times> ticket_tier)" where
  "create_session_check now idempotencyKey reservation_id d =
     (case filter (\<lambda>c. cs_idempotency_key c = idempotencyKey) (checkout_sessions d) of
        session # others \<Rightarrow>
          (case reservation_with_tier d (cs_reservation_id session) of
             [] \<Rightarrow> Inl (Session_error 404 ''Reservation not found'', d)
           | (r, t) # rows \<Rightarrow> Inl (Session_existing session r t, d))
      | [] \<Rightarrow>
          (case reservation_with_tier d reservation_id of
             [] \<Rightarrow> Inl (Session_error 404 ''Reservation not found'', d)
           | (reservation, tier) # rows \<Rightarrow>
               if r_status reservation \<noteq> Active then
                 Inl (Session_error 409 ''Reservation is not active'', d)
               else if now \<ge> r_expires_at reservation then
                 Inl (Session_error 409 ''Reservation has expired'',
                      set_reservation_status reservation_id Expired d)
               else
                 (case filter (\<lambda>c. cs_reservation_id c = reservation_id \<and> cs_status c = Pending)
                         (checkout_sessions d) of
                    existing # others \<Rightarrow> Inl (Session_of_reservation existing reservation tier, d)
                  | [] \<Rightarrow> Inr (reservation, tier))))"

text \<open>
  \<open>create_session_write\<close> is the rest, at the instant of
  \<^verbatim>\<open>const extendedExpiresAt = new Date()\<close> and on the database as it is then: the
  \<^verbatim>\<open>UPDATE\<close> of \<^verbatim>\<open>expires_at\<close>, which asks for the status \<^verbatim>\<open>active\<close> and not for
  \<^verbatim>\<open>expires_at\<close>, the \<^verbatim>\<open>SELECT\<close> of the updated row, and the \<^verbatim>\<open>INSERT\<close> of the session.
  \<open>new_id\<close> is the primary key of the new session; the \<^verbatim>\<open>INSERT\<close> raises the unique
  violation 23505 on a taken primary key or idempotency key, and the \<^verbatim>\<open>catch\<close> block then
  looks the idempotency key up again.
\<close>

definition create_session_write ::
  "time_zone \<Rightarrow> instant \<Rightarrow> uuid \<Rightarrow> string \<Rightarrow> uuid \<Rightarrow> ticket_tier \<Rightarrow> database
     \<Rightarrow> session_reply \<times> database" where
  "create_session_write tz now new_id idempotencyKey reservation_id tier d =
     (let d1 = extend_reservation reservation_id (setMinutes_plus tz now 3) d;
          session = \<lparr>cs_id = new_id, cs_reservation_id = reservation_id,
                     cs_idempotency_key = idempotencyKey, cs_status = Pending,
                     cs_created_at = now\<rparr>
      in
        if new_id \<in> set (map cs_id (checkout_sessions d1))
           \<or> idempotencyKey \<in> set (map cs_idempotency_key (checkout_sessions d1))
        then
          (case filter (\<lambda>c. cs_idempotency_key c = idempotencyKey) (checkout_sessions d1) of
             [] \<Rightarrow> (Session_error 500 ''Failed to create checkout session'', d1)
           | winner # others \<Rightarrow>
               (case reservation_with_tier d1 (cs_reservation_id winner) of
                  [] \<Rightarrow> (Session_error 500 ''Failed to create checkout session'', d1)
                | (r, t) # rows \<Rightarrow> (Session_existing winner r t, d1)))
        else
          (case filter (\<lambda>r. r_id r = reservation_id) (reservations d1) of
             [] \<Rightarrow>
               (Session_error 500 ''Failed to create checkout session'',
                d1\<lparr>checkout_sessions := checkout_sessions d1 @ [session]\<rparr>)
           | updatedReservation # others \<Rightarrow>
               (Session_created session updatedReservation tier,
                d1\<lparr>checkout_sessions := checkout_sessions d1 @ [session]\<rparr>)))"

text \<open>The handler run without another transaction in between: both parts at one instant on
  one database.\<close>

definition create_session_db ::
  "time_zone \<Rightarrow> instant \<Rightarrow> uuid \<Rightarrow> string \<Rightarrow> uuid \<Rightarrow> database \<Rightarrow> session_reply \<times> database" where
  "create_session_db tz now new_id idempotencyKey reservation_id d =
     (case create_session_check now idempotencyKey reservation_id d of
        Inl finished \<Rightarrow> finished
      | Inr (reservation, tier) \<Rightarrow>
          create_session_write tz now new_id idempotencyKey reservation_id tier d)"

record session_request =
  sq_idempotency_key :: "string option"
  sq_user_id :: "string option"
  sq_reservation_id :: "string option"

definition create_session ::
  "time_zone \<Rightarrow> instant \<Rightarrow> uuid \<Rightarrow> session_request \<Rightarrow> stores \<Rightarrow> session_reply \<times> stores" where
  "create_session tz now new_id rq s =
     (case sq_idempotency_key rq of
        None \<Rightarrow> (Session_error 400 ''Idempotency-Key header is required'', s)
      | Some idempotencyKey \<Rightarrow>
          if idempotencyKey = [] then (Session_error 400 ''Idempotency-Key header is required'', s)
          else
            (case sq_user_id rq of
               None \<Rightarrow> (Session_error 400 ''X-User-Id header is required'', s)
             | Some userId \<Rightarrow>
                 if userId = [] then (Session_error 400 ''X-User-Id header is required'', s)
                 else
                   (case rateLimit (redis s) now (''checkout:'' @ userId) 5 60 of
                      Inl e \<Rightarrow> (Session_error 500 ''Failed to create checkout session'', s)
                    | Inr (rl, r1) \<Rightarrow>
                        if \<not> allowed rl then
                          (Session_rate_limited (case retryAfter rl of None \<Rightarrow> 60 | Some n \<Rightarrow> n),
                           s\<lparr>redis := r1\<rparr>)
                        else
                          (case sq_reservation_id rq of
                             None \<Rightarrow> (Session_error 400 ''reservation_id is required'', s\<lparr>redis := r1\<rparr>)
                           | Some reservation_id \<Rightarrow>
                               if reservation_id = [] then
                                 (Session_error 400 ''reservation_id is required'', s\<lparr>redis := r1\<rparr>)
                               else
                                 (case create_session_db tz now new_id idempotencyKey
                                         reservation_id (db s) of
                                    (reply, d') \<Rightarrow> (reply, \<lparr>db = d', redis = r1\<rparr>))))))"

subsection \<open>POST /checkout/confirm\<close>

text \<open>
  \<open>hmac key msg\<close> stands for
  \<^verbatim>\<open>createHmac('sha256', key).update(msg).digest('hex')\<close> of the Node.js crypto module, and
  \<open>code\<close> for the value \<^verbatim>\<open>uuidv4()\<close> returns.
\<close>

definition generateTicket ::
  "(string \<Rightarrow> string \<Rightarrow> string) \<Rightarrow> string \<Rightarrow> string \<Rightarrow> uuid \<Rightarrow> uuid \<Rightarrow> string \<times> string" where
  "generateTicket hmac qr_secret code orderId eventId =
     (code, hmac qr_secret (code @ '':'' @ orderId @ '':'' @ eventId))"

datatype db_error = Unique_violation | Numeric_out_of_range | Feature_not_supported

text \<open>\<^verbatim>\<open>INSERT INTO tickets ... RETURNING *\<close>, under the primary key and the unique index
  \<^verbatim>\<open>uq_tickets_code\<close>.\<close>

definition insert_ticket :: "ticket \<Rightarrow> ticket list \<Rightarrow> db_error + ticket list" where
  "insert_ticket k ks =
     (if k_id k \<in> set (map k_id ks) \<or> k_code k \<in> set (map k_code ks) then Inl Unique_violation
      else Inr (ks @ [k]))"

fun insert_all_tickets :: "ticket list \<Rightarrow> ticket list \<Rightarrow> db_error + ticket list" where
  "insert_all_tickets [] ks = Inr ks"
| "insert_all_tickets (k # new) ks =
     (case insert_ticket k ks of
        Inl e \<Rightarrow> Inl e
      | Inr ks' \<Rightarrow> insert_all_tickets new ks')"

text \<open>\<^verbatim>\<open>sessions cs JOIN reservations r ON cs.reservation_id = r.id JOIN ticket_tiers t
  ON r.tier_id = t.id WHERE cs.id = $1\<close>.\<close>

definition session_join ::
  "database \<Rightarrow> uuid \<Rightarrow> (checkout_session \<times> reservation \<times> ticket_tier) list" where
  "session_join d cid =
     concat (map (\<lambda>c. map (\<lambda>(r, t). (c, r, t)) (reservation_with_tier d (cs_reservation_id c)))
               (filter (\<lambda>c. cs_id c = cid) (checkout_sessions d)))"

datatype confirm_reply =
    Order_created order_row "ticket list"
  | Order_exists order_row "ticket list" session_status
  | Payment_failed
  | Confirm_rate_limited int
  | Confirm_error nat string

fun confirm_status :: "confirm_reply \<Rightarrow> nat" where
  "confirm_status (Order_created ord ks) = 201"
| "confirm_status (Order_exists ord ks st) = 200"
| "confirm_status Payment_failed = 200"
| "confirm_status (Confirm_rate_limited n) = 429"
| "confirm_status (Confirm_error code msg) = code"

fun confirm_error :: "confirm_reply \<Rightarrow> string option" where
  "confirm_error (Confirm_rate_limited n) = Some ''rate_limited''"
| "confirm_error (Confirm_error code msg) = Some msg"
| "confirm_error other = None"

fun confirm_order :: "confirm_reply \<Rightarrow> order_row option" where
  "confirm_order (Order_created ord ks) = Some ord"
| "confirm_order (Order_exists ord ks st) = Some ord"
| "confirm_order other = None"

fun confirm_tickets :: "confirm_reply \<Rightarrow> ticket list" where
  "confirm_tickets (Order_created ord ks) = ks"
| "confirm_tickets (Order_exists ord ks st) = ks"
| "confirm_tickets other = []"

fun session_status_name :: "session_status \<Rightarrow> string" where
  "session_status_name Pending = ''pending''"
| "session_status_name Completed = ''completed''"
| "session_status_name Failed = ''failed''"
| "session_status_name Session_expired = ''expired''"

text \<open>The identifiers handed out while one confirmation runs: the primary key of the
  order, and for the i-th ticket its primary key and the value of \<^verbatim>\<open>uuidv4()\<close>.\<close>

record confirm_ids =
  new_order_id :: uuid
  new_ticket_id :: "nat \<Rightarrow> uuid"
  new_code :: "nat \<Rightarrow> uuid"

definition make_ticket ::
  "(string \<Rightarrow> string \<Rightarrow> string) \<Rightarrow> string \<Rightarrow> instant \<Rightarrow> confirm_ids \<Rightarrow> uuid \<Rightarrow> uuid \<Rightarrow> uuid
     \<Rightarrow> string \<Rightarrow> nat \<Rightarrow> ticket" where
  "make_ticket hmac qr_secret now ids orderId eventId tierId userToken i =
     (case generateTicket hmac qr_secret (new_code ids i) orderId eventId of
        (code, qr_sig) \<Rightarrow>
          \<lparr>k_id = new_ticket_id ids i, k_order_id = orderId, k_event_id = eventId,
           k_tier_id = tierId, k_user_token = userToken, k_code = code, k_qr_sig = qr_sig,
           k_created_at = now\<rparr>)"

record confirm_request =
  cq_checkout_id :: "string option"
  cq_simulate :: "string option"
  cq_user_id :: "string option"

definition new_order ::
  "instant \<Rightarrow> confirm_ids \<Rightarrow> uuid \<Rightarrow> checkout_session \<Rightarrow> reservation \<Rightarrow> ticket_tier \<Rightarrow> order_row" where
  "new_order now ids checkout_id session joined tier =
     \<lparr>o_id = new_order_id ids,
      o_checkout_session_id = checkout_id,
      o_reservation_id = cs_reservation_id session,
      o_event_id = r_event_id joined,
      o_tier_id = r_tier_id joined,
      o_user_token = r_user_token joined,
      o_quantity = r_quantity joined,
      o_total_price_cents = r_quantity joined * t_price_cents tier,
      o_status = Paid,
      o_created_at = now\<rparr>"

text \<open>The loop \<^verbatim>\<open>for (let i = 0; i < session.quantity; i++)\<close>.\<close>

definition generate_tickets ::
  "(string \<Rightarrow> string \<Rightarrow> string) \<Rightarrow> string \<Rightarrow> instant \<Rightarrow> confirm_ids \<Rightarrow> uuid \<Rightarrow> reservation
     \<Rightarrow> ticket list" where
  "generate_tickets hmac qr_secret now ids orderId joined =
     map (make_ticket hmac qr_secret now ids orderId (r_event_id joined) (r_tier_id joined)
            (r_user_token joined))
       [0 ..< r_quantity joined]"

text \<open>\<^verbatim>\<open>INSERT INTO orders ... RETURNING *\<close>: the primary key is unique, and
  \<^verbatim>\<open>total_price_cents\<close> is an \<^verbatim>\<open>INTEGER\<close> column, which refuses a value above
  2147483647.\<close>

definition insert_order :: "order_row \<Rightarrow> order_row list \<Rightarrow> db_error + order_row list" where
  "insert_order ord os =
     (if o_id ord \<in> set (map o_id os) then Inl Unique_violation
      else if o_total_price_cents ord > 2147483647 then Inl Numeric_out_of_range
      else Inr (os @ [ord]))"

text \<open>The branch \<^verbatim>\<open>// Simulate payment\<close>, entered with the session pending and the locked
  reservation active and not expired, up to \<^verbatim>\<open>COMMIT\<close>, on the database as it is then.
  A statement that raises reaches the \<^verbatim>\<open>catch\<close> block: \<^verbatim>\<open>ROLLBACK\<close> and 500.\<close>

definition confirm_payment ::
  "(string \<Rightarrow> string \<Rightarrow> string) \<Rightarrow> string \<Rightarrow> instant \<Rightarrow> confirm_ids \<Rightarrow> string option \<Rightarrow> uuid
     \<Rightarrow> checkout_session \<Rightarrow> reservation \<Rightarrow> ticket_tier \<Rightarrow> database \<Rightarrow> confirm_reply \<times> database" where
  "confirm_payment hmac qr_secret now ids simulate checkout_id session joined tier d =
     (if simulate = Some ''success'' then
        let ord = new_order now ids checkout_id session joined tier;
            existingTickets = filter (\<lambda>k. k_order_id k = o_id ord) (tickets d);
            generated = generate_tickets hmac qr_secret now ids (o_id ord) joined
        in
          case insert_order ord (orders d) of
            Inl e \<Rightarrow> (Confirm_error 500 ''Failed to confirm checkout'', d)
          | Inr os \<Rightarrow>
              (case (if existingTickets = []
                     then insert_all_tickets generated (tickets d)
                     else Inr (tickets d)) of
                 Inl e \<Rightarrow> (Confirm_error 500 ''Failed to confirm checkout'', d)
               | Inr ks \<Rightarrow>
                   (Order_created ord (if existingTickets = [] then generated else existingTickets),
                    set_reservation_status (cs_reservation_id session) Converted
                      (set_session_status checkout_id Completed
                         (d\<lparr>orders := os, tickets := ks\<rparr>))))
      else
        (Payment_failed,
         set_reservation_status (cs_reservation_id session) Canceled
           (set_session_status checkout_id Failed d)))"

text \<open>
  The transaction up to the test of \<^verbatim>\<open>now >= expiresAt\<close>: it reads the session and its
  order without a lock, locks the row of the reservation \<^verbatim>\<open>FOR UPDATE\<close> and decides at
  the instant of \<^verbatim>\<open>const now = new Date()\<close>. It ends the request (\<open>Inl\<close>) or goes on to
  the payment with the rows it has read (\<open>Inr\<close>). The lock holds off another confirmation
  of the reservation; it does not hold off a reservation of the tier.
\<close>

definition confirm_decide ::
  "instant \<Rightarrow> confirm_request \<Rightarrow> database
     \<Rightarrow> (confirm_reply \<times> database) + (uuid \<times> checkout_session \<times> reservation \<times> ticket_tier)" where
  "confirm_decide now rq d =
     (if \<not> truthy (cq_checkout_id rq) then Inl (Confirm_error 400 ''checkout_id is required'', d)
      else if cq_simulate rq \<noteq> Some ''success'' \<and> cq_simulate rq \<noteq> Some ''fail'' then
        Inl (Confirm_error 400
               (''simulate must be '' @ [CHR 0x22] @ ''success'' @ [CHR 0x22] @ '' or ''
                  @ [CHR 0x22] @ ''fail'' @ [CHR 0x22]), d)
      else
        let checkout_id = js_or (cq_checkout_id rq) [] in
        (case session_join d checkout_id of
           [] \<Rightarrow> Inl (Confirm_error 404 ''Checkout session not found'', d)
         | (session, joined, tier) # rows \<Rightarrow>
             (case filter (\<lambda>x. o_checkout_session_id x = checkout_id) (orders d) of
                ord # others \<Rightarrow>
                  Inl (Order_exists ord (filter (\<lambda>k. k_order_id k = o_id ord) (tickets d))
                         (cs_status session), d)
              | [] \<Rightarrow>
                  if cs_status session \<noteq> Pending then
                    Inl (Confirm_error 409
                           (''Checkout session is not pending (status: ''
                              @ session_status_name (cs_status session) @ '')''), d)
                  else
                    (case filter (\<lambda>r. r_id r = cs_reservation_id session) (reservations d) of
                       [] \<Rightarrow>
                         Inl (Confirm_error 404 ''reservation_expired_or_invalid'',
                              set_session_status checkout_id Failed d)
                     | reservation # others \<Rightarrow>
                         if r_status reservation \<noteq> Active then
                           Inl (Confirm_error 409 ''reservation_expired_or_invalid'',
                                set_session_status checkout_id Failed d)
                         else if now \<ge> r_expires_at reservation then
                           Inl (Confirm_error 409 ''reservation_expired_or_invalid'',
                                set_session_status checkout_id Session_expired
                                  (set_reservation_status (r_id reservation) Expired d))
                         else Inr (checkout_id, session, joined, tier)))))"

text \<open>The transaction run without another transaction in between: decision and payment at
  one instant on one database.\<close>

definition confirm_tx ::
  "(string \<Rightarrow> string \<Rightarrow> string) \<Rightarrow> string \<Rightarrow> instant \<Rightarrow> confirm_ids \<Rightarrow> confirm_request \<Rightarrow> database
     \<Rightarrow> confirm_reply \<times> database" where
  "confirm_tx hmac qr_secret now ids rq d =
     (case confirm_decide now rq d of
        Inl finished \<Rightarrow> finished
      | Inr (checkout_id, session, joined, tier) \<Rightarrow>
          confirm_payment hmac qr_secret now ids (cq_simulate rq) checkout_id session joined tier d)"

definition confirm ::
  "(string \<Rightarrow> string \<Rightarrow> string) \<Rightarrow> string \<Rightarrow> instant \<Rightarrow> confirm_ids \<Rightarrow> confirm_request \<Rightarrow> stores
     \<Rightarrow> confirm_reply \<times> stores" where
  "confirm hmac qr_secret now ids rq s =
     (if truthy (cq_user_id rq) then
        (case rateLimit (redis s) now (''checkout_confirm:'' @ js_or (cq_user_id rq) []) 10 60 of
           Inl e \<Rightarrow> (Confirm_error 500 ''Failed to confirm checkout'', s)
         | Inr (rl, r1) \<Rightarrow>
             if \<not> allowed rl then
               (Confirm_rate_limited (case retryAfter rl of None \<Rightarrow> 60 | Some n \<Rightarrow> n),
                s\<lparr>redis := r1\<rparr>)
             else
               (case confirm_tx hmac qr_secret now ids rq (db s) of
                  (reply, d') \<Rightarrow> (reply, \<lparr>db = d', redis = r1\<rparr>)))
      else
        (case confirm_tx hmac qr_secret now ids rq (db s) of
           (reply, d') \<Rightarrow> (reply, s\<lparr>db := d'\<rparr>)))"

subsection \<open>Expiration worker\<close>

text \<open>Pass A: \<^verbatim>\<open>UPDATE reservations SET status = 'expired' WHERE status = 'active' AND
  expires_at <= NOW()\<close>.\<close>

definition expire_reservations :: "instant \<Rightarrow> database \<Rightarrow> database" where
  "expire_reservations now d =
     d\<lparr>reservations :=
          map (\<lambda>r. if r_status r = Active \<and> r_expires_at r \<le> now then r\<lparr>r_status := Expired\<rparr> else r)
            (reservations d)\<rparr>"

text \<open>Pass B inserts with \<^verbatim>\<open>ON CONFLICT (code) DO NOTHING\<close>: a taken code skips the row, a
  taken primary key still raises.\<close>

definition insert_ticket_on_conflict_do_nothing :: "ticket \<Rightarrow> ticket list \<Rightarrow> db_error + ticket list" where
  "insert_ticket_on_conflict_do_nothing k ks =
     (if k_code k \<in> set (map k_code ks) then Inr ks
      else if k_id k \<in> set (map k_id ks) then Inl Unique_violation
      else Inr (ks @ [k]))"

fun repair_order ::
  "(string \<Rightarrow> string \<Rightarrow> string) \<Rightarrow> string \<Rightarrow> instant \<Rightarrow> confirm_ids \<Rightarrow> order_row \<Rightarrow> nat \<Rightarrow> nat
     \<Rightarrow> ticket list \<Rightarrow> db_error + ticket list" where
  "repair_order hmac qr_secret now ids ord n 0 ks = Inr ks"
| "repair_order hmac qr_secret now ids ord n (Suc missing) ks =
     (case insert_ticket_on_conflict_do_nothing
             (make_ticket hmac qr_secret now ids (o_id ord) (o_event_id ord) (o_tier_id ord)
                (o_user_token ord) n) ks of
        Inl e \<Rightarrow> Inl e
      | Inr ks' \<Rightarrow> repair_order hmac qr_secret now ids ord (Suc n) missing ks')"

text \<open>The loop over the orders the \<^verbatim>\<open>SELECT ... FOR UPDATE\<close> returned, each with the ticket
  count it had then; \<open>n\<close> counts the identifiers used so far.\<close>

fun repair_orders ::
  "(string \<Rightarrow> string \<Rightarrow> string) \<Rightarrow> string \<Rightarrow> instant \<Rightarrow> confirm_ids \<Rightarrow> (order_row \<times> nat) list
     \<Rightarrow> nat \<Rightarrow> ticket list \<Rightarrow> db_error + ticket list" where
  "repair_orders hmac qr_secret now ids [] n ks = Inr ks"
| "repair_orders hmac qr_secret now ids ((ord, ticket_count) # rest) n ks =
     (case repair_order hmac qr_secret now ids ord n (o_quantity ord - ticket_count) ks of
        Inl e \<Rightarrow> Inl e
      | Inr ks' \<Rightarrow>
          repair_orders hmac qr_secret now ids rest (n + (o_quantity ord - ticket_count)) ks')"

text \<open>
  The \<^verbatim>\<open>SELECT\<close> of pass B (paid orders with fewer tickets than their quantity, each with
  its ticket count) ends in \<^verbatim>\<open>FOR UPDATE\<close> without \<^verbatim>\<open>OF\<close>, which reaches the grouped
  subquery on the nullable side of its \<^verbatim>\<open>LEFT JOIN\<close>. PostgreSQL refuses such a statement
  when it plans it, whatever the tables hold (error 0A000), and the \<^verbatim>\<open>catch\<close> block of
  pass B rolls back.
\<close>

definition ordersWithoutTickets :: "database \<Rightarrow> db_error + (order_row \<times> nat) list" where
  "ordersWithoutTickets d = Inl Feature_not_supported"

text \<open>Pass A commits before pass B begins.\<close>

definition runExpirationWorker ::
  "(string \<Rightarrow> string \<Rightarrow> string) \<Rightarrow> string \<Rightarrow> instant \<Rightarrow> confirm_ids \<Rightarrow> database \<Rightarrow> database" where
  "runExpirationWorker hmac qr_secret now ids d =
     (let d1 = expire_reservations now d in
      case ordersWithoutTickets d1 of
        Inl e \<Rightarrow> d1
      | Inr rows \<Rightarrow>
          (case repair_orders hmac qr_secret now ids rows 0 (tickets d1) of
             Inl e \<Rightarrow> d1
           | Inr ks \<Rightarrow> d1\<lparr>tickets := ks\<rparr>))"

subsection \<open>GET /events/:id/reservations\<close>

record lookup_request =
  lq_event_id :: uuid
  lq_token :: "string option"
  lq_user_id :: "string option"

datatype lookup_reply =
    Active_reservation reservation ticket_tier int
  | Lookup_error nat string

text \<open>The rows of the query for a user id, before \<^verbatim>\<open>ORDER BY r.created_at DESC LIMIT 1\<close>.\<close>

definition active_reservations_of :: "database \<Rightarrow> uuid \<Rightarrow> string \<Rightarrow> instant \<Rightarrow> (reservation \<times> ticket_tier) list" where
  "active_reservations_of d eid userId now =
     concat (map (\<lambda>r. map (\<lambda>t. (r, t)) (filter (\<lambda>t. t_id t = r_tier_id r) (ticket_tiers d)))
               (filter (\<lambda>r. r_event_id r = eid \<and> r_user_token r = userId \<and> r_status r = Active
                            \<and> now < r_expires_at r) (reservations d)))"

definition lookup_active :: "instant \<Rightarrow> lookup_request \<Rightarrow> stores \<Rightarrow> lookup_reply" where
  "lookup_active now rq s =
     (if \<not> truthy (lq_token rq) then Lookup_error 400 ''Token is required''
      else
        let token = js_or (lq_token rq) [];
            userId = js_or (lq_user_id rq) token
        in
          case sort_key (\<lambda>(r, t). - r_created_at r)
                 (active_reservations_of (db s) (lq_event_id rq) userId now) of
            [] \<Rightarrow> Lookup_error 404 ''No active reservation found''
          | (r, t) # rows \<Rightarrow> Active_reservation r t (max 0 ((r_expires_at r - now) div 1000)))"

subsection \<open>Waiting room\<close>

text \<open>\<^verbatim>\<open>Math.ceil(a / b)\<close> on integers, for \<open>b \<noteq> 0\<close>.\<close>

definition ceil_div :: "int \<Rightarrow> int \<Rightarrow> int" where
  "ceil_div a b = - ((- a) div b)"

definition canEnterWave :: "int option \<Rightarrow> int option \<Rightarrow> bool" where
  "canEnterWave position admittedEnd =
     (case (position, admittedEnd) of
        (Some p, Some a) \<Rightarrow> if a = 0 then False else p \<le> a
      | other \<Rightarrow> False)"

definition estimateETA :: "int option \<Rightarrow> int \<Rightarrow> int \<Rightarrow> int \<Rightarrow> int" where
  "estimateETA position admittedEnd wave_size advanceIntervalMs =
     (case position of
        None \<Rightarrow> 0
      | Some p \<Rightarrow>
          if p \<le> admittedEnd then 0
          else
            let positionsAhead = max 0 (p - admittedEnd);
                wavesAhead = ceil_div positionsAhead wave_size;
                secondsPerWave = ceil_div advanceIntervalMs 1000
            in wavesAhead * secondsPerWave)"

text \<open>\<^verbatim>\<open>parseInt((await redis.get(key)) || '0', 10)\<close>, as far as the handler tells the
  results apart: a missing key and a value that is no number both fail the test
  \<^verbatim>\<open>if (!n)\<close>, like 0.\<close>

definition parse_int_or_0 :: "rval option \<Rightarrow> int" where
  "parse_int_or_0 v = (case v of Some (RInt n) \<Rightarrow> n | other \<Rightarrow> 0)"

datatype join_reply =
    Joined string
  | Join_rate_limited int
  | Join_error nat string

record join_request =
  jq_event_id :: uuid
  jq_client_ip :: string
  jq_user_id :: "string option"

text \<open>\<open>token\<close> is the value \<^verbatim>\<open>uuidv4()\<close> returns. A Redis command that raises ends the
  handler with 500; what the commands before it wrote stays.\<close>

definition join :: "app_config \<Rightarrow> instant \<Rightarrow> string \<Rightarrow> join_request \<Rightarrow> stores \<Rightarrow> join_reply \<times> stores" where
  "join cfg now token rq s =
     (case rateLimit (redis s) now (''join:'' @ jq_client_ip rq @ '':'' @ jq_event_id rq) 10 60 of
        Inl e \<Rightarrow> (Join_error 500 ''Failed to join waiting room'', s)
      | Inr (rl, r1) \<Rightarrow>
          if \<not> allowed rl then
            (Join_rate_limited (case retryAfter rl of None \<Rightarrow> 60 | Some n \<Rightarrow> n), s\<lparr>redis := r1\<rparr>)
          else
            let canonicalUserId = js_or (jq_user_id rq) token in
            (case filter (\<lambda>e. e_id e = jq_event_id rq \<and> e_status e \<noteq> Draft) (events (db s)) of
               [] \<Rightarrow> (Join_error 404 ''Event not found'', s\<lparr>redis := r1\<rparr>)
             | ev # evs \<Rightarrow>
                 (case redis_set_ex r1 now (''waiting_room:'' @ jq_event_id rq @ '':'' @ token)
                         (RTok \<lparr>td_eventId = jq_event_id rq, td_token = token,
                                td_userId = canonicalUserId, td_joinedAt = now\<rparr>)
                         (tokenTtlSeconds cfg) of
                    Inl e \<Rightarrow> (Join_error 500 ''Failed to join waiting room'', s\<lparr>redis := r1\<rparr>)
                  | Inr r2 \<Rightarrow>
                      (case redis_zadd r2 now (''waiting_room:queue:'' @ jq_event_id rq) now token of
                         Inl e \<Rightarrow> (Join_error 500 ''Failed to join waiting room'', s\<lparr>redis := r2\<rparr>)
                       | Inr r3 \<Rightarrow>
                           (case redis_expire r3 now (''waiting_room:queue:'' @ jq_event_id rq)
                                   (tokenTtlSeconds cfg) of
                              Inl e \<Rightarrow> (Join_error 500 ''Failed to join waiting room'', s\<lparr>redis := r3\<rparr>)
                            | Inr r4 \<Rightarrow>
                                (case redis_incr r4 now (''queue_size:'' @ jq_event_id rq) of
                                   Inl e \<Rightarrow>
                                     (Join_error 500 ''Failed to join waiting room'', s\<lparr>redis := r4\<rparr>)
                                 | Inr (n, r5) \<Rightarrow>
                                     if now \<ge> e_on_sale_at ev then
                                       (case redis_del r5 (''positions_assigned:'' @ jq_event_id rq) of
                                          Inl e \<Rightarrow>
                                            (Join_error 500 ''Failed to join waiting room'',
                                             s\<lparr>redis := r5\<rparr>)
                                        | Inr r6 \<Rightarrow> (Joined token, s\<lparr>redis := r6\<rparr>))
                                     else (Joined token, s\<lparr>redis := r5\<rparr>)))))))"

text \<open>
  The block \<^verbatim>\<open>// Manage wave progression\<close> of the status handler: it returns the cursor
  \<^verbatim>\<open>waveEnd\<close> it ends with and the store it has written. A command that raises returns the
  store written so far.
\<close>

definition wave_progress ::
  "app_config \<Rightarrow> instant \<Rightarrow> uuid \<Rightarrow> int \<Rightarrow> redis_store \<Rightarrow> (redis_store + int \<times> redis_store)" where
  "wave_progress cfg nowMs eid queueTotal r =
     (let waveEndKey = ''queue_wave_end:'' @ eid;
          waveAdvanceKey = ''queue_wave_last_advance:'' @ eid
      in
        case redis_get r nowMs waveEndKey of
          Inl e \<Rightarrow> Inl r
        | Inr stored \<Rightarrow>
            (case (if parse_int_or_0 stored = 0 then
                     (let waveEnd = min (if queueTotal = 0 then waveSize cfg else queueTotal) (waveSize cfg) in
                      if waveEnd > 0 then
                        (case redis_set r waveEndKey (RInt waveEnd) of
                           Inl e \<Rightarrow> Inl r
                         | Inr r1 \<Rightarrow>
                             (case redis_set r1 waveAdvanceKey (RInt nowMs) of
                                Inl e \<Rightarrow> Inl r1
                              | Inr r2 \<Rightarrow> Inr (waveEnd, r2)))
                      else Inr (waveEnd, r))
                   else Inr (parse_int_or_0 stored, r)) of
               Inl r' \<Rightarrow> Inl r'
             | Inr (waveEnd, r2) \<Rightarrow>
                 if queueTotal > waveEnd then
                   (case redis_get r2 nowMs waveAdvanceKey of
                      Inl e \<Rightarrow> Inl r2
                    | Inr storedAdvance \<Rightarrow>
                        let lastAdvance = parse_int_or_0 storedAdvance in
                        if lastAdvance = 0 \<or> nowMs - lastAdvance \<ge> waveAdvanceIntervalMs cfg then
                          (let newWaveEnd = min queueTotal (waveEnd + waveSize cfg) in
                           if newWaveEnd \<noteq> waveEnd then
                             (case redis_set r2 waveEndKey (RInt newWaveEnd) of
                                Inl e \<Rightarrow> Inl r2
                              | Inr r3 \<Rightarrow>
                                  (case redis_set r3 waveAdvanceKey (RInt nowMs) of
                                     Inl e \<Rightarrow> Inl r3
                                   | Inr r4 \<Rightarrow> Inr (newWaveEnd, r4)))
                           else Inr (waveEnd, r2))
                        else Inr (waveEnd, r2))
                 else Inr (waveEnd, r2)))"

record status_request =
  st_event_id :: uuid
  st_token :: "string option"

datatype status_reply =
    Status_waiting instant int bool
  | Status_open instant "int option" int bool int bool
  | Status_error nat string

text \<open>\<open>Status_waiting onSaleAt secondsUntilOnSale paused\<close> and
  \<open>Status_open onSaleAt position queueTotal canEnter etaSeconds paused\<close>.\<close>

definition status :: "app_config \<Rightarrow> instant \<Rightarrow> status_request \<Rightarrow> stores \<Rightarrow> status_reply \<times> stores" where
  "status cfg now rq s =
     (if \<not> truthy (st_token rq) then (Status_error 400 ''Token is required'', s)
      else
        let token = js_or (st_token rq) [];
            eid = st_event_id rq;
            failed = Status_error 500 ''Failed to get waiting room status''
        in
        (case filter (\<lambda>e. e_id e = eid \<and> e_status e \<noteq> Draft) (events (db s)) of
           [] \<Rightarrow> (Status_error 404 ''Event not found'', s)
         | ev # evs \<Rightarrow>
             (case redis_get (redis s) now (''waiting_room:'' @ eid @ '':'' @ token) of
                Inl e \<Rightarrow> (failed, s)
              | Inr tokenData \<Rightarrow>
                  if \<not> truthy_val tokenData then (Status_error 404 ''Invalid or expired token'', s)
                  else if now < e_on_sale_at ev then
                    (Status_waiting (e_on_sale_at ev) (max 0 ((e_on_sale_at ev - now) div 1000))
                       (e_paused ev), s)
                  else
                    (case redis_zcard (redis s) now (''waiting_room:queue:'' @ eid) of
                       Inl e \<Rightarrow> (failed, s)
                     | Inr queueTotal \<Rightarrow>
                         (case redis_zrank (redis s) now (''waiting_room:queue:'' @ eid) token of
                            Inl e \<Rightarrow> (failed, s)
                          | Inr rank \<Rightarrow>
                              let position = map_option (\<lambda>i. i + 1) rank in
                              (case wave_progress cfg now eid queueTotal (redis s) of
                                 Inl r' \<Rightarrow> (failed, s\<lparr>redis := r'\<rparr>)
                               | Inr (waveEnd, r1) \<Rightarrow>
                                   let canEnter =
                                         (if position \<noteq> None \<and> queueTotal > 0
                                          then canEnterWave position (Some waveEnd) \<and> \<not> e_paused ev
                                          else False)
                                         \<and> \<not> e_paused ev;
                                       etaSeconds =
                                         (if position \<noteq> None \<and> queueTotal > 0
                                          then estimateETA position waveEnd (waveSize cfg)
                                                 (waveAdvanceIntervalMs cfg)
                                          else 0)
                                   in
                                     if canEnter then
                                       (case redis_set_ex r1 now
                                               (''waiting_room_access:'' @ eid @ '':'' @ token)
                                               (RStr ''1'') (accessTtlSeconds cfg) of
                                          Inl e \<Rightarrow> (failed, s\<lparr>redis := r1\<rparr>)
                                        | Inr r2 \<Rightarrow>
                                            (Status_open (e_on_sale_at ev) position queueTotal canEnter
                                               etaSeconds (e_paused ev), s\<lparr>redis := r2\<rparr>))
                                     else
                                       (Status_open (e_on_sale_at ev) position queueTotal canEnter
                                          etaSeconds (e_paused ev), s\<lparr>redis := r1\<rparr>)))))))"

subsection \<open>Runs of the core operations\<close>

datatype operation =
    Op_reserve uuid reserve_request
  | Op_create_session uuid session_request
  | Op_confirm confirm_ids confirm_request
  | Op_worker confirm_ids
  | Op_join string join_request
  | Op_status status_request

text \<open>One operation at an instant; the replies are dropped.\<close>

fun step ::
  "app_config \<Rightarrow> (string \<Rightarrow> string \<Rightarrow> string) \<Rightarrow> string \<Rightarrow> instant \<Rightarrow> operation \<Rightarrow> stores \<Rightarrow> stores" where
  "step cfg hmac qr_secret now (Op_reserve new_id rq) s = snd (reserve cfg now new_id rq s)"
| "step cfg hmac qr_secret now (Op_create_session new_id rq) s =
     snd (create_session (timeZone cfg) now new_id rq s)"
| "step cfg hmac qr_secret now (Op_confirm ids rq) s = snd (confirm hmac qr_secret now ids rq s)"
| "step cfg hmac qr_secret now (Op_worker ids) s =
     s\<lparr>db := runExpirationWorker hmac qr_secret now ids (db s)\<rparr>"
| "step cfg hmac qr_secret now (Op_join token rq) s = snd (join cfg now token rq s)"
| "step cfg hmac qr_secret now (Op_status rq) s = snd (status cfg now rq s)"

text \<open>A schedule: operations in the order in which they take effect, each with its instant.
  The clock never runs backwards.\<close>

fun run ::
  "app_config \<Rightarrow> (string \<Rightarrow> string \<Rightarrow> string) \<Rightarrow> string \<Rightarrow> (instant \<times> operation) list \<Rightarrow> stores
     \<Rightarrow> stores" where
  "run cfg hmac qr_secret [] s = s"
| "run cfg hmac qr_secret ((now, op) # rest) s =
     run cfg hmac qr_secret rest (step cfg hmac qr_secret now op s)"

fun clock_ok :: "instant \<Rightarrow> (instant \<times> operation) list \<Rightarrow> bool" where
  "clock_ok t [] = True"
| "clock_ok t ((now, op) # rest) = (t \<le> now \<and> clock_ok now rest)"

text \<open>Any number of reservation requests taking effect one after the other, with their
  replies.\<close>

fun reserve_all ::
  "app_config \<Rightarrow> (instant \<times> uuid \<times> reserve_request) list \<Rightarrow> stores \<Rightarrow> reserve_reply list \<times> stores" where
  "reserve_all cfg [] s = ([], s)"
| "reserve_all cfg ((now, new_id, rq) # rest) s =
     (case reserve cfg now new_id rq s of
        (reply, s1) \<Rightarrow>
          (case reserve_all cfg rest s1 of
             (replies, s2) \<Rightarrow> (reply # replies, s2)))"

fun granted :: "uuid \<Rightarrow> reserve_reply \<Rightarrow> nat" where
  "granted tid (Reserved row) = (if r_tier_id row = tid then r_quantity row else 0)"
| "granted tid other = 0"

subsection \<open>Schema constraints\<close>

text \<open>Primary keys, the unique index on idempotency keys, and the foreign key of tickets
  into orders.\<close>

definition primary_keys :: "database \<Rightarrow> bool" where
  "primary_keys d =
     (distinct (map t_id (ticket_tiers d)) \<and> distinct (map r_id (reservations d))
      \<and> distinct (map cs_id (checkout_sessions d)) \<and> distinct (map o_id (orders d)))"

definition tickets_reference_orders :: "database \<Rightarrow> bool" where
  "tickets_reference_orders d = (\<forall>k \<in> set (tickets d). k_order_id k \<in> set (map o_id (orders d)))"

text \<open>Invariant I4.\<close>

definition session_uniqueness :: "database \<Rightarrow> bool" where
  "session_uniqueness d =
     (distinct (map cs_idempotency_key (checkout_sessions d))
      \<and> distinct (map o_checkout_session_id (orders d)))"

fun final_instant :: "instant \<Rightarrow> (instant \<times> operation) list \<Rightarrow> instant" where
  "final_instant t [] = t"
| "final_instant t ((now, op) # rest) = final_instant now rest"

text \<open>The quantity of a tier held by reservations that stay active until \<open>tlim\<close>.\<close>

definition held_until :: "database \<Rightarrow> uuid \<Rightarrow> instant \<Rightarrow> nat" where
  "held_until d tid tlim =
     sum_list (map r_quantity
       (filter (\<lambda>r. r_tier_id r = tid \<and> r_status r = Active \<and> tlim \<le> r_expires_at r)
          (reservations d)))"

text \<open>The limiter answers, and allows the call.\<close>

definition limiter_admits :: "redis_store \<Rightarrow> instant \<Rightarrow> string \<Rightarrow> int \<Rightarrow> bool" where
  "limiter_admits r now key limit =
     (case rateLimit r now key limit 60 of Inl e \<Rightarrow> False | Inr (rl, r') \<Rightarrow> allowed rl)"

subsection \<open>A small installation\<close>

text \<open>One event on sale with one tier, two admitted waiting-room tokens, no sales yet.\<close>

definition ex_event :: event where
  "ex_event = \<lparr>e_id = ''e1'', e_status = On_sale, e_paused = False, e_on_sale_at = 0\<rparr>"

definition ex_tier :: ticket_tier where
  "ex_tier = \<lparr>t_id = ''t1'', t_event_id = ''e1'', t_name = ''GA'', t_price_cents = 5000,
               t_capacity = 4, t_per_user_limit = 4\<rparr>"

definition ex_db :: database where
  "ex_db = \<lparr>events = [ex_event], ticket_tiers = [ex_tier], reservations = [],
            checkout_sessions = [], orders = [], tickets = []\<rparr>"

definition ex_redis :: redis_store where
  "ex_redis =
     \<lparr>up = True,
      kv = [''waiting_room_access:e1:k1'' \<mapsto> (RStr ''1'', Some 500000),
            ''waiting_room_access:e1:k2'' \<mapsto> (RStr ''1'', Some 500000)]\<rparr>"

definition ex_stores :: stores where
  "ex_stores = \<lparr>db = ex_db, redis = ex_redis\<rparr>"

definition ex_reserve :: "string \<Rightarrow> string \<Rightarrow> int \<Rightarrow> reserve_request" where
  "ex_reserve userId token quantity =
     \<lparr>rq_event_id = ''e1'', rq_tier_id = Some ''t1'', rq_quantity = Some quantity,
      rq_token = Some token, rq_user_id = Some userId\<rparr>"

definition ex_ids :: confirm_ids where
  "ex_ids = \<lparr>new_order_id = ''o1'',
             new_ticket_id = (\<lambda>i. ''k'' @ show_nat i),
             new_code = (\<lambda>i. ''c'' @ show_nat i)\<rparr>"

text \<open>A stand-in for HMAC-SHA256 in worked examples.\<close>

definition ex_hmac :: "string \<Rightarrow> string \<Rightarrow> string" where
  "ex_hmac key msg = key @ ''/'' @ msg"

text \<open>The installation after alice has reserved three of the four tickets at instant 1000.\<close>

definition ex_held :: reservation where
  "ex_held =
     \<lparr>r_id = ''r1'', r_event_id = ''e1'', r_tier_id = ''t1'', r_user_token = ''alice'',
      r_quantity = 3, r_status = Active, r_expires_at = 181000, r_created_at = 1000\<rparr>"

definition ex_db_held :: database where
  "ex_db_held = ex_db\<lparr>reservations := [ex_held]\<rparr>"

text \<open>Bob's hold of three tickets, taken at instant 181000, when alice's hold has run out,
  and the table with both holds.\<close>

definition ex_held_bob :: reservation where
  "ex_held_bob =
     \<lparr>r_id = ''r2'', r_event_id = ''e1'', r_tier_id = ''t1'', r_user_token = ''bob'',
      r_quantity = 3, r_status = Active, r_expires_at = 361000, r_created_at = 181000\<rparr>"

definition ex_db_both :: database where
  "ex_db_both = ex_db\<lparr>reservations := [ex_held, ex_held_bob]\<rparr>"

text \<open>The table after alice's hold has been extended at instant 181001 and her checkout
  session created.\<close>

definition ex_db_revived :: database where
  "ex_db_revived =
     ex_db\<lparr>reservations := [ex_held\<lparr>r_expires_at := 361001\<rparr>, ex_held_bob],
            checkout_sessions :=
              [\<lparr>cs_id = ''s1'', cs_reservation_id = ''r1'', cs_idempotency_key = ''idem1'',
                cs_status = Pending, cs_created_at = 181001\<rparr>]\<rparr>"

text \<open>A server whose local clock is that of New York, around the end of daylight saving
  time on 2026-11-01 at 06:00 UTC (instant 1793512800000): UTC-4 before it, UTC-5 from
  then on. A local time of the repeated hour is read with the offset before the
  transition, as ECMAScript prescribes. The two admission grants last until 07:00 UTC, and
  alice and bob reserve at 06:30:00 and 06:30:01 UTC.\<close>

definition ex_zone_ny :: time_zone where
  "ex_zone_ny =
     \<lparr>offset_at_utc = (\<lambda>t. if t < 1793512800000 then - 14400000 else - 18000000),
      offset_at_local = (\<lambda>t. if t < 1793512800000 - 14400000 then - 14400000 else - 18000000)\<rparr>"

definition ex_config_ny :: app_config where
  "ex_config_ny = default_config\<lparr>timeZone := ex_zone_ny\<rparr>"

definition ex_stores_ny :: stores where
  "ex_stores_ny =
     \<lparr>db = ex_db,
      redis = \<lparr>up = True,
               kv = [''waiting_room_access:e1:k1'' \<mapsto> (RStr ''1'', Some 1793516400000),
                     ''waiting_room_access:e1:k2'' \<mapsto> (RStr ''1'', Some 1793516400000)]\<rparr>\<rparr>"

definition ex_calls_ny :: "(instant \<times> uuid \<times> reserve_request) list" where
  "ex_calls_ny =
     [(1793514600000, ''r1'', ex_reserve ''alice'' ''k1'' 3),
      (1793514601000, ''r2'', ex_reserve ''bob'' ''k2'' 3)]"

definition ex_order :: order_row where
  "ex_order =
     \<lparr>o_id = ''o0'', o_checkout_session_id = ''s0'', o_reservation_id = ''r0'', o_event_id = ''e1'',
      o_tier_id = ''t1'', o_user_token = ''alice'', o_quantity = 3, o_total_price_cents = 15000,
      o_status = Paid, o_created_at = 500\<rparr>"




text \<open>Alice's hold with a pending checkout session, at instant 1500.\<close>

definition ex_session :: checkout_session where
  "ex_session = \<lparr>cs_id = ''s1'', cs_reservation_id = ''r1'', cs_idempotency_key = ''idem1'',
                  cs_status = Pending, cs_created_at = 1500\<rparr>"

definition ex_db_checkout :: database where
  "ex_db_checkout = ex_db_held\<lparr>checkout_sessions := [ex_session]\<rparr>"

definition ex_confirm :: confirm_request where
  "ex_confirm = \<lparr>cq_checkout_id = Some ''s1'', cq_simulate = Some ''success'',
                  cq_user_id = None\<rparr>"

text \<open>The order and the tickets of that session, paid at instant 2000.\<close>

definition ex_paid :: order_row where
  "ex_paid =
     \<lparr>o_id = ''o1'', o_checkout_session_id = ''s1'', o_reservation_id = ''r1'', o_event_id = ''e1'',
      o_tier_id = ''t1'', o_user_token = ''alice'', o_quantity = 3, o_total_price_cents = 15000,
      o_status = Paid, o_created_at = 2000\<rparr>"

definition ex_ticket :: "string \<Rightarrow> string \<Rightarrow> ticket" where
  "ex_ticket i code =
     \<lparr>k_id = i, k_order_id = ''o1'', k_event_id = ''e1'', k_tier_id = ''t1'',
      k_user_token = ''alice'', k_code = code, k_qr_sig = ''secret/'' @ code @ '':o1:e1'',
      k_created_at = 2000\<rparr>"

definition ex_tickets :: "ticket list" where
  "ex_tickets = [ex_ticket ''k0'' ''c0'', ex_ticket ''k1'' ''c1'', ex_ticket ''k2'' ''c2'']"

definition ex_db_confirmed :: database where
  "ex_db_confirmed =
     ex_db\<lparr>reservations := [ex_held\<lparr>r_status := Converted\<rparr>],
            checkout_sessions := [ex_session\<lparr>cs_status := Completed\<rparr>],
            orders := [ex_paid], tickets := ex_tickets\<rparr>"

definition ex_session_request :: session_request where
  "ex_session_request =
     \<lparr>sq_idempotency_key = Some ''idem1'', sq_user_id = Some ''alice'',
      sq_reservation_id = Some ''r1''\<rparr>"

text \<open>The installation run with \<^verbatim>\<open>RESERVATION_TTL_MINUTES=10\<close>, and alice's hold of
  instant 1000 under it.\<close>

definition ex_config_long :: app_config where
  "ex_config_long = default_config\<lparr>ttlMinutes := 10\<rparr>"

definition ex_held_long :: reservation where
  "ex_held_long = ex_held\<lparr>r_expires_at := 601000\<rparr>"

text \<open>Alice's pending checkout beside an order of bob's whose ticket carries the code that
  the next call of \<^verbatim>\<open>uuidv4()\<close> returns.\<close>

definition ex_ticket_old :: ticket where
  "ex_ticket_old =
     \<lparr>k_id = ''k9'', k_order_id = ''o0'', k_event_id = ''e1'', k_tier_id = ''t1'',
      k_user_token = ''bob'', k_code = ''c0'', k_qr_sig = ''secret/c0:o0:e1'',
      k_created_at = 500\<rparr>"

definition ex_db_collision :: database where
  "ex_db_collision =
     ex_db_checkout\<lparr>orders := [ex_order\<lparr>o_user_token := ''bob'', o_quantity := 1,
                                         o_total_price_cents := 5000\<rparr>],
                     tickets := [ex_ticket_old]\<rparr>"

text \<open>A waiting room of three tokens under \<^verbatim>\<open>WAITING_ROOM_WAVE_SIZE=2\<close>, with the first wave
  admitted at instant 1000000, and the poll of the third token.\<close>

definition ex_config_waves :: app_config where
  "ex_config_waves = default_config\<lparr>waveSize := 2\<rparr>"

definition ex_redis_queue :: redis_store where
  "ex_redis_queue =
     \<lparr>up = True,
      kv = [''waiting_room:e1:k3'' \<mapsto>
              (RTok \<lparr>td_eventId = ''e1'', td_token = ''k3'', td_userId = ''k3'',
                     td_joinedAt = 900030\<rparr>, Some 4500030),
            ''waiting_room:queue:e1'' \<mapsto>
              (RZset [(900010, ''k1''), (900020, ''k2''), (900030, ''k3'')], Some 4500030),
            ''queue_wave_end:e1'' \<mapsto> (RInt 2, None),
            ''queue_wave_last_advance:e1'' \<mapsto> (RInt 1000000, None)]\<rparr>"

definition ex_poll :: status_request where
  "ex_poll = \<lparr>st_event_id = ''e1'', st_token = Some ''k3''\<rparr>"

text \<open>A token whose join stopped before it was queued, in a waiting room without a queue.\<close>

definition ex_redis_unqueued :: redis_store where
  "ex_redis_unqueued =
     \<lparr>up = True,
      kv = [''waiting_room:e1:k3'' \<mapsto>
              (RTok \<lparr>td_eventId = ''e1'', td_token = ''k3'', td_userId = ''k3'',
                     td_joinedAt = 900030\<rparr>, Some 4500030)]\<rparr>"

text \<open>A join without identity header, and lookups of alice's hold.\<close>

definition ex_join :: join_request where
  "ex_join = \<lparr>jq_event_id = ''e1'', jq_client_ip = ''10.0.0.1'', jq_user_id = None\<rparr>"

definition ex_lookup :: "string \<Rightarrow> string option \<Rightarrow> lookup_request" where
  "ex_lookup token header = \<lparr>lq_event_id = ''e1'', lq_token = Some token, lq_user_id = header\<rparr>"

section \<open>Properties\<close>

subsection \<open>Reservations\<close>

lemma filter_hd_mem: "filter P xs = x # ys \<Longrightarrow> x \<in> set xs \<and> P x"
proof -
  assume a: "filter P xs = x # ys"
  have "x \<in> set (filter P xs)" using a by simp
  then show ?thesis by simp
qed

lemma distinct_key_eq:
  "distinct (map f xs) \<Longrightarrow> x \<in> set xs \<Longrightarrow> y \<in> set xs \<Longrightarrow> f x = f y \<Longrightarrow> x = y"
  by (meson distinct_map inj_onD)

lemma reserve_tx_cases:
  assumes "reserve_tx cfg now new_id eid tier_id quantity userId d = (rep, d')"
  shows "(d' = d \<and> (\<forall>row. rep \<noteq> Reserved row))
       \<or> (\<exists>tier. rep = Reserved \<lparr>r_id = new_id, r_event_id = eid, r_tier_id = tier_id,
                                   r_user_token = userId, r_quantity = nat quantity,
                                   r_status = Active,
                                   r_expires_at = setMinutes_plus (timeZone cfg) now (ttlMinutes cfg),
                                   r_created_at = now\<rparr>
             \<and> d' = d\<lparr>reservations := reservations d @ [\<lparr>r_id = new_id, r_event_id = eid, r_tier_id = tier_id,
                                   r_user_token = userId, r_quantity = nat quantity,
                                   r_status = Active,
                                   r_expires_at = setMinutes_plus (timeZone cfg) now (ttlMinutes cfg),
                                   r_created_at = now\<rparr>]\<rparr>
             \<and> tier \<in> set (ticket_tiers d) \<and> t_id tier = tier_id \<and> t_event_id tier = eid
             \<and> quantity \<le> int (t_capacity tier) - int (reserved_qty d tier_id now) - int (sold_qty d tier_id)
             \<and> int (user_paid d eid userId) + int (user_held d eid userId now) + quantity \<le> perEventLimit cfg
             \<and> new_id \<notin> set (map r_id (reservations d)))"
  using assms unfolding reserve_tx_def Let_def
  by (auto split: list.splits if_splits dest!: filter_hd_mem)

lemma rateLimit_frame:
  assumes "rateLimit r now key limit w = Inr (rl, r')"
  shows "up r' = up r \<and> up r \<and> (\<forall>k. k \<noteq> ''rate_limit:'' @ key \<longrightarrow> kv r' k = kv r k)"
  using assms unfolding rateLimit_def Let_def redis_incr_def redis_expire_def redis_ttl_def
  by (auto split: if_splits option.splits sum.splits rval.splits prod.splits)

lemma reserve_cases:
  assumes "reserve cfg now new_id rq s = (rep, s')"
  shows "(db s' = db s \<and> (\<forall>row. rep \<noteq> Reserved row))
       \<or> (\<exists>tid q u. rq_tier_id rq = Some tid \<and> rq_quantity rq = Some q \<and> 0 < q
             \<and> rq_user_id rq = Some u
             \<and> reserve_tx cfg now new_id (rq_event_id rq) tid q u (db s) = (rep, db s'))"
  using assms unfolding reserve_def
  by (auto split: option.splits if_splits sum.splits prod.splits)

lemma reserve_redis_frame:
  assumes "reserve cfg now new_id rq s = (rep, s')"
  shows "up (redis s') = up (redis s)
       \<and> (\<forall>k. take 11 k \<noteq> ''rate_limit:'' \<longrightarrow> kv (redis s') k = kv (redis s) k)"
proof -
  have fr: "\<And>key rl r'. rateLimit (redis s) now key 5 60 = Inr (rl, r') \<Longrightarrow>
      up r' = up (redis s) \<and> (\<forall>k. take 11 k \<noteq> ''rate_limit:'' \<longrightarrow> kv r' k = kv (redis s) k)"
  proof -
    fix key rl r' assume a: "rateLimit (redis s) now key 5 60 = Inr (rl, r')"
    from rateLimit_frame[OF a] have f: "up r' = up (redis s)" "\<And>k. k \<noteq> ''rate_limit:'' @ key \<Longrightarrow> kv r' k = kv (redis s) k" by auto
    have "\<And>k. take 11 k \<noteq> ''rate_limit:'' \<Longrightarrow> k \<noteq> ''rate_limit:'' @ key" by auto
    with f show "up r' = up (redis s) \<and> (\<forall>k. take 11 k \<noteq> ''rate_limit:'' \<longrightarrow> kv r' k = kv (redis s) k)" by blast
  qed
  show ?thesis
    using assms unfolding reserve_def
    by (auto split: option.splits if_splits sum.splits prod.splits dest!: fr)
qed

lemma reserve_tx_no_oversell:
  assumes pk: "distinct (map t_id (ticket_tiers d))"
      and inv: "no_oversell d now"
      and tx: "reserve_tx cfg now new_id eid tier_id quantity userId d = (rep, d')"
  shows "no_oversell d' now"
proof -
  from reserve_tx_cases[OF tx] show ?thesis
  proof
    assume "d' = d \<and> (\<forall>row. rep \<noteq> Reserved row)"
    with inv show ?thesis by simp
  next
    assume "\<exists>tier. rep = Reserved \<lparr>r_id = new_id, r_event_id = eid, r_tier_id = tier_id,
                                   r_user_token = userId, r_quantity = nat quantity,
                                   r_status = Active,
                                   r_expires_at = setMinutes_plus (timeZone cfg) now (ttlMinutes cfg),
                                   r_created_at = now\<rparr>
             \<and> d' = d\<lparr>reservations := reservations d @ [\<lparr>r_id = new_id, r_event_id = eid, r_tier_id = tier_id,
                                   r_user_token = userId, r_quantity = nat quantity,
                                   r_status = Active,
                                   r_expires_at = setMinutes_plus (timeZone cfg) now (ttlMinutes cfg),
                                   r_created_at = now\<rparr>]\<rparr>
             \<and> tier \<in> set (ticket_tiers d) \<and> t_id tier = tier_id \<and> t_event_id tier = eid
             \<and> quantity \<le> int (t_capacity tier) - int (reserved_qty d tier_id now) - int (sold_qty d tier_id)
             \<and> int (user_paid d eid userId) + int (user_held d eid userId now) + quantity \<le> perEventLimit cfg
             \<and> new_id \<notin> set (map r_id (reservations d))"
    then obtain tier where
      d': "d' = d\<lparr>reservations := reservations d @ [\<lparr>r_id = new_id, r_event_id = eid, r_tier_id = tier_id,
                                   r_user_token = userId, r_quantity = nat quantity,
                                   r_status = Active,
                                   r_expires_at = setMinutes_plus (timeZone cfg) now (ttlMinutes cfg),
                                   r_created_at = now\<rparr>]\<rparr>"
      and tier: "tier \<in> set (ticket_tiers d)" "t_id tier = tier_id"
      and room: "quantity \<le> int (t_capacity tier) - int (reserved_qty d tier_id now) - int (sold_qty d tier_id)"
      by blast
    show ?thesis unfolding no_oversell_def
    proof
      fix t assume t: "t \<in> set (ticket_tiers d')"
      then have t_in: "t \<in> set (ticket_tiers d)" using d' by simp
      have sold: "sold_qty d' (t_id t) = sold_qty d (t_id t)" using d' by (simp add: sold_qty_def)
      show "reserved_qty d' (t_id t) now + sold_qty d' (t_id t) \<le> t_capacity t"
      proof (cases "t_id t = tier_id")
        case True
        then have eq: "t = tier" using distinct_key_eq[OF pk t_in tier(1)] tier(2) by simp
        have "reserved_qty d' tier_id now \<le> reserved_qty d tier_id now + nat quantity"
          using d' by (simp add: reserved_qty_def)
        moreover have "reserved_qty d tier_id now + sold_qty d tier_id \<le> t_capacity tier"
          using inv tier by (auto simp: no_oversell_def)
        ultimately have "reserved_qty d' tier_id now + sold_qty d tier_id \<le> t_capacity tier"
          using room by arith
        then show ?thesis using sold True eq by simp
      next
        case False
        then have "reserved_qty d' (t_id t) now = reserved_qty d (t_id t) now"
          using d' by (simp add: reserved_qty_def)
        with inv t_in sold show ?thesis by (simp add: no_oversell_def)
      qed
    qed
  qed
qed

lemma reserve_no_oversell:
  assumes "distinct (map t_id (ticket_tiers (db s)))" "no_oversell (db s) now"
      and "reserve cfg now new_id rq s = (rep, s')"
  shows "no_oversell (db s') now"
  using reserve_cases[OF assms(3)] assms(1,2) reserve_tx_no_oversell by metis


lemma locked_le_reserved:
  "now < tlim \<Longrightarrow>
   sum_list (map r_quantity (filter (\<lambda>r. r_tier_id r = tid \<and> r_status r = Active \<and> tlim \<le> r_expires_at r) rs))
   \<le> sum_list (map r_quantity (filter (\<lambda>r. r_tier_id r = tid \<and> r_status r = Active \<and> now < r_expires_at r) rs))"
  by (induction rs) auto


lemma held_until_le_reserved: "now < tlim \<Longrightarrow> held_until d tid tlim \<le> reserved_qty d tid now"
  unfolding held_until_def reserved_qty_def by (rule locked_le_reserved)

lemma reserve_step_held:
  assumes pk: "distinct (map t_id (ticket_tiers (db s)))"
      and tier: "tier \<in> set (ticket_tiers (db s))" "t_id tier = tid"
      and time: "t0 \<le> now" "now < t0 + ttlMinutes cfg * 60000"
      and zone: "setMinutes_plus (timeZone cfg) now (ttlMinutes cfg) = now + ttlMinutes cfg * 60000"
      and res: "reserve cfg now new_id rq s = (rep, s')"
  shows "ticket_tiers (db s') = ticket_tiers (db s)
       \<and> held_until (db s') tid (t0 + ttlMinutes cfg * 60000)
           = held_until (db s) tid (t0 + ttlMinutes cfg * 60000) + granted tid rep
       \<and> (0 < granted tid rep \<longrightarrow>
            held_until (db s') tid (t0 + ttlMinutes cfg * 60000) \<le> t_capacity tier)"
proof -
  let ?tlim = "t0 + ttlMinutes cfg * 60000"
  from reserve_cases[OF res] show ?thesis
  proof
    assume a: "db s' = db s \<and> (\<forall>row. rep \<noteq> Reserved row)"
    then have "granted tid rep = 0" by (cases rep) auto
    with a show ?thesis by simp
  next
    assume "\<exists>tid q u. rq_tier_id rq = Some tid \<and> rq_quantity rq = Some q \<and> 0 < q
             \<and> rq_user_id rq = Some u
             \<and> reserve_tx cfg now new_id (rq_event_id rq) tid q u (db s) = (rep, db s')"
    then obtain tid' q u where q: "0 < q"
      and tx: "reserve_tx cfg now new_id (rq_event_id rq) tid' q u (db s) = (rep, db s')" by blast
    from reserve_tx_cases[OF tx] show ?thesis
    proof
      assume a: "db s' = db s \<and> (\<forall>row. rep \<noteq> Reserved row)"
      then have "granted tid rep = 0" by (cases rep) auto
      with a show ?thesis by simp
    next
      assume "\<exists>tier. rep = Reserved \<lparr>r_id = new_id, r_event_id = rq_event_id rq, r_tier_id = tid',
                                   r_user_token = u, r_quantity = nat q,
                                   r_status = Active,
                                   r_expires_at = setMinutes_plus (timeZone cfg) now (ttlMinutes cfg),
                                   r_created_at = now\<rparr>
             \<and> db s' = (db s)\<lparr>reservations := reservations (db s) @ [\<lparr>r_id = new_id, r_event_id = rq_event_id rq, r_tier_id = tid',
                                   r_user_token = u, r_quantity = nat q,
                                   r_status = Active,
                                   r_expires_at = setMinutes_plus (timeZone cfg) now (ttlMinutes cfg),
                                   r_created_at = now\<rparr>]\<rparr>
             \<and> tier \<in> set (ticket_tiers (db s)) \<and> t_id tier = tid' \<and> t_event_id tier = rq_event_id rq
             \<and> q \<le> int (t_capacity tier) - int (reserved_qty (db s) tid' now) - int (sold_qty (db s) tid')
             \<and> int (user_paid (db s) (rq_event_id rq) u) + int (user_held (db s) (rq_event_id rq) u now) + q \<le> perEventLimit cfg
             \<and> new_id \<notin> set (map r_id (reservations (db s)))"
      then obtain tier' where
        rep: "rep = Reserved \<lparr>r_id = new_id, r_event_id = rq_event_id rq, r_tier_id = tid',
                                   r_user_token = u, r_quantity = nat q,
                                   r_status = Active,
                                   r_expires_at = setMinutes_plus (timeZone cfg) now (ttlMinutes cfg),
                                   r_created_at = now\<rparr>"
        and d': "db s' = (db s)\<lparr>reservations := reservations (db s) @ [\<lparr>r_id = new_id, r_event_id = rq_event_id rq, r_tier_id = tid',
                                   r_user_token = u, r_quantity = nat q,
                                   r_status = Active,
                                   r_expires_at = setMinutes_plus (timeZone cfg) now (ttlMinutes cfg),
                                   r_created_at = now\<rparr>]\<rparr>"
        and tier': "tier' \<in> set (ticket_tiers (db s))" "t_id tier' = tid'"
        and room: "q \<le> int (t_capacity tier') - int (reserved_qty (db s) tid' now) - int (sold_qty (db s) tid')"
        by blast
      have g: "granted tid rep = (if tid' = tid then nat q else 0)" using rep by simp
      have h: "held_until (db s') tid ?tlim = held_until (db s) tid ?tlim + granted tid rep"
        using d' g time zone by (simp add: held_until_def)
      have cap: "0 < granted tid rep \<longrightarrow> held_until (db s') tid ?tlim \<le> t_capacity tier"
      proof
        assume "0 < granted tid rep"
        then have same: "tid' = tid" using g by (simp split: if_splits)
        then have "tier' = tier" using distinct_key_eq[OF pk tier'(1) tier(1)] tier'(2) tier(2) by simp
        moreover have "held_until (db s) tid ?tlim \<le> reserved_qty (db s) tid now"
          using held_until_le_reserved time(2) by simp
        ultimately show "held_until (db s') tid ?tlim \<le> t_capacity tier"
          using h g same room q by simp
      qed
      show ?thesis using d' h cap by simp
    qed
  qed
qed

lemma reserve_all_bound:
  assumes pk: "distinct (map t_id (ticket_tiers (db s)))"
      and tier: "tier \<in> set (ticket_tiers (db s))" "t_id tier = tid"
      and time: "\<forall>c \<in> set calls. t0 \<le> fst c \<and> fst c < t0 + ttlMinutes cfg * 60000"
      and zone: "\<forall>t. setMinutes_plus (timeZone cfg) t (ttlMinutes cfg) = t + ttlMinutes cfg * 60000"
      and run: "reserve_all cfg calls s = (replies, s')"
  shows "sum_list (map (granted tid) replies)
           \<le> t_capacity tier - held_until (db s) tid (t0 + ttlMinutes cfg * 60000)"
  using pk tier(1) time run
proof (induction calls arbitrary: s replies s')
  case Nil
  then show ?case by simp
next
  case (Cons c calls)
  obtain now new_id rq where c: "c = (now, new_id, rq)" by (cases c) auto
  obtain rep s1 where r1: "reserve cfg now new_id rq s = (rep, s1)" by (cases "reserve cfg now new_id rq s") auto
  obtain reps s2 where r2: "reserve_all cfg calls s1 = (reps, s2)" by (cases "reserve_all cfg calls s1") auto
  have replies: "replies = rep # reps" using Cons.prems(4) c r1 r2 by simp
  have t: "t0 \<le> now" "now < t0 + ttlMinutes cfg * 60000" using Cons.prems(3) c by auto
  have z: "setMinutes_plus (timeZone cfg) now (ttlMinutes cfg) = now + ttlMinutes cfg * 60000"
    using zone by simp
  note st = reserve_step_held[OF Cons.prems(1) Cons.prems(2) tier(2) t z r1]
  have "sum_list (map (granted tid) reps)
           \<le> t_capacity tier - held_until (db s1) tid (t0 + ttlMinutes cfg * 60000)"
    using Cons.IH[of s1 reps s2] st Cons.prems r2 by simp
  then show ?case using st replies by auto
qed

lemma hd_mem: "xs = x # ys \<Longrightarrow> x \<in> set xs"
  by simp

lemma reservation_with_tier_mem:
  "(r, t) \<in> set (reservation_with_tier d rid) \<longleftrightarrow>
     r \<in> set (reservations d) \<and> r_id r = rid \<and> t \<in> set (ticket_tiers d) \<and> t_id t = r_tier_id r"
  by (auto simp: reservation_with_tier_def)

lemma reservation_with_tier_hd:
  "reservation_with_tier d rid = (r, t) # rows \<Longrightarrow>
     r \<in> set (reservations d) \<and> r_id r = rid \<and> t \<in> set (ticket_tiers d) \<and> t_id t = r_tier_id r"
  using reservation_with_tier_mem[of r t d rid] by simp

lemma session_join_mem:
  "(c, r, t) \<in> set (session_join d cid) \<longleftrightarrow>
     c \<in> set (checkout_sessions d) \<and> cs_id c = cid \<and> (r, t) \<in> set (reservation_with_tier d (cs_reservation_id c))"
  by (auto simp: session_join_def)

lemma session_join_hd:
  "session_join d cid = (c, r, t) # rows \<Longrightarrow>
     c \<in> set (checkout_sessions d) \<and> cs_id c = cid
     \<and> r \<in> set (reservations d) \<and> r_id r = cs_reservation_id c
     \<and> t \<in> set (ticket_tiers d) \<and> t_id t = r_tier_id r"
  using session_join_mem[of c r t d cid] reservation_with_tier_mem[of r t d "cs_reservation_id c"] by simp

lemma set_reservation_status_simps [simp]:
  "events (set_reservation_status rid st d) = events d"
  "ticket_tiers (set_reservation_status rid st d) = ticket_tiers d"
  "checkout_sessions (set_reservation_status rid st d) = checkout_sessions d"
  "orders (set_reservation_status rid st d) = orders d"
  "tickets (set_reservation_status rid st d) = tickets d"
  "map r_id (reservations (set_reservation_status rid st d)) = map r_id (reservations d)"
  by (simp_all add: set_reservation_status_def comp_def)

lemma set_session_status_simps [simp]:
  "events (set_session_status cid st d) = events d"
  "ticket_tiers (set_session_status cid st d) = ticket_tiers d"
  "reservations (set_session_status cid st d) = reservations d"
  "orders (set_session_status cid st d) = orders d"
  "tickets (set_session_status cid st d) = tickets d"
  "map cs_id (checkout_sessions (set_session_status cid st d)) = map cs_id (checkout_sessions d)"
  "map cs_idempotency_key (checkout_sessions (set_session_status cid st d))
     = map cs_idempotency_key (checkout_sessions d)"
  by (simp_all add: set_session_status_def comp_def)

lemma extend_reservation_simps [simp]:
  "events (extend_reservation rid e d) = events d"
  "ticket_tiers (extend_reservation rid e d) = ticket_tiers d"
  "checkout_sessions (extend_reservation rid e d) = checkout_sessions d"
  "orders (extend_reservation rid e d) = orders d"
  "tickets (extend_reservation rid e d) = tickets d"
  "map r_id (reservations (extend_reservation rid e d)) = map r_id (reservations d)"
  by (simp_all add: extend_reservation_def comp_def)

lemma expire_reservations_simps [simp]:
  "events (expire_reservations now d) = events d"
  "ticket_tiers (expire_reservations now d) = ticket_tiers d"
  "checkout_sessions (expire_reservations now d) = checkout_sessions d"
  "orders (expire_reservations now d) = orders d"
  "tickets (expire_reservations now d) = tickets d"
  "map r_id (reservations (expire_reservations now d)) = map r_id (reservations d)"
  by (simp_all add: expire_reservations_def comp_def)

lemma sold_qty_cong: "orders d' = orders d \<Longrightarrow> sold_qty d' tid = sold_qty d tid"
  by (simp add: sold_qty_def)

lemma reserved_qty_cong: "reservations d' = reservations d \<Longrightarrow> reserved_qty d' tid now = reserved_qty d tid now"
  by (simp add: reserved_qty_def)

lemma active_sum_antimono:
  "t \<le> t' \<Longrightarrow>
   sum_list (map r_quantity (filter (\<lambda>r. r_tier_id r = tid \<and> r_status r = Active \<and> t' < r_expires_at r) rs))
   \<le> sum_list (map r_quantity (filter (\<lambda>r. r_tier_id r = tid \<and> r_status r = Active \<and> t < r_expires_at r) rs))"
  by (induction rs) auto

lemma reserved_qty_antimono: "t \<le> t' \<Longrightarrow> reserved_qty d tid t' \<le> reserved_qty d tid t"
  unfolding reserved_qty_def by (rule active_sum_antimono)

lemma no_oversell_later: "no_oversell d t \<Longrightarrow> t \<le> t' \<Longrightarrow> no_oversell d t'"
  unfolding no_oversell_def using reserved_qty_antimono by (meson add_le_mono1 le_trans)

text \<open>Status changes away from active only release inventory.\<close>

lemma status_sum_le:
  "st \<noteq> Active \<Longrightarrow>
   sum_list (map r_quantity (filter (\<lambda>r. r_tier_id r = tid \<and> r_status r = Active \<and> now < r_expires_at r)
       (map (\<lambda>r. if P r then r\<lparr>r_status := st\<rparr> else r) rs)))
   \<le> sum_list (map r_quantity (filter (\<lambda>r. r_tier_id r = tid \<and> r_status r = Active \<and> now < r_expires_at r) rs))"
  by (induction rs) auto

lemma status_sum_released:
  "st \<noteq> Active \<Longrightarrow> x \<in> set rs \<Longrightarrow> P x \<Longrightarrow> r_tier_id x = tid \<Longrightarrow> r_status x = Active
     \<Longrightarrow> now < r_expires_at x \<Longrightarrow>
   sum_list (map r_quantity (filter (\<lambda>r. r_tier_id r = tid \<and> r_status r = Active \<and> now < r_expires_at r)
       (map (\<lambda>r. if P r then r\<lparr>r_status := st\<rparr> else r) rs))) + r_quantity x
   \<le> sum_list (map r_quantity (filter (\<lambda>r. r_tier_id r = tid \<and> r_status r = Active \<and> now < r_expires_at r) rs))"
proof (induction rs)
  case Nil
  then show ?case by simp
next
  case (Cons a rs)
  show ?case
  proof (cases "a = x")
    case True
    then show ?thesis using Cons.prems status_sum_le[of st tid now P rs] by auto
  next
    case False
    then have "x \<in> set rs" using Cons.prems by auto
    from Cons.IH[OF Cons.prems(1) this Cons.prems(3-6)] show ?thesis
      using Cons.prems(1) by (cases "P a") auto
  qed
qed

lemma set_reservation_status_reserved_le:
  "st \<noteq> Active \<Longrightarrow> reserved_qty (set_reservation_status rid st d) tid now \<le> reserved_qty d tid now"
  unfolding reserved_qty_def set_reservation_status_def using status_sum_le[of st tid now "\<lambda>r. r_id r = rid"] by simp

lemma set_reservation_status_released:
  "st \<noteq> Active \<Longrightarrow> x \<in> set (reservations d) \<Longrightarrow> r_id x = rid \<Longrightarrow> r_status x = Active
     \<Longrightarrow> now < r_expires_at x \<Longrightarrow>
   reserved_qty (set_reservation_status rid st d) (r_tier_id x) now + r_quantity x \<le> reserved_qty d (r_tier_id x) now"
  unfolding reserved_qty_def set_reservation_status_def
  using status_sum_released[of st x "reservations d" "\<lambda>r. r_id r = rid" "r_tier_id x" now] by simp

lemma expire_reservations_reserved:
  "reserved_qty (expire_reservations now d) tid now = reserved_qty d tid now"
proof -
  have "\<And>rs. sum_list (map r_quantity (filter (\<lambda>r. r_tier_id r = tid \<and> r_status r = Active \<and> now < r_expires_at r)
       (map (\<lambda>r. if r_status r = Active \<and> r_expires_at r \<le> now then r\<lparr>r_status := Expired\<rparr> else r) rs)))
     = sum_list (map r_quantity (filter (\<lambda>r. r_tier_id r = tid \<and> r_status r = Active \<and> now < r_expires_at r) rs))"
    subgoal for rs by (induction rs) auto
    done
  then show ?thesis by (simp add: reserved_qty_def expire_reservations_def)
qed

lemma extend_sum_same:
  "\<forall>r \<in> set rs. r_id r = rid \<and> r_status r = Active \<longrightarrow> now < r_expires_at r \<Longrightarrow> now < e \<Longrightarrow>
   sum_list (map r_quantity (filter (\<lambda>r. r_tier_id r = tid \<and> r_status r = Active \<and> now < r_expires_at r)
       (map (\<lambda>r. if r_id r = rid \<and> r_status r = Active then r\<lparr>r_expires_at := e\<rparr> else r) rs)))
   = sum_list (map r_quantity (filter (\<lambda>r. r_tier_id r = tid \<and> r_status r = Active \<and> now < r_expires_at r) rs))"
  by (induction rs) auto

lemma extend_reservation_reserved:
  assumes "distinct (map r_id (reservations d))" "x \<in> set (reservations d)" "r_id x = rid"
      "now < r_expires_at x" "now < e"
  shows "reserved_qty (extend_reservation rid e d) tid now = reserved_qty d tid now"
proof -
  have "\<forall>r \<in> set (reservations d). r_id r = rid \<and> r_status r = Active \<longrightarrow> now < r_expires_at r"
    using distinct_key_eq[OF assms(1) _ assms(2)] assms(3,4) by auto
  from extend_sum_same[OF this assms(5)] show ?thesis
    by (simp add: reserved_qty_def extend_reservation_def)
qed

lemma extend_sum_le:
  "\<forall>r \<in> set rs. r_id r = rid \<and> r_status r = Active \<longrightarrow> now < r_expires_at r \<Longrightarrow>
   sum_list (map r_quantity (filter (\<lambda>r. r_tier_id r = tid \<and> r_status r = Active \<and> now < r_expires_at r)
       (map (\<lambda>r. if r_id r = rid \<and> r_status r = Active then r\<lparr>r_expires_at := e\<rparr> else r) rs)))
   \<le> sum_list (map r_quantity (filter (\<lambda>r. r_tier_id r = tid \<and> r_status r = Active \<and> now < r_expires_at r) rs))"
  by (induction rs) auto

lemma extend_reservation_reserved_le:
  assumes "distinct (map r_id (reservations d))" "x \<in> set (reservations d)" "r_id x = rid"
      "now < r_expires_at x"
  shows "reserved_qty (extend_reservation rid e d) tid now \<le> reserved_qty d tid now"
proof -
  have "\<forall>r \<in> set (reservations d). r_id r = rid \<and> r_status r = Active \<longrightarrow> now < r_expires_at r"
    using distinct_key_eq[OF assms(1) _ assms(2)] assms(3,4) by auto
  from extend_sum_le[OF this] show ?thesis
    by (simp add: reserved_qty_def extend_reservation_def)
qed

lemma filter_empty_key: "filter (\<lambda>c. f c = k) xs = [] \<Longrightarrow> k \<notin> set (map f xs)"
  by (auto simp: filter_empty_conv)

lemma create_session_db_cases:
  assumes "create_session_db tz now new_id key rid d = (rep, d')"
  shows "d' = d
       \<or> d' = set_reservation_status rid Expired d
       \<or> (\<exists>x. x \<in> set (reservations d) \<and> r_id x = rid \<and> r_status x = Active \<and> now < r_expires_at x
              \<and> key \<notin> set (map cs_idempotency_key (checkout_sessions d))
              \<and> (d' = extend_reservation rid (setMinutes_plus tz now 3) d
                  \<or> (new_id \<notin> set (map cs_id (checkout_sessions d))
                      \<and> d' = (extend_reservation rid (setMinutes_plus tz now 3) d)
                               \<lparr>checkout_sessions := checkout_sessions d @
                                  [\<lparr>cs_id = new_id, cs_reservation_id = rid, cs_idempotency_key = key,
                                    cs_status = Pending, cs_created_at = now\<rparr>]\<rparr>)))"
  using assms unfolding create_session_db_def create_session_check_def create_session_write_def Let_def
  by (auto split: list.splits if_splits prod.splits sum.splits
           dest!: reservation_with_tier_hd filter_empty_key)

lemma create_session_cases:
  assumes "create_session tz now new_id rq s = (rep, s')"
  shows "db s' = db s \<and> (\<forall>c r t. rep \<noteq> Session_created c r t)
       \<or> (\<exists>key rid. sq_idempotency_key rq = Some key \<and> sq_reservation_id rq = Some rid
             \<and> create_session_db tz now new_id key rid (db s) = (rep, db s'))"
  using assms unfolding create_session_def
  by (auto split: option.splits if_splits sum.splits prod.splits)

lemma insert_all_tickets_Inr:
  "insert_all_tickets new ks = Inr ks' \<Longrightarrow>
     ks' = ks @ new \<and> distinct (map k_code new) \<and> set (map k_code new) \<inter> set (map k_code ks) = {}"
proof (induction new arbitrary: ks)
  case Nil
  then show ?case by simp
next
  case (Cons k new)
  from Cons.prems obtain ks1 where k1: "insert_ticket k ks = Inr ks1"
    and rest: "insert_all_tickets new ks1 = Inr ks'"
    by (auto split: sum.splits)
  from k1 have ks1: "ks1 = ks @ [k]" and fresh: "k_code k \<notin> set (map k_code ks)"
    by (auto simp: insert_ticket_def split: if_splits)
  from Cons.IH[OF rest] ks1 fresh show ?case by auto
qed

lemma new_order_id [simp]: "o_id (new_order now ids cid c j t) = new_order_id ids"
  by (simp add: new_order_def)

lemma confirm_payment_cases:
  assumes "confirm_payment hmac qr_secret now ids simulate cid c joined t d = (rep, d')"
  shows "(d' = d \<and> (\<forall>ord ks. rep \<noteq> Order_created ord ks))
       \<or> (d' = set_reservation_status (cs_reservation_id c) Canceled (set_session_status cid Failed d)
             \<and> rep = Payment_failed)
       \<or> (\<exists>ks tks. new_order_id ids \<notin> set (map o_id (orders d))
             \<and> d' = set_reservation_status (cs_reservation_id c) Converted
                      (set_session_status cid Completed
                         (d\<lparr>orders := orders d @ [new_order now ids cid c joined t], tickets := ks\<rparr>))
             \<and> rep = Order_created (new_order now ids cid c joined t) tks
             \<and> ((filter (\<lambda>k. k_order_id k = new_order_id ids) (tickets d) = []
                   \<and> insert_all_tickets (generate_tickets hmac qr_secret now ids (new_order_id ids) joined) (tickets d) = Inr ks
                   \<and> tks = generate_tickets hmac qr_secret now ids (new_order_id ids) joined)
                 \<or> (filter (\<lambda>k. k_order_id k = new_order_id ids) (tickets d) \<noteq> []
                   \<and> ks = tickets d
                   \<and> tks = filter (\<lambda>k. k_order_id k = new_order_id ids) (tickets d))))"
  using assms unfolding confirm_payment_def insert_order_def Let_def
  by (auto split: if_splits sum.splits)

lemma confirm_tx_cases:
  assumes "confirm_tx hmac qr_secret now ids rq d = (rep, d')"
  shows "(d' = d \<and> (\<forall>ord ks. rep \<noteq> Order_created ord ks))
       \<or> (\<exists>cid. d' = set_session_status cid Failed d \<and> (\<forall>ord ks. rep \<noteq> Order_created ord ks))
       \<or> (\<exists>cid rid. d' = set_session_status cid Session_expired (set_reservation_status rid Expired d)
             \<and> (\<forall>ord ks. rep \<noteq> Order_created ord ks))
       \<or> (\<exists>cid c joined t x.
             cq_checkout_id rq = Some cid
             \<and> c \<in> set (checkout_sessions d) \<and> cs_id c = cid \<and> cs_status c = Pending
             \<and> joined \<in> set (reservations d) \<and> r_id joined = cs_reservation_id c
             \<and> t \<in> set (ticket_tiers d) \<and> t_id t = r_tier_id joined
             \<and> x \<in> set (reservations d) \<and> r_id x = cs_reservation_id c
             \<and> r_status x = Active \<and> now < r_expires_at x
             \<and> cid \<notin> set (map o_checkout_session_id (orders d))
             \<and> confirm_payment hmac qr_secret now ids (cq_simulate rq) cid c joined t d = (rep, d'))"
proof (cases "truthy (cq_checkout_id rq)
              \<and> (cq_simulate rq = Some ''success'' \<or> cq_simulate rq = Some ''fail'')")
  case False
  then show ?thesis using assms unfolding confirm_tx_def confirm_decide_def by (auto split: if_splits)
next
  case True
  then obtain cid where cid: "cq_checkout_id rq = Some cid" "js_or (cq_checkout_id rq) [] = cid"
    by (auto simp: truthy_def js_or_def split: option.splits)
  show ?thesis
  proof (cases "session_join d cid")
    case Nil
    then show ?thesis using assms True cid unfolding confirm_tx_def confirm_decide_def by auto
  next
    case (Cons row rows)
    obtain c joined t where row: "row = (c, joined, t)" by (cases row) auto
    note j = session_join_hd[OF Cons[unfolded row]]
    show ?thesis
    proof (cases "filter (\<lambda>x. o_checkout_session_id x = cid) (orders d)")
      case (Cons ord others)
      then show ?thesis using assms True cid \<open>session_join d cid = row # rows\<close> row
        unfolding confirm_tx_def confirm_decide_def by auto
    next
      case Nil
      note no_order = filter_empty_key[OF Nil]
      show ?thesis
      proof (cases "cs_status c = Pending")
        case False
        then show ?thesis using assms True cid \<open>session_join d cid = row # rows\<close> row Nil
          unfolding confirm_tx_def confirm_decide_def by auto
      next
        case pending: True
        show ?thesis
        proof (cases "filter (\<lambda>r. r_id r = cs_reservation_id c) (reservations d)")
          case Nil
          then have "d' = set_session_status cid Failed d \<and> (\<forall>ord ks. rep \<noteq> Order_created ord ks)"
            using assms True cid \<open>session_join d cid = row # rows\<close> row
              \<open>filter (\<lambda>x. o_checkout_session_id x = cid) (orders d) = []\<close> pending
            unfolding confirm_tx_def confirm_decide_def by auto
          then show ?thesis by blast
        next
          case (Cons x others)
          note xm = filter_hd_mem[OF Cons]
          have eq: "confirm_tx hmac qr_secret now ids rq d =
              (if r_status x \<noteq> Active then
                 (Confirm_error 409 ''reservation_expired_or_invalid'', set_session_status cid Failed d)
               else if now \<ge> r_expires_at x then
                 (Confirm_error 409 ''reservation_expired_or_invalid'',
                  set_session_status cid Session_expired (set_reservation_status (r_id x) Expired d))
               else confirm_payment hmac qr_secret now ids (cq_simulate rq) cid c joined t d)"
            using True cid \<open>session_join d cid = row # rows\<close> row
              \<open>filter (\<lambda>x. o_checkout_session_id x = cid) (orders d) = []\<close> pending Cons
            unfolding confirm_tx_def confirm_decide_def by auto
          show ?thesis
          proof (cases "r_status x \<noteq> Active")
            case True
            then have "d' = set_session_status cid Failed d \<and> (\<forall>ord ks. rep \<noteq> Order_created ord ks)"
              using assms eq by auto
            then show ?thesis by blast
          next
            case active: False
            show ?thesis
            proof (cases "now \<ge> r_expires_at x")
              case True
              then have "d' = set_session_status cid Session_expired (set_reservation_status (r_id x) Expired d)
                  \<and> (\<forall>ord ks. rep \<noteq> Order_created ord ks)"
                using assms eq active by auto
              then show ?thesis by blast
            next
              case False
              then have pay: "confirm_payment hmac qr_secret now ids (cq_simulate rq) cid c joined t d = (rep, d')"
                using assms eq active by auto
              have act: "r_status x = Active" "now < r_expires_at x" using active False by auto
              show ?thesis using cid(1) j pending xm act no_order pay by blast
            qed
          qed
        qed
      qed
    qed
  qed
qed

lemma join_db [simp]: "db (snd (join cfg now token rq s)) = db s"
  unfolding join_def Let_def
  by (auto split: sum.splits prod.splits if_splits list.splits)

lemma status_db [simp]: "db (snd (status cfg now rq s)) = db s"
  unfolding status_def Let_def
  by (simp split: sum.split prod.split list.split)

lemma worker_frame [simp]:
  "events (runExpirationWorker hmac qr_secret now ids d) = events d"
  "ticket_tiers (runExpirationWorker hmac qr_secret now ids d) = ticket_tiers d"
  "checkout_sessions (runExpirationWorker hmac qr_secret now ids d) = checkout_sessions d"
  "orders (runExpirationWorker hmac qr_secret now ids d) = orders d"
  "reservations (runExpirationWorker hmac qr_secret now ids d) = reservations (expire_reservations now d)"
  unfolding runExpirationWorker_def ordersWithoutTickets_def Let_def by simp_all

subsection \<open>Primary keys\<close>

lemma reserve_tx_primary_keys:
  assumes "primary_keys d" "reserve_tx cfg now new_id eid tier_id quantity userId d = (rep, d')"
  shows "primary_keys d'"
  using reserve_tx_cases[OF assms(2)] assms(1) by (auto simp: primary_keys_def)

lemma create_session_db_primary_keys:
  assumes "primary_keys d" "create_session_db tz now new_id key rid d = (rep, d')"
  shows "primary_keys d'"
  using create_session_db_cases[OF assms(2)] assms(1) by (auto simp: primary_keys_def)

lemma confirm_payment_primary_keys:
  assumes "primary_keys d" "confirm_payment hmac qr_secret now ids simulate cid c joined t d = (rep, d')"
  shows "primary_keys d'"
  using confirm_payment_cases[OF assms(2)] assms(1) by (auto simp: primary_keys_def)

lemma confirm_tx_primary_keys:
  assumes "primary_keys d" "confirm_tx hmac qr_secret now ids rq d = (rep, d')"
  shows "primary_keys d'"
proof -
  consider "d' = d" | cid where "d' = set_session_status cid Failed d"
    | cid rid where "d' = set_session_status cid Session_expired (set_reservation_status rid Expired d)"
    | cid c joined t where "confirm_payment hmac qr_secret now ids (cq_simulate rq) cid c joined t d = (rep, d')"
    using confirm_tx_cases[OF assms(2)] by blast
  then show ?thesis
  proof cases
    case 1
    then show ?thesis using assms(1) by simp
  next
    case 2
    then show ?thesis using assms(1) by (simp add: primary_keys_def)
  next
    case 3
    then show ?thesis using assms(1) by (simp add: primary_keys_def)
  next
    case 4
    then show ?thesis using assms(1) by (rule confirm_payment_primary_keys[rotated])
  qed
qed

lemma confirm_cases:
  assumes "confirm hmac qr_secret now ids rq s = (rep, s')"
  shows "(db s' = db s \<and> (\<forall>ord ks. rep \<noteq> Order_created ord ks))
       \<or> confirm_tx hmac qr_secret now ids rq (db s) = (rep, db s')"
  using assms unfolding confirm_def
  by (auto split: if_splits sum.splits prod.splits)

lemma step_primary_keys:
  assumes "primary_keys (db s)"
  shows "primary_keys (db (step cfg hmac qr_secret now op s))"
proof (cases op)
  case (Op_reserve new_id rq)
  obtain rep s' where r: "reserve cfg now new_id rq s = (rep, s')" by (cases "reserve cfg now new_id rq s") auto
  from reserve_cases[OF r] have "primary_keys (db s')"
  proof
    assume "db s' = db s \<and> (\<forall>row. rep \<noteq> Reserved row)"
    then show ?thesis using assms by simp
  next
    assume "\<exists>tid q u. rq_tier_id rq = Some tid \<and> rq_quantity rq = Some q \<and> 0 < q
             \<and> rq_user_id rq = Some u
             \<and> reserve_tx cfg now new_id (rq_event_id rq) tid q u (db s) = (rep, db s')"
    then obtain tid q u where "reserve_tx cfg now new_id (rq_event_id rq) tid q u (db s) = (rep, db s')"
      by blast
    from reserve_tx_primary_keys[OF assms this] show ?thesis .
  qed
  then show ?thesis using Op_reserve r by simp
next
  case (Op_create_session new_id rq)
  obtain rep s' where r: "create_session (timeZone cfg) now new_id rq s = (rep, s')"
    by (cases "create_session (timeZone cfg) now new_id rq s") auto
  from create_session_cases[OF r] have "primary_keys (db s')"
  proof
    assume "db s' = db s \<and> (\<forall>c r t. rep \<noteq> Session_created c r t)"
    then show ?thesis using assms by simp
  next
    assume "\<exists>key rid. sq_idempotency_key rq = Some key \<and> sq_reservation_id rq = Some rid
             \<and> create_session_db (timeZone cfg) now new_id key rid (db s) = (rep, db s')"
    then obtain key rid where "create_session_db (timeZone cfg) now new_id key rid (db s) = (rep, db s')" by blast
    from create_session_db_primary_keys[OF assms this] show ?thesis .
  qed
  then show ?thesis using Op_create_session r by simp
next
  case (Op_confirm ids rq)
  obtain rep s' where r: "confirm hmac qr_secret now ids rq s = (rep, s')" by (cases "confirm hmac qr_secret now ids rq s") auto
  from confirm_cases[OF r] have "primary_keys (db s')"
  proof
    assume "db s' = db s \<and> (\<forall>ord ks. rep \<noteq> Order_created ord ks)"
    then show ?thesis using assms by simp
  next
    assume "confirm_tx hmac qr_secret now ids rq (db s) = (rep, db s')"
    from confirm_tx_primary_keys[OF assms this] show ?thesis .
  qed
  then show ?thesis using Op_confirm r by simp
next
  case (Op_worker ids)
  then show ?thesis using assms by (simp add: primary_keys_def)
next
  case (Op_join token rq)
  then show ?thesis using assms by simp
next
  case (Op_status rq)
  then show ?thesis using assms by simp
qed

subsection \<open>No oversell\<close>

lemma no_oversell_frame:
  assumes "no_oversell d now" "ticket_tiers d' = ticket_tiers d"
      "\<And>t. t \<in> set (ticket_tiers d) \<Longrightarrow>
         reserved_qty d' (t_id t) now + sold_qty d' (t_id t) \<le> reserved_qty d (t_id t) now + sold_qty d (t_id t)"
  shows "no_oversell d' now"
  unfolding no_oversell_def
proof
  fix t assume "t \<in> set (ticket_tiers d')"
  then have t: "t \<in> set (ticket_tiers d)" using assms(2) by simp
  from assms(1) t have "reserved_qty d (t_id t) now + sold_qty d (t_id t) \<le> t_capacity t"
    by (simp add: no_oversell_def)
  with assms(3)[OF t] show "reserved_qty d' (t_id t) now + sold_qty d' (t_id t) \<le> t_capacity t"
    by linarith
qed

lemma set_session_status_qty [simp]:
  "reserved_qty (set_session_status cid st d) tid now = reserved_qty d tid now"
  "sold_qty (set_session_status cid st d) tid = sold_qty d tid"
  by (simp_all add: reserved_qty_def sold_qty_def)

lemma set_reservation_status_sold [simp]:
  "sold_qty (set_reservation_status rid st d) tid = sold_qty d tid"
  by (simp add: sold_qty_def)

lemma create_session_db_no_oversell:
  assumes pk: "primary_keys d" and inv: "no_oversell d now"
      and cs: "create_session_db tz now new_id key rid d = (rep, d')"
  shows "no_oversell d' now"
proof -
  from create_session_db_cases[OF cs]
  consider "d' = d" | "d' = set_reservation_status rid Expired d"
    | x where "x \<in> set (reservations d)" "r_id x = rid" "now < r_expires_at x"
        "ticket_tiers d' = ticket_tiers d" "orders d' = orders d"
        "reservations d' = reservations (extend_reservation rid (setMinutes_plus tz now 3) d)"
    by auto
  then show ?thesis
  proof cases
    case 1
    then show ?thesis using inv by simp
  next
    case 2
    show ?thesis
      by (rule no_oversell_frame[OF inv]) (simp_all add: 2 set_reservation_status_reserved_le)
  next
    case 3
    have rk: "distinct (map r_id (reservations d))" using pk by (simp add: primary_keys_def)
    have "\<And>tid. reserved_qty d' tid now \<le> reserved_qty d tid now"
      using extend_reservation_reserved_le[OF rk 3(1,2,3), of "setMinutes_plus tz now 3"]
        reserved_qty_cong[OF 3(6)] by simp
    moreover have "\<And>tid. sold_qty d' tid = sold_qty d tid" using sold_qty_cong[OF 3(5)] .
    ultimately show ?thesis
      by (intro no_oversell_frame[OF inv]) (simp_all add: 3(4))
  qed
qed

lemma confirm_payment_no_oversell:
  assumes inv: "no_oversell d now"
      and x: "joined \<in> set (reservations d)" "r_id joined = cs_reservation_id c"
             "r_status joined = Active" "now < r_expires_at joined"
      and cp: "confirm_payment hmac qr_secret now ids simulate cid c joined t d = (rep, d')"
  shows "no_oversell d' now"
proof -
  from confirm_payment_cases[OF cp]
  consider "d' = d"
    | "d' = set_reservation_status (cs_reservation_id c) Canceled (set_session_status cid Failed d)"
    | ks where "d' = set_reservation_status (cs_reservation_id c) Converted
                      (set_session_status cid Completed
                         (d\<lparr>orders := orders d @ [new_order now ids cid c joined t], tickets := ks\<rparr>))"
    by blast
  then show ?thesis
  proof cases
    case 1
    then show ?thesis using inv by simp
  next
    case 2
    show ?thesis
      by (rule no_oversell_frame[OF inv])
         (simp_all add: 2 set_reservation_status_reserved_le[THEN order_trans])
  next
    case 3
    let ?d1 = "set_session_status cid Completed
                 (d\<lparr>orders := orders d @ [new_order now ids cid c joined t], tickets := ks\<rparr>)"
    have res1: "reservations ?d1 = reservations d" by simp
    have sold: "\<And>tid. sold_qty d' tid = sold_qty d tid + (if r_tier_id joined = tid then r_quantity joined else 0)"
      by (simp add: 3 sold_qty_def new_order_def)
    have le: "\<And>tid. reserved_qty d' tid now \<le> reserved_qty d tid now"
      using set_reservation_status_reserved_le[of Converted "cs_reservation_id c" ?d1 _ now]
      by (simp add: 3 reserved_qty_def)
    have rel: "reserved_qty d' (r_tier_id joined) now + r_quantity joined \<le> reserved_qty d (r_tier_id joined) now"
      using set_reservation_status_released[of Converted joined ?d1 "cs_reservation_id c" now] x
      by (simp add: 3 reserved_qty_def)
    show ?thesis
    proof (rule no_oversell_frame[OF inv])
      show "ticket_tiers d' = ticket_tiers d" by (simp add: 3)
    next
      fix tr assume "tr \<in> set (ticket_tiers d)"
      show "reserved_qty d' (t_id tr) now + sold_qty d' (t_id tr)
              \<le> reserved_qty d (t_id tr) now + sold_qty d (t_id tr)"
      proof (cases "r_tier_id joined = t_id tr")
        case True
        then show ?thesis using rel sold[of "t_id tr"] by simp
      next
        case False
        then show ?thesis using le[of "t_id tr"] sold[of "t_id tr"] by simp
      qed
    qed
  qed
qed

lemma confirm_tx_no_oversell:
  assumes pk: "primary_keys d" and inv: "no_oversell d now"
      and cf: "confirm_tx hmac qr_secret now ids rq d = (rep, d')"
  shows "no_oversell d' now"
proof -
  from confirm_tx_cases[OF cf]
  consider "d' = d" | cid where "d' = set_session_status cid Failed d"
    | cid rid where "d' = set_session_status cid Session_expired (set_reservation_status rid Expired d)"
    | cid c joined t x where "joined \<in> set (reservations d)" "r_id joined = cs_reservation_id c"
        "x \<in> set (reservations d)" "r_id x = cs_reservation_id c" "r_status x = Active"
        "now < r_expires_at x"
        "confirm_payment hmac qr_secret now ids (cq_simulate rq) cid c joined t d = (rep, d')"
    by blast
  then show ?thesis
  proof cases
    case 1
    then show ?thesis using inv by simp
  next
    case 2
    show ?thesis by (rule no_oversell_frame[OF inv]) (simp_all add: 2)
  next
    case 3
    show ?thesis
      by (rule no_oversell_frame[OF inv]) (simp_all add: 3 set_reservation_status_reserved_le)
  next
    case 4
    have rk: "distinct (map r_id (reservations d))" using pk by (simp add: primary_keys_def)
    have "joined = x" using distinct_key_eq[OF rk 4(1) 4(3)] 4(2,4) by simp
    with 4 show ?thesis using confirm_payment_no_oversell[OF inv] by blast
  qed
qed

lemma worker_no_oversell:
  assumes "no_oversell d now"
  shows "no_oversell (runExpirationWorker hmac qr_secret now ids d) now"
proof (rule no_oversell_frame[OF assms])
  show "ticket_tiers (runExpirationWorker hmac qr_secret now ids d) = ticket_tiers d" by simp
next
  fix t
  have "reserved_qty (runExpirationWorker hmac qr_secret now ids d) (t_id t) now = reserved_qty d (t_id t) now"
    using reserved_qty_cong[of "runExpirationWorker hmac qr_secret now ids d" "expire_reservations now d"]
      expire_reservations_reserved by simp
  moreover have "sold_qty (runExpirationWorker hmac qr_secret now ids d) (t_id t) = sold_qty d (t_id t)"
    by (rule sold_qty_cong) simp
  ultimately show "reserved_qty (runExpirationWorker hmac qr_secret now ids d) (t_id t) now
      + sold_qty (runExpirationWorker hmac qr_secret now ids d) (t_id t)
      \<le> reserved_qty d (t_id t) now + sold_qty d (t_id t)" by simp
qed

lemma step_no_oversell:
  assumes pk: "primary_keys (db s)" and inv: "no_oversell (db s) now"
  shows "no_oversell (db (step cfg hmac qr_secret now op s)) now"
proof (cases op)
  case (Op_reserve new_id rq)
  obtain rep s' where r: "reserve cfg now new_id rq s = (rep, s')" by (cases "reserve cfg now new_id rq s") auto
  have "distinct (map t_id (ticket_tiers (db s)))" using pk by (simp add: primary_keys_def)
  from reserve_no_oversell[OF this inv r] show ?thesis using Op_reserve r by simp
next
  case (Op_create_session new_id rq)
  obtain rep s' where r: "create_session (timeZone cfg) now new_id rq s = (rep, s')"
    by (cases "create_session (timeZone cfg) now new_id rq s") auto
  from create_session_cases[OF r] have "no_oversell (db s') now"
  proof
    assume "db s' = db s \<and> (\<forall>c r t. rep \<noteq> Session_created c r t)"
    then show ?thesis using inv by simp
  next
    assume "\<exists>key rid. sq_idempotency_key rq = Some key \<and> sq_reservation_id rq = Some rid
             \<and> create_session_db (timeZone cfg) now new_id key rid (db s) = (rep, db s')"
    then obtain key rid where "create_session_db (timeZone cfg) now new_id key rid (db s) = (rep, db s')" by blast
    from create_session_db_no_oversell[OF pk inv this] show ?thesis .
  qed
  then show ?thesis using Op_create_session r by simp
next
  case (Op_confirm ids rq)
  obtain rep s' where r: "confirm hmac qr_secret now ids rq s = (rep, s')" by (cases "confirm hmac qr_secret now ids rq s") auto
  from confirm_cases[OF r] have "no_oversell (db s') now"
  proof
    assume "db s' = db s \<and> (\<forall>ord ks. rep \<noteq> Order_created ord ks)"
    then show ?thesis using inv by simp
  next
    assume "confirm_tx hmac qr_secret now ids rq (db s) = (rep, db s')"
    from confirm_tx_no_oversell[OF pk inv this] show ?thesis .
  qed
  then show ?thesis using Op_confirm r by simp
next
  case (Op_worker ids)
  then show ?thesis using worker_no_oversell[OF inv] by simp
next
  case (Op_join token rq)
  then show ?thesis using inv by simp
next
  case (Op_status rq)
  then show ?thesis using inv by simp
qed


lemma run_no_oversell:
  "primary_keys (db s) \<Longrightarrow> no_oversell (db s) t0 \<Longrightarrow> clock_ok t0 ops \<Longrightarrow>
     primary_keys (db (run cfg hmac qr_secret ops s))
     \<and> no_oversell (db (run cfg hmac qr_secret ops s)) (final_instant t0 ops)"
proof (induction ops arbitrary: s t0)
  case Nil
  then show ?case by simp
next
  case (Cons a ops)
  obtain now op where a: "a = (now, op)" by (cases a) auto
  have t: "t0 \<le> now" "clock_ok now ops" using Cons.prems(3) a by auto
  have inv: "no_oversell (db s) now" using no_oversell_later[OF Cons.prems(2) t(1)] .
  have "primary_keys (db (step cfg hmac qr_secret now op s))"
    using step_primary_keys[OF Cons.prems(1)] .
  moreover have "no_oversell (db (step cfg hmac qr_secret now op s)) now"
    using step_no_oversell[OF Cons.prems(1) inv] .
  ultimately show ?case using Cons.IH[of "step cfg hmac qr_secret now op s" now] t(2) a by simp
qed

subsection \<open>Session uniqueness\<close>

lemma create_session_db_session_uniqueness:
  assumes "session_uniqueness d" "create_session_db tz now new_id key rid d = (rep, d')"
  shows "session_uniqueness d'"
  using create_session_db_cases[OF assms(2)] assms(1)
  by (auto simp: session_uniqueness_def)

lemma confirm_payment_session_uniqueness:
  assumes "session_uniqueness d" "cid \<notin> set (map o_checkout_session_id (orders d))"
      "confirm_payment hmac qr_secret now ids simulate cid c joined t d = (rep, d')"
  shows "session_uniqueness d'"
  using confirm_payment_cases[OF assms(3)] assms(1,2)
  by (auto simp: session_uniqueness_def new_order_def)

lemma confirm_tx_session_uniqueness:
  assumes "session_uniqueness d" "confirm_tx hmac qr_secret now ids rq d = (rep, d')"
  shows "session_uniqueness d'"
proof -
  consider "d' = d" | cid where "d' = set_session_status cid Failed d"
    | cid rid where "d' = set_session_status cid Session_expired (set_reservation_status rid Expired d)"
    | cid c joined t where "cid \<notin> set (map o_checkout_session_id (orders d))"
        "confirm_payment hmac qr_secret now ids (cq_simulate rq) cid c joined t d = (rep, d')"
    using confirm_tx_cases[OF assms(2)] by blast
  then show ?thesis
  proof cases
    case 1
    then show ?thesis using assms(1) by simp
  next
    case 2
    then show ?thesis using assms(1) by (simp add: session_uniqueness_def)
  next
    case 3
    then show ?thesis using assms(1) by (simp add: session_uniqueness_def)
  next
    case 4
    from confirm_payment_session_uniqueness[OF assms(1) 4] show ?thesis .
  qed
qed

lemma reserve_tx_session_uniqueness:
  assumes "session_uniqueness d" "reserve_tx cfg now new_id eid tier_id quantity userId d = (rep, d')"
  shows "session_uniqueness d'"
  using reserve_tx_cases[OF assms(2)] assms(1) by (auto simp: session_uniqueness_def)

lemma step_session_uniqueness:
  assumes "session_uniqueness (db s)"
  shows "session_uniqueness (db (step cfg hmac qr_secret now op s))"
proof (cases op)
  case (Op_reserve new_id rq)
  obtain rep s' where r: "reserve cfg now new_id rq s = (rep, s')" by (cases "reserve cfg now new_id rq s") auto
  from reserve_cases[OF r] have "session_uniqueness (db s')"
  proof
    assume "db s' = db s \<and> (\<forall>row. rep \<noteq> Reserved row)"
    then show ?thesis using assms by simp
  next
    assume "\<exists>tid q u. rq_tier_id rq = Some tid \<and> rq_quantity rq = Some q \<and> 0 < q
             \<and> rq_user_id rq = Some u
             \<and> reserve_tx cfg now new_id (rq_event_id rq) tid q u (db s) = (rep, db s')"
    then obtain tid q u where "reserve_tx cfg now new_id (rq_event_id rq) tid q u (db s) = (rep, db s')"
      by blast
    from reserve_tx_session_uniqueness[OF assms this] show ?thesis .
  qed
  then show ?thesis using Op_reserve r by simp
next
  case (Op_create_session new_id rq)
  obtain rep s' where r: "create_session (timeZone cfg) now new_id rq s = (rep, s')"
    by (cases "create_session (timeZone cfg) now new_id rq s") auto
  from create_session_cases[OF r] have "session_uniqueness (db s')"
  proof
    assume "db s' = db s \<and> (\<forall>c r t. rep \<noteq> Session_created c r t)"
    then show ?thesis using assms by simp
  next
    assume "\<exists>key rid. sq_idempotency_key rq = Some key \<and> sq_reservation_id rq = Some rid
             \<and> create_session_db (timeZone cfg) now new_id key rid (db s) = (rep, db s')"
    then obtain key rid where "create_session_db (timeZone cfg) now new_id key rid (db s) = (rep, db s')" by blast
    from create_session_db_session_uniqueness[OF assms this] show ?thesis .
  qed
  then show ?thesis using Op_create_session r by simp
next
  case (Op_confirm ids rq)
  obtain rep s' where r: "confirm hmac qr_secret now ids rq s = (rep, s')" by (cases "confirm hmac qr_secret now ids rq s") auto
  from confirm_cases[OF r] have "session_uniqueness (db s')"
  proof
    assume "db s' = db s \<and> (\<forall>ord ks. rep \<noteq> Order_created ord ks)"
    then show ?thesis using assms by simp
  next
    assume "confirm_tx hmac qr_secret now ids rq (db s) = (rep, db s')"
    from confirm_tx_session_uniqueness[OF assms this] show ?thesis .
  qed
  then show ?thesis using Op_confirm r by simp
next
  case (Op_worker ids)
  then show ?thesis using assms by (simp add: session_uniqueness_def)
next
  case (Op_join token rq)
  then show ?thesis using assms by simp
next
  case (Op_status rq)
  then show ?thesis using assms by simp
qed

lemma run_session_uniqueness:
  "session_uniqueness (db s) \<Longrightarrow> session_uniqueness (db (run cfg hmac qr_secret ops s))"
proof (induction ops arbitrary: s)
  case Nil
  then show ?case by simp
next
  case (Cons a ops)
  obtain now op where a: "a = (now, op)" by (cases a) auto
  show ?case using Cons.IH[OF step_session_uniqueness[OF Cons.prems]] a by simp
qed

subsection \<open>Evaluation on the small installation\<close>

lemmas example_defs =
  ex_stores_def ex_db_def ex_redis_def ex_event_def ex_tier_def ex_reserve_def default_config_def
  utc_zone_def
  ex_held_def ex_db_held_def ex_ids_def ex_hmac_def ex_order_def ex_session_def
  ex_db_checkout_def ex_confirm_def ex_paid_def ex_ticket_def ex_tickets_def ex_db_confirmed_def
  ex_session_request_def

lemmas redis_defs =
  live_def redis_get_def redis_set_def redis_set_ex_def redis_incr_def redis_expire_def
  redis_ttl_def redis_del_def zset_of_def redis_zadd_def redis_zcard_def redis_zrank_def

lemmas reserve_defs =
  reserve_def reserve_tx_def setMinutes_plus_def rateLimit_def truthy_val_def user_paid_def
  user_held_def
  reserved_qty_def sold_qty_def Let_def

subsection \<open>Lists\<close>

lemma filter_all: "(\<And>x. x \<in> set xs \<Longrightarrow> P x) \<Longrightarrow> filter P xs = xs"
  by (induction xs) auto

lemma map_mem: "x \<in> set xs \<Longrightarrow> y = f x \<Longrightarrow> y \<in> set (map f xs)"
  by simp


subsection \<open>Confirmation\<close>

lemma generate_tickets_length [simp]:
  "length (generate_tickets hmac qr_secret now ids oid joined) = r_quantity joined"
  by (simp add: generate_tickets_def)

lemma generate_tickets_order:
  "k \<in> set (generate_tickets hmac qr_secret now ids oid joined) \<Longrightarrow> k_order_id k = oid"
  by (auto simp: generate_tickets_def make_ticket_def generateTicket_def)

lemma confirm_tx_existing:
  assumes "truthy (cq_checkout_id rq)" "js_or (cq_checkout_id rq) [] = cid"
      "cq_simulate rq = Some ''success'' \<or> cq_simulate rq = Some ''fail''"
      "session_join d cid \<noteq> []"
      "filter (\<lambda>x. o_checkout_session_id x = cid) (orders d) = ord # others"
  shows "\<exists>st. confirm_tx hmac qr_secret now ids rq d
           = (Order_exists ord (filter (\<lambda>k. k_order_id k = o_id ord) (tickets d)) st, d)"
proof -
  obtain c r t rows where j: "session_join d cid = (c, r, t) # rows"
    using assms(4) by (cases "session_join d cid") auto
  show ?thesis using assms(1,2,3,5) j unfolding confirm_tx_def confirm_decide_def by auto
qed


lemma confirm_tx_created_cases:
  assumes first: "confirm_tx hmac qr_secret now ids rq d = (Order_created ord ks, d1)"
  shows "\<exists>cid c joined t x.
             cq_checkout_id rq = Some cid
             \<and> c \<in> set (checkout_sessions d) \<and> cs_id c = cid \<and> cs_status c = Pending
             \<and> joined \<in> set (reservations d) \<and> r_id joined = cs_reservation_id c
             \<and> t \<in> set (ticket_tiers d) \<and> t_id t = r_tier_id joined
             \<and> x \<in> set (reservations d) \<and> r_id x = cs_reservation_id c
             \<and> r_status x = Active \<and> now < r_expires_at x
             \<and> cid \<notin> set (map o_checkout_session_id (orders d))
             \<and> confirm_payment hmac qr_secret now ids (cq_simulate rq) cid c joined t d = (Order_created ord ks, d1)"
proof -
  have created: "(\<forall>o' ks'. Order_created ord ks \<noteq> Order_created o' ks') = False" by simp
  show ?thesis using confirm_tx_cases[OF first] unfolding created by (simp only: simp_thms)
qed

lemma confirm_payment_created_cases:
  assumes pay: "confirm_payment hmac qr_secret now ids simulate cid c joined t d = (Order_created ord ks, d1)"
  shows "\<exists>ks'. new_order_id ids \<notin> set (map o_id (orders d))
             \<and> d1 = set_reservation_status (cs_reservation_id c) Converted
                      (set_session_status cid Completed
                         (d\<lparr>orders := orders d @ [new_order now ids cid c joined t], tickets := ks'\<rparr>))
             \<and> ord = new_order now ids cid c joined t
             \<and> ((filter (\<lambda>k. k_order_id k = new_order_id ids) (tickets d) = []
                   \<and> insert_all_tickets (generate_tickets hmac qr_secret now ids (new_order_id ids) joined) (tickets d) = Inr ks'
                   \<and> ks = generate_tickets hmac qr_secret now ids (new_order_id ids) joined)
                 \<or> (filter (\<lambda>k. k_order_id k = new_order_id ids) (tickets d) \<noteq> []
                   \<and> ks' = tickets d
                   \<and> ks = filter (\<lambda>k. k_order_id k = new_order_id ids) (tickets d)))"
  using pay unfolding confirm_payment_def insert_order_def Let_def
  by (auto split: if_splits sum.splits) 

lemma session_join_after_confirm:
  assumes c: "c \<in> set (checkout_sessions d)" "cs_id c = cid"
      and j: "joined \<in> set (reservations d)" "r_id joined = cs_reservation_id c"
      and t: "t \<in> set (ticket_tiers d)" "t_id t = r_tier_id joined"
      and d1: "d1 = set_reservation_status (cs_reservation_id c) Converted
                      (set_session_status cid Completed (d\<lparr>orders := os, tickets := ks'\<rparr>))"
  shows "session_join d1 cid \<noteq> []"
proof -
  have cs: "checkout_sessions d1
      = map (\<lambda>c. if cs_id c = cid then c\<lparr>cs_status := Completed\<rparr> else c) (checkout_sessions d)"
    unfolding d1 by (simp add: set_session_status_def)
  have rs: "reservations d1
      = map (\<lambda>r. if r_id r = cs_reservation_id c then r\<lparr>r_status := Converted\<rparr> else r) (reservations d)"
    unfolding d1 by (simp add: set_reservation_status_def)
  have ts: "ticket_tiers d1 = ticket_tiers d"
    unfolding d1 by simp
  have c': "c\<lparr>cs_status := Completed\<rparr> \<in> set (checkout_sessions d1)"
    unfolding cs by (rule map_mem[OF c(1)]) (simp add: c(2))
  have j': "joined\<lparr>r_status := Converted\<rparr> \<in> set (reservations d1)"
    unfolding rs by (rule map_mem[OF j(1)]) (simp add: j(2))
  have "(joined\<lparr>r_status := Converted\<rparr>, t) \<in> set (reservation_with_tier d1 (cs_reservation_id c))"
    unfolding reservation_with_tier_mem using j' j(2) t ts by simp
  then have "(c\<lparr>cs_status := Completed\<rparr>, joined\<lparr>r_status := Converted\<rparr>, t) \<in> set (session_join d1 cid)"
    unfolding session_join_mem using c' c(2) by simp
  then show ?thesis by auto
qed

text \<open>What a confirmation that created an order has left in the database.\<close>

lemma confirm_tx_created:
  assumes pk: "primary_keys d" and fk: "tickets_reference_orders d"
      and first: "confirm_tx hmac qr_secret now ids rq d = (Order_created ord ks, d1)"
  shows "\<exists>cid. cq_checkout_id rq = Some cid \<and> cid \<noteq> [] \<and> o_checkout_session_id ord = cid
           \<and> session_join d1 cid \<noteq> []
           \<and> filter (\<lambda>x. o_checkout_session_id x = cid) (orders d1) = [ord]
           \<and> filter (\<lambda>k. k_order_id k = o_id ord) (tickets d1) = ks
           \<and> length ks = o_quantity ord
           \<and> (\<exists>r \<in> set (reservations d). r_id r = o_reservation_id ord
                  \<and> r_quantity r = o_quantity ord \<and> r_status r = Active \<and> now < r_expires_at r)
           \<and> tickets d1 = tickets d @ ks
           \<and> distinct (map k_code ks) \<and> set (map k_code ks) \<inter> set (map k_code (tickets d)) = {}
           \<and> ks = map (make_ticket hmac qr_secret now ids (o_id ord) (o_event_id ord) (o_tier_id ord)
                          (o_user_token ord)) [0 ..< o_quantity ord]"
proof -
  from confirm_tx_created_cases[OF first]
  obtain cid c joined t x where
    cid: "cq_checkout_id rq = Some cid"
    and c: "c \<in> set (checkout_sessions d)" "cs_id c = cid"
    and j: "joined \<in> set (reservations d)" "r_id joined = cs_reservation_id c"
    and t: "t \<in> set (ticket_tiers d)" "t_id t = r_tier_id joined"
    and x: "x \<in> set (reservations d)" "r_id x = cs_reservation_id c" "r_status x = Active"
           "now < r_expires_at x"
    and no: "cid \<notin> set (map o_checkout_session_id (orders d))"
    and pay: "confirm_payment hmac qr_secret now ids (cq_simulate rq) cid c joined t d
                = (Order_created ord ks, d1)"
    by blast
  have ne: "cid \<noteq> []"
  proof
    assume "cid = []"
    then have "\<not> truthy (cq_checkout_id rq)" using cid by (simp add: truthy_def)
    then show False using first unfolding confirm_tx_def confirm_decide_def by simp
  qed
  have rk: "distinct (map r_id (reservations d))" using pk by (simp add: primary_keys_def)
  have jx: "joined = x" using distinct_key_eq[OF rk j(1) x(1)] j(2) x(2) by simp
  from confirm_payment_created_cases[OF pay]
  obtain ks' where fresh: "new_order_id ids \<notin> set (map o_id (orders d))"
    and d1: "d1 = set_reservation_status (cs_reservation_id c) Converted
                      (set_session_status cid Completed
                         (d\<lparr>orders := orders d @ [new_order now ids cid c joined t], tickets := ks'\<rparr>))"
    and ord: "ord = new_order now ids cid c joined t"
    and alt: "(filter (\<lambda>k. k_order_id k = new_order_id ids) (tickets d) = []
                   \<and> insert_all_tickets (generate_tickets hmac qr_secret now ids (new_order_id ids) joined) (tickets d) = Inr ks'
                   \<and> ks = generate_tickets hmac qr_secret now ids (new_order_id ids) joined)
                 \<or> (filter (\<lambda>k. k_order_id k = new_order_id ids) (tickets d) \<noteq> []
                   \<and> ks' = tickets d
                   \<and> ks = filter (\<lambda>k. k_order_id k = new_order_id ids) (tickets d))"
    by blast
  have none: "filter (\<lambda>k. k_order_id k = new_order_id ids) (tickets d) = []"
  proof -
    have "\<And>k. k \<in> set (tickets d) \<Longrightarrow> k_order_id k \<noteq> new_order_id ids"
      using fk fresh unfolding tickets_reference_orders_def by metis
    then show ?thesis by (simp add: filter_empty_conv)
  qed
  with alt have ins: "insert_all_tickets (generate_tickets hmac qr_secret now ids (new_order_id ids) joined) (tickets d) = Inr ks'"
    and ks: "ks = generate_tickets hmac qr_secret now ids (new_order_id ids) joined"
    by auto
  note app = insert_all_tickets_Inr[OF ins]
  have tk: "tickets d1 = tickets d @ ks" using d1 app ks by simp
  have own: "filter (\<lambda>k. k_order_id k = o_id ord) (tickets d1) = ks"
  proof -
    have "filter (\<lambda>k. k_order_id k = new_order_id ids) ks = ks"
      by (rule filter_all) (simp add: ks generate_tickets_order)
    then show ?thesis using tk none ord by simp
  qed
  have ords: "filter (\<lambda>x. o_checkout_session_id x = cid) (orders d1) = [ord]"
  proof -
    have "filter (\<lambda>x. o_checkout_session_id x = cid) (orders d) = []"
      using no by (auto simp: filter_empty_conv)
    then show ?thesis using d1 ord by (simp add: new_order_def)
  qed
  have join: "session_join d1 cid \<noteq> []"
    by (rule session_join_after_confirm[OF c j t d1])
  have q: "length ks = o_quantity ord" using ks ord by (simp add: new_order_def)
  have r: "\<exists>r \<in> set (reservations d). r_id r = o_reservation_id ord
             \<and> r_quantity r = o_quantity ord \<and> r_status r = Active \<and> now < r_expires_at r"
    using x jx ord by (auto simp: new_order_def)
  have oc: "o_checkout_session_id ord = cid" using ord by (simp add: new_order_def)
  have codes: "distinct (map k_code ks)" "set (map k_code ks) \<inter> set (map k_code (tickets d)) = {}"
    using app ks by simp_all
  have gen: "ks = map (make_ticket hmac qr_secret now ids (o_id ord) (o_event_id ord) (o_tier_id ord)
                          (o_user_token ord)) [0 ..< o_quantity ord]"
    using ks ord by (simp add: generate_tickets_def new_order_def)
  show ?thesis
    by (intro exI[of _ cid] conjI cid ne oc join ords own q r tk codes gen)
qed

text \<open>Alice's confirmation at instant 2000 on the small installation.\<close>

lemma ex_confirm_tx_created:
  "confirm_tx ex_hmac ''secret'' 2000 ex_ids ex_confirm ex_db_checkout
     = (Order_created ex_paid ex_tickets, ex_db_confirmed)"
proof -
  have up: "[0..<3] = [0, Suc 0, 2]" by (simp add: upt_rec)
  have sn: "show_nat 0 = ''0''" "show_nat (Suc 0) = ''1''" "show_nat 2 = ''2''" by code_simp+
  show ?thesis
    by (simp add: confirm_tx_def confirm_decide_def confirm_payment_def insert_order_def new_order_def generate_tickets_def
        make_ticket_def generateTicket_def insert_ticket_def session_join_def
        reservation_with_tier_def set_session_status_def set_reservation_status_def truthy_def
        js_or_def Let_def up sn example_defs del: show_nat.simps)
qed

lemma ex_confirm_created:
  "confirm ex_hmac ''secret'' 2000 ex_ids ex_confirm \<lparr>db = ex_db_checkout, redis = ex_redis\<rparr>
     = (Order_created ex_paid ex_tickets, \<lparr>db = ex_db_confirmed, redis = ex_redis\<rparr>)"
  unfolding confirm_def using ex_confirm_tx_created by (simp add: truthy_def ex_confirm_def)

subsection \<open>Oversell under interleaving and on the local clock\<close>

lemma reserve_tx_not_enough:
  assumes "filter (\<lambda>e. e_id e = eid \<and> e_status e \<noteq> Draft) (events d) = ev # evs" "\<not> e_paused ev"
      "filter (\<lambda>t. t_id t = tid \<and> t_event_id t = eid) (ticket_tiers d) = tier # trs"
      "int (user_paid d eid u) + int (user_held d eid u now) + q \<le> perEventLimit cfg"
      "q \<le> int (t_per_user_limit tier)"
      "filter (\<lambda>r. r_event_id r = eid \<and> r_user_token r = u \<and> r_status r = Active
                     \<and> now < r_expires_at r) (reservations d) = []"
      "int (t_capacity tier) - int (reserved_qty d tid now) - int (sold_qty d tid) < q"
  shows "reserve_tx cfg now new_id eid tid q u d
           = (Not_enough_tickets (int (t_capacity tier) - int (reserved_qty d tid now) - int (sold_qty d tid)) q, d)"
  using assms unfolding reserve_tx_def Let_def by simp

text \<open>
  C1. No oversell. Handlers that take effect one after the other, each at one instant,
  keep I1 (lemma \<open>run_no_oversell\<close>); reservations that take effect within one TTL on a
  server whose local clock does not change are granted at most the capacity (lemma
  \<open>reserve_all_bound\<close>); and a reservation that asks for more than capacity minus reserved
  minus sold is answered 409 (lemma \<open>reserve_tx_not_enough\<close>). But the handlers do not
  exclude each other, and the expiry is computed on the local clock. On the tier of
  capacity 4:

  (A) Session creation against a reservation. Alice holds 3 until instant 181000. Her
  session creation tests the expiry at 180999 and passes. At 181000 her hold has run out
  and bob's reservation of 3 is granted. At 181001 the session creation runs its
  \<^verbatim>\<open>UPDATE\<close>, which asks for the status and not for the expiry: alice's hold is active
  again until 361001. Now 6 tickets are held: I1 is broken.

  (B) Confirmation against a reservation. Alice's confirmation tests the expiry at 180999;
  bob's reservation of 3 is granted at 181000, when her hold has run out and her order is
  not yet there; her order of 3 is written at 181001. Now 3 tickets are sold and 3 held.

  (C) End of daylight saving time. On a server on New York time, in the hour that the
  local clock repeats, a hold is given an expiry 57 minutes before its creation, so it
  never counts: two reservations of 3 are granted one second apart, 6 in total.
\<close>

theorem oversell_by_interleaving_and_local_clock:
  "t_capacity ex_tier = 4
   \<and> primary_keys ex_db_held \<and> no_oversell ex_db_held 180999
   \<and> create_session_check 180999 ''idem1'' ''r1'' ex_db_held = Inr (ex_held, ex_tier)
   \<and> fst (reserve default_config 181000 ''r2'' (ex_reserve ''bob'' ''k2'' 3)
            \<lparr>db = ex_db_held, redis = ex_redis\<rparr>) = Reserved ex_held_bob
   \<and> db (snd (reserve default_config 181000 ''r2'' (ex_reserve ''bob'' ''k2'' 3)
                 \<lparr>db = ex_db_held, redis = ex_redis\<rparr>)) = ex_db_both
   \<and> no_oversell ex_db_both 181000
   \<and> snd (create_session_write utc_zone 181001 ''s1'' ''idem1'' ''r1'' ex_tier ex_db_both)
       = ex_db_revived
   \<and> session_reply_status
        (fst (create_session_write utc_zone 181001 ''s1'' ''idem1'' ''r1'' ex_tier ex_db_both)) = 201
   \<and> reserved_qty ex_db_revived ''t1'' 181001 = 6 \<and> sold_qty ex_db_revived ''t1'' = 0
   \<and> \<not> no_oversell ex_db_revived 181001
   \<and> primary_keys ex_db_checkout \<and> no_oversell ex_db_checkout 180999
   \<and> confirm_decide 180999 ex_confirm ex_db_checkout = Inr (''s1'', ex_session, ex_held, ex_tier)
   \<and> fst (reserve default_config 181000 ''r2'' (ex_reserve ''bob'' ''k2'' 3)
            \<lparr>db = ex_db_checkout, redis = ex_redis\<rparr>) = Reserved ex_held_bob
   \<and> db (snd (reserve default_config 181000 ''r2'' (ex_reserve ''bob'' ''k2'' 3)
                 \<lparr>db = ex_db_checkout, redis = ex_redis\<rparr>))
       = ex_db_both\<lparr>checkout_sessions := [ex_session]\<rparr>
   \<and> confirm_status (fst (confirm_payment ex_hmac ''secret'' 181001 ex_ids (Some ''success'') ''s1''
                             ex_session ex_held ex_tier
                             (ex_db_both\<lparr>checkout_sessions := [ex_session]\<rparr>))) = 201
   \<and> sold_qty (snd (confirm_payment ex_hmac ''secret'' 181001 ex_ids (Some ''success'') ''s1''
                       ex_session ex_held ex_tier
                       (ex_db_both\<lparr>checkout_sessions := [ex_session]\<rparr>))) ''t1'' = 3
   \<and> reserved_qty (snd (confirm_payment ex_hmac ''secret'' 181001 ex_ids (Some ''success'') ''s1''
                           ex_session ex_held ex_tier
                           (ex_db_both\<lparr>checkout_sessions := [ex_session]\<rparr>))) ''t1'' 181001 = 3
   \<and> \<not> no_oversell (snd (confirm_payment ex_hmac ''secret'' 181001 ex_ids (Some ''success'') ''s1''
                            ex_session ex_held ex_tier
                            (ex_db_both\<lparr>checkout_sessions := [ex_session]\<rparr>))) 181001
   \<and> setMinutes_plus ex_zone_ny 1793514600000 3 = 1793514600000 - 57 * 60000
   \<and> fst (reserve_all ex_config_ny ex_calls_ny ex_stores_ny)
       = [Reserved \<lparr>r_id = ''r1'', r_event_id = ''e1'', r_tier_id = ''t1'', r_user_token = ''alice'',
                    r_quantity = 3, r_status = Active, r_expires_at = 1793511180000,
                    r_created_at = 1793514600000\<rparr>,
          Reserved \<lparr>r_id = ''r2'', r_event_id = ''e1'', r_tier_id = ''t1'', r_user_token = ''bob'',
                    r_quantity = 3, r_status = Active, r_expires_at = 1793511181000,
                    r_created_at = 1793514601000\<rparr>]
   \<and> sum_list (map (granted ''t1'') (fst (reserve_all ex_config_ny ex_calls_ny ex_stores_ny))) = 6"
proof -
  note ex = example_defs ex_held_bob_def ex_db_both_def ex_db_revived_def
  have up: "[0..<3] = [0, Suc 0, 2]" by (simp add: upt_rec)
  have sn: "show_nat 0 = ''0''" "show_nat (Suc 0) = ''1''" "show_nat 2 = ''2''" by code_simp+
  have a0: "t_capacity ex_tier = 4" "primary_keys ex_db_held" "no_oversell ex_db_held 180999"
    "no_oversell ex_db_both 181000"
    by (simp_all add: primary_keys_def no_oversell_def reserved_qty_def sold_qty_def ex)
  have a1: "create_session_check 180999 ''idem1'' ''r1'' ex_db_held = Inr (ex_held, ex_tier)"
    by (simp add: create_session_check_def reservation_with_tier_def ex)
  have a2: "reserve default_config 181000 ''r2'' (ex_reserve ''bob'' ''k2'' 3)
              \<lparr>db = ex_db_held, redis = ex_redis\<rparr>
          = (Reserved ex_held_bob,
             \<lparr>db = ex_db_both,
              redis = ex_redis\<lparr>kv := (kv ex_redis)(''rate_limit:reservations:e1:bob''
                                                     \<mapsto> (RInt 1, Some 241000))\<rparr>\<rparr>)"
    by (simp add: reserve_defs redis_defs ex)
  have a3: "create_session_write utc_zone 181001 ''s1'' ''idem1'' ''r1'' ex_tier ex_db_both
          = (Session_created
               \<lparr>cs_id = ''s1'', cs_reservation_id = ''r1'', cs_idempotency_key = ''idem1'',
                cs_status = Pending, cs_created_at = 181001\<rparr>
               (ex_held\<lparr>r_expires_at := 361001\<rparr>) ex_tier,
             ex_db_revived)"
    by (simp add: create_session_write_def extend_reservation_def setMinutes_plus_def Let_def ex)
  have a4: "reserved_qty ex_db_revived ''t1'' 181001 = 6" "sold_qty ex_db_revived ''t1'' = 0"
    "\<not> no_oversell ex_db_revived 181001"
    by (simp_all add: no_oversell_def reserved_qty_def sold_qty_def ex)
  have b0: "primary_keys ex_db_checkout" "no_oversell ex_db_checkout 180999"
    by (simp_all add: primary_keys_def no_oversell_def reserved_qty_def sold_qty_def ex)
  have b1: "confirm_decide 180999 ex_confirm ex_db_checkout = Inr (''s1'', ex_session, ex_held, ex_tier)"
    by (simp add: confirm_decide_def session_join_def reservation_with_tier_def truthy_def js_or_def
        Let_def ex)
  have b2: "reserve default_config 181000 ''r2'' (ex_reserve ''bob'' ''k2'' 3)
              \<lparr>db = ex_db_checkout, redis = ex_redis\<rparr>
          = (Reserved ex_held_bob,
             \<lparr>db = ex_db_both\<lparr>checkout_sessions := [ex_session]\<rparr>,
              redis = ex_redis\<lparr>kv := (kv ex_redis)(''rate_limit:reservations:e1:bob''
                                                     \<mapsto> (RInt 1, Some 241000))\<rparr>\<rparr>)"
    by (simp add: reserve_defs redis_defs ex)
  have b3: "confirm_payment ex_hmac ''secret'' 181001 ex_ids (Some ''success'') ''s1''
              ex_session ex_held ex_tier (ex_db_both\<lparr>checkout_sessions := [ex_session]\<rparr>)
          = (Order_created (ex_paid\<lparr>o_created_at := 181001\<rparr>)
               (map (\<lambda>k. k\<lparr>k_created_at := 181001\<rparr>) ex_tickets),
             ex_db\<lparr>reservations := [ex_held\<lparr>r_status := Converted\<rparr>, ex_held_bob],
                    checkout_sessions := [ex_session\<lparr>cs_status := Completed\<rparr>],
                    orders := [ex_paid\<lparr>o_created_at := 181001\<rparr>],
                    tickets := map (\<lambda>k. k\<lparr>k_created_at := 181001\<rparr>) ex_tickets\<rparr>)"
    by (simp add: confirm_payment_def insert_order_def new_order_def generate_tickets_def
        make_ticket_def generateTicket_def insert_ticket_def set_reservation_status_def
        set_session_status_def Let_def up sn ex del: show_nat.simps)
  have b4: "confirm_status (fst (confirm_payment ex_hmac ''secret'' 181001 ex_ids (Some ''success'') ''s1''
                             ex_session ex_held ex_tier
                             (ex_db_both\<lparr>checkout_sessions := [ex_session]\<rparr>))) = 201"
    "sold_qty (snd (confirm_payment ex_hmac ''secret'' 181001 ex_ids (Some ''success'') ''s1''
                       ex_session ex_held ex_tier
                       (ex_db_both\<lparr>checkout_sessions := [ex_session]\<rparr>))) ''t1'' = 3"
    "reserved_qty (snd (confirm_payment ex_hmac ''secret'' 181001 ex_ids (Some ''success'') ''s1''
                           ex_session ex_held ex_tier
                           (ex_db_both\<lparr>checkout_sessions := [ex_session]\<rparr>))) ''t1'' 181001 = 3"
    "\<not> no_oversell (snd (confirm_payment ex_hmac ''secret'' 181001 ex_ids (Some ''success'') ''s1''
                            ex_session ex_held ex_tier
                            (ex_db_both\<lparr>checkout_sessions := [ex_session]\<rparr>))) 181001"
    unfolding b3 by (simp_all add: no_oversell_def reserved_qty_def sold_qty_def ex)
  have c0: "setMinutes_plus ex_zone_ny 1793514600000 3 = 1793514600000 - 57 * 60000"
    by (simp add: setMinutes_plus_def ex_zone_ny_def)
  have c1: "fst (reserve_all ex_config_ny ex_calls_ny ex_stores_ny)
       = [Reserved \<lparr>r_id = ''r1'', r_event_id = ''e1'', r_tier_id = ''t1'', r_user_token = ''alice'',
                    r_quantity = 3, r_status = Active, r_expires_at = 1793511180000,
                    r_created_at = 1793514600000\<rparr>,
          Reserved \<lparr>r_id = ''r2'', r_event_id = ''e1'', r_tier_id = ''t1'', r_user_token = ''bob'',
                    r_quantity = 3, r_status = Active, r_expires_at = 1793511181000,
                    r_created_at = 1793514601000\<rparr>]"
    by (simp add: reserve_defs redis_defs ex_zone_ny_def ex_config_ny_def ex_stores_ny_def
        ex_calls_ny_def ex)
  have c2: "sum_list (map (granted ''t1'') (fst (reserve_all ex_config_ny ex_calls_ny ex_stores_ny))) = 6"
    unfolding c1 by simp
  have a2f: "fst (reserve default_config 181000 ''r2'' (ex_reserve ''bob'' ''k2'' 3)
            \<lparr>db = ex_db_held, redis = ex_redis\<rparr>) = Reserved ex_held_bob"
    "db (snd (reserve default_config 181000 ''r2'' (ex_reserve ''bob'' ''k2'' 3)
                 \<lparr>db = ex_db_held, redis = ex_redis\<rparr>)) = ex_db_both"
    unfolding a2 by simp_all
  have a3f: "snd (create_session_write utc_zone 181001 ''s1'' ''idem1'' ''r1'' ex_tier ex_db_both)
       = ex_db_revived"
    "session_reply_status
        (fst (create_session_write utc_zone 181001 ''s1'' ''idem1'' ''r1'' ex_tier ex_db_both)) = 201"
    unfolding a3 by simp_all
  have b2f: "fst (reserve default_config 181000 ''r2'' (ex_reserve ''bob'' ''k2'' 3)
            \<lparr>db = ex_db_checkout, redis = ex_redis\<rparr>) = Reserved ex_held_bob"
    "db (snd (reserve default_config 181000 ''r2'' (ex_reserve ''bob'' ''k2'' 3)
                 \<lparr>db = ex_db_checkout, redis = ex_redis\<rparr>))
       = ex_db_both\<lparr>checkout_sessions := [ex_session]\<rparr>"
    unfolding b2 by simp_all
  show ?thesis
    by (intro conjI a0 a1 a2f a3f a4 b0 b1 b2f b4 c0 c1 c2)
qed

theorem oversell_by_interleaving_and_local_clock_witness:
  "ex_tier \<in> set (ticket_tiers ex_db_revived)
   \<and> t_capacity ex_tier
        < reserved_qty ex_db_revived (t_id ex_tier) 181001 + sold_qty ex_db_revived (t_id ex_tier)
   \<and> \<not> no_oversell ex_db_revived 181001"
proof -
  have m: "ex_tier \<in> set (ticket_tiers ex_db_revived)" "t_id ex_tier = ''t1''"
    by (simp_all add: ex_db_revived_def ex_db_def ex_tier_def)
  from oversell_by_interleaving_and_local_clock
  have q: "t_capacity ex_tier = 4" "reserved_qty ex_db_revived ''t1'' 181001 = 6"
    "sold_qty ex_db_revived ''t1'' = 0" "\<not> no_oversell ex_db_revived 181001"
    by blast+
  show ?thesis using m q by simp
qed

lemma confirm_second:
  assumes "cq_checkout_id rq' = Some cid" "cid \<noteq> []"
      "cq_simulate rq' = Some ''success'' \<or> cq_simulate rq' = Some ''fail''"
      "session_join (db s1) cid \<noteq> []"
      "filter (\<lambda>x. o_checkout_session_id x = cid) (orders (db s1)) = [ord]"
      "truthy (cq_user_id rq') \<longrightarrow>
         limiter_admits (redis s1) now' (''checkout_confirm:'' @ js_or (cq_user_id rq') []) 10"
  shows "\<exists>st s2. confirm hmac qr_secret now' ids' rq' s1
            = (Order_exists ord (filter (\<lambda>k. k_order_id k = o_id ord) (tickets (db s1))) st, s2)
          \<and> db s2 = db s1"
proof -
  have tr: "truthy (cq_checkout_id rq')" "js_or (cq_checkout_id rq') [] = cid"
    using assms(1,2) by (simp_all add: truthy_def js_or_def)
  from confirm_tx_existing[OF tr assms(3,4,5)]
  obtain st where tx: "confirm_tx hmac qr_secret now' ids' rq' (db s1)
      = (Order_exists ord (filter (\<lambda>k. k_order_id k = o_id ord) (tickets (db s1))) st, db s1)"
    by blast
  show ?thesis
  proof (cases "truthy (cq_user_id rq')")
    case False
    then show ?thesis using tx unfolding confirm_def by simp
  next
    case True
    with assms(6) obtain rl r2 where
      "rateLimit (redis s1) now' (''checkout_confirm:'' @ js_or (cq_user_id rq') []) 10 60 = Inr (rl, r2)"
      "allowed rl"
      by (auto simp: limiter_admits_def split: sum.splits)
    then show ?thesis using True tx unfolding confirm_def by simp
  qed
qed


text \<open>
  C2. Confirmation idempotency. Let a first \<^verbatim>\<open>confirm(success)\<close> have created the order
  \<open>ord\<close> with the tickets \<open>ks\<close>, in a database with unique primary keys whose tickets all
  belong to orders. Then any later \<^verbatim>\<open>confirm(success)\<close> for the same checkout session that
  the rate limiter lets through answers 200 with the same order and the same tickets and
  leaves the database unchanged; the database holds exactly that one order for the session and
  exactly \<open>quantity\<close> tickets for the order, where \<open>quantity\<close> is the quantity of the
  reservation. And I4 (at most one session per idempotency key, at most one order per
  session) is preserved along every schedule of operations.
\<close>

theorem confirm_idempotent:
  "(primary_keys (db s) \<and> tickets_reference_orders (db s)
      \<and> confirm hmac qr_secret now ids rq s = (Order_created ord ks, s1)
      \<and> cq_checkout_id rq' = cq_checkout_id rq \<and> cq_simulate rq' = Some ''success''
      \<and> (truthy (cq_user_id rq') \<longrightarrow>
            limiter_admits (redis s1) now' (''checkout_confirm:'' @ js_or (cq_user_id rq') []) 10)
    \<longrightarrow>
      confirm_order (fst (confirm hmac qr_secret now' ids' rq' s1)) = Some ord
      \<and> confirm_tickets (fst (confirm hmac qr_secret now' ids' rq' s1)) = ks
      \<and> confirm_status (fst (confirm hmac qr_secret now' ids' rq' s1)) = 200
      \<and> db (snd (confirm hmac qr_secret now' ids' rq' s1)) = db s1
      \<and> filter (\<lambda>x. Some (o_checkout_session_id x) = cq_checkout_id rq) (orders (db s1)) = [ord]
      \<and> filter (\<lambda>k. k_order_id k = o_id ord) (tickets (db s1)) = ks
      \<and> length ks = o_quantity ord
      \<and> (\<exists>r \<in> set (reservations (db s)). r_id r = o_reservation_id ord
             \<and> r_quantity r = o_quantity ord))
   \<and> (session_uniqueness (db s) \<longrightarrow> session_uniqueness (db (run cfg hmac qr_secret ops s)))"
proof (intro conjI impI)
  assume a: "primary_keys (db s) \<and> tickets_reference_orders (db s)
      \<and> confirm hmac qr_secret now ids rq s = (Order_created ord ks, s1)
      \<and> cq_checkout_id rq' = cq_checkout_id rq \<and> cq_simulate rq' = Some ''success''
      \<and> (truthy (cq_user_id rq') \<longrightarrow>
            limiter_admits (redis s1) now' (''checkout_confirm:'' @ js_or (cq_user_id rq') []) 10)"
  then have first: "confirm hmac qr_secret now ids rq s = (Order_created ord ks, s1)" by blast
  from confirm_cases[OF first]
  have tx: "confirm_tx hmac qr_secret now ids rq (db s) = (Order_created ord ks, db s1)" by blast
  from a have pk: "primary_keys (db s)" and fk: "tickets_reference_orders (db s)" by blast+
  from confirm_tx_created[OF pk fk tx]
  obtain cid where cid: "cq_checkout_id rq = Some cid" "cid \<noteq> []"
    and join: "session_join (db s1) cid \<noteq> []"
    and ords: "filter (\<lambda>x. o_checkout_session_id x = cid) (orders (db s1)) = [ord]"
    and own: "filter (\<lambda>k. k_order_id k = o_id ord) (tickets (db s1)) = ks"
    and len: "length ks = o_quantity ord"
    and res: "\<exists>r \<in> set (reservations (db s)). r_id r = o_reservation_id ord
                  \<and> r_quantity r = o_quantity ord \<and> r_status r = Active \<and> now < r_expires_at r"
    by blast
  from a cid have cid': "cq_checkout_id rq' = Some cid"
    and sim: "cq_simulate rq' = Some ''success'' \<or> cq_simulate rq' = Some ''fail''"
    and lim: "truthy (cq_user_id rq') \<longrightarrow>
            limiter_admits (redis s1) now' (''checkout_confirm:'' @ js_or (cq_user_id rq') []) 10"
    by auto
  from confirm_second[OF cid' cid(2) sim join ords lim, of hmac qr_secret ids'] own
  obtain st s2 where second: "confirm hmac qr_secret now' ids' rq' s1 = (Order_exists ord ks st, s2)"
    and same: "db s2 = db s1"
    by auto
  show "confirm_order (fst (confirm hmac qr_secret now' ids' rq' s1)) = Some ord"
    "confirm_tickets (fst (confirm hmac qr_secret now' ids' rq' s1)) = ks"
    "confirm_status (fst (confirm hmac qr_secret now' ids' rq' s1)) = 200"
    "db (snd (confirm hmac qr_secret now' ids' rq' s1)) = db s1"
    using second same by simp_all
  show "filter (\<lambda>x. Some (o_checkout_session_id x) = cq_checkout_id rq) (orders (db s1)) = [ord]"
    using ords cid by simp
  show "filter (\<lambda>k. k_order_id k = o_id ord) (tickets (db s1)) = ks" using own .
  show "length ks = o_quantity ord" using len .
  show "\<exists>r \<in> set (reservations (db s)). r_id r = o_reservation_id ord \<and> r_quantity r = o_quantity ord"
    using res by blast
next
  assume "session_uniqueness (db s)"
  then show "session_uniqueness (db (run cfg hmac qr_secret ops s))"
    by (rule run_session_uniqueness)
qed

theorem confirm_idempotent_witness:
  "primary_keys ex_db_checkout \<and> tickets_reference_orders ex_db_checkout
   \<and> confirm ex_hmac ''secret'' 2000 ex_ids ex_confirm \<lparr>db = ex_db_checkout, redis = ex_redis\<rparr>
       = (Order_created ex_paid ex_tickets, \<lparr>db = ex_db_confirmed, redis = ex_redis\<rparr>)
   \<and> cq_checkout_id (ex_confirm\<lparr>cq_user_id := Some ''alice''\<rparr>) = cq_checkout_id ex_confirm
   \<and> cq_simulate (ex_confirm\<lparr>cq_user_id := Some ''alice''\<rparr>) = Some ''success''
   \<and> truthy (cq_user_id (ex_confirm\<lparr>cq_user_id := Some ''alice''\<rparr>))
   \<and> limiter_admits ex_redis 3000 ''checkout_confirm:alice'' 10
   \<and> confirm_order (fst (confirm ex_hmac ''secret'' 3000 ex_ids
         (ex_confirm\<lparr>cq_user_id := Some ''alice''\<rparr>) \<lparr>db = ex_db_confirmed, redis = ex_redis\<rparr>))
       = Some ex_paid
   \<and> confirm_tickets (fst (confirm ex_hmac ''secret'' 3000 ex_ids
         (ex_confirm\<lparr>cq_user_id := Some ''alice''\<rparr>) \<lparr>db = ex_db_confirmed, redis = ex_redis\<rparr>))
       = ex_tickets
   \<and> confirm_status (fst (confirm ex_hmac ''secret'' 3000 ex_ids
         (ex_confirm\<lparr>cq_user_id := Some ''alice''\<rparr>) \<lparr>db = ex_db_confirmed, redis = ex_redis\<rparr>))
       = 200
   \<and> db (snd (confirm ex_hmac ''secret'' 3000 ex_ids
         (ex_confirm\<lparr>cq_user_id := Some ''alice''\<rparr>) \<lparr>db = ex_db_confirmed, redis = ex_redis\<rparr>))
       = ex_db_confirmed
   \<and> filter (\<lambda>x. Some (o_checkout_session_id x) = cq_checkout_id ex_confirm) (orders ex_db_confirmed)
       = [ex_paid]
   \<and> filter (\<lambda>k. k_order_id k = o_id ex_paid) (tickets ex_db_confirmed) = ex_tickets
   \<and> length ex_tickets = o_quantity ex_paid \<and> o_quantity ex_paid = 3
   \<and> session_uniqueness ex_db_checkout
   \<and> session_uniqueness (db (run default_config ex_hmac ''secret''
         [(2000, Op_confirm ex_ids ex_confirm),
          (3000, Op_confirm ex_ids (ex_confirm\<lparr>cq_user_id := Some ''alice''\<rparr>))]
         \<lparr>db = ex_db_checkout, redis = ex_redis\<rparr>))"
proof -
  have h1: "primary_keys ex_db_checkout" "tickets_reference_orders ex_db_checkout"
    "session_uniqueness ex_db_checkout"
    by (simp_all add: primary_keys_def tickets_reference_orders_def session_uniqueness_def example_defs)
  note h2 = ex_confirm_created
  have h3: "cq_checkout_id (ex_confirm\<lparr>cq_user_id := Some ''alice''\<rparr>) = cq_checkout_id ex_confirm"
    "cq_simulate (ex_confirm\<lparr>cq_user_id := Some ''alice''\<rparr>) = Some ''success''"
    "truthy (cq_user_id (ex_confirm\<lparr>cq_user_id := Some ''alice''\<rparr>))"
    by (simp_all add: ex_confirm_def truthy_def)
  have h4: "limiter_admits ex_redis 3000 ''checkout_confirm:alice'' 10"
    by (simp add: limiter_admits_def rateLimit_def redis_defs ex_redis_def Let_def)
  have h4': "limiter_admits ex_redis 3000
      (''checkout_confirm:'' @ js_or (cq_user_id (ex_confirm\<lparr>cq_user_id := Some ''alice''\<rparr>)) []) 10"
    using h4 by (simp add: js_or_def truthy_def)
  note T = confirm_idempotent[where s = "\<lparr>db = ex_db_checkout, redis = ex_redis\<rparr>"
      and hmac = ex_hmac and qr_secret = "''secret''" and now = 2000 and ids = ex_ids
      and rq = ex_confirm and ord = ex_paid and ks = ex_tickets
      and ?s1.0 = "\<lparr>db = ex_db_confirmed, redis = ex_redis\<rparr>"
      and rq' = "ex_confirm\<lparr>cq_user_id := Some ''alice''\<rparr>" and now' = 3000 and ids' = ex_ids
      and cfg = default_config
      and ops = "[(2000, Op_confirm ex_ids ex_confirm),
          (3000, Op_confirm ex_ids (ex_confirm\<lparr>cq_user_id := Some ''alice''\<rparr>))]",
      unfolded stores.select_convs]
  from T h1 h2 h3 h4' have c:
    "confirm_order (fst (confirm ex_hmac ''secret'' 3000 ex_ids
         (ex_confirm\<lparr>cq_user_id := Some ''alice''\<rparr>) \<lparr>db = ex_db_confirmed, redis = ex_redis\<rparr>))
       = Some ex_paid"
    "confirm_tickets (fst (confirm ex_hmac ''secret'' 3000 ex_ids
         (ex_confirm\<lparr>cq_user_id := Some ''alice''\<rparr>) \<lparr>db = ex_db_confirmed, redis = ex_redis\<rparr>))
       = ex_tickets"
    "confirm_status (fst (confirm ex_hmac ''secret'' 3000 ex_ids
         (ex_confirm\<lparr>cq_user_id := Some ''alice''\<rparr>) \<lparr>db = ex_db_confirmed, redis = ex_redis\<rparr>))
       = 200"
    "db (snd (confirm ex_hmac ''secret'' 3000 ex_ids
         (ex_confirm\<lparr>cq_user_id := Some ''alice''\<rparr>) \<lparr>db = ex_db_confirmed, redis = ex_redis\<rparr>))
       = ex_db_confirmed"
    "filter (\<lambda>x. Some (o_checkout_session_id x) = cq_checkout_id ex_confirm) (orders ex_db_confirmed)
       = [ex_paid]"
    "filter (\<lambda>k. k_order_id k = o_id ex_paid) (tickets ex_db_confirmed) = ex_tickets"
    "length ex_tickets = o_quantity ex_paid"
    "session_uniqueness (db (run default_config ex_hmac ''secret''
         [(2000, Op_confirm ex_ids ex_confirm),
          (3000, Op_confirm ex_ids (ex_confirm\<lparr>cq_user_id := Some ''alice''\<rparr>))]
         \<lparr>db = ex_db_checkout, redis = ex_redis\<rparr>))"
    by blast+
  have q: "o_quantity ex_paid = 3" by (simp add: ex_paid_def)
  show ?thesis
    by (intro conjI h1 h2 h3 h4 c q)
qed

subsection \<open>Expired holds\<close>

lemma confirm_tx_expired:
  assumes "cq_checkout_id rq = Some cid" "cid \<noteq> []"
      "cq_simulate rq = Some ''success'' \<or> cq_simulate rq = Some ''fail''"
      "session_join d cid = (c, j, t) # rows"
      "filter (\<lambda>x. o_checkout_session_id x = cid) (orders d) = []"
      "cs_status c = Pending"
      "filter (\<lambda>r. r_id r = cs_reservation_id c) (reservations d) = x # others"
      "r_status x = Active" "r_expires_at x \<le> now"
  shows "confirm_tx hmac qr_secret now ids rq d
           = (Confirm_error 409 ''reservation_expired_or_invalid'',
              set_session_status cid Session_expired (set_reservation_status (r_id x) Expired d))"
  using assms unfolding confirm_tx_def confirm_decide_def by (simp add: truthy_def js_or_def)

lemma confirm_of_tx:
  assumes "truthy (cq_user_id rq) \<longrightarrow>
             limiter_admits (redis s) now (''checkout_confirm:'' @ js_or (cq_user_id rq) []) 10"
      and "confirm_tx hmac qr_secret now ids rq (db s) = (rep, d')"
  shows "fst (confirm hmac qr_secret now ids rq s) = rep
       \<and> db (snd (confirm hmac qr_secret now ids rq s)) = d'"
proof (cases "truthy (cq_user_id rq)")
  case False
  then show ?thesis using assms(2) unfolding confirm_def by simp
next
  case True
  with assms(1) obtain rl r2 where
    "rateLimit (redis s) now (''checkout_confirm:'' @ js_or (cq_user_id rq) []) 10 60 = Inr (rl, r2)"
    "allowed rl"
    by (auto simp: limiter_admits_def split: sum.splits)
  then show ?thesis using True assms(2) unfolding confirm_def by simp
qed

lemma create_session_of_db:
  assumes "sq_idempotency_key rq = Some key" "key \<noteq> []" "sq_user_id rq = Some u" "u \<noteq> []"
      "limiter_admits (redis s) now (''checkout:'' @ u) 5"
      "sq_reservation_id rq = Some rid" "rid \<noteq> []"
      "create_session_db tz now new_id key rid (db s) = (rep, d')"
  shows "fst (create_session tz now new_id rq s) = rep
       \<and> db (snd (create_session tz now new_id rq s)) = d'"
proof -
  from assms(5) obtain rl r2 where
    "rateLimit (redis s) now (''checkout:'' @ u) 5 60 = Inr (rl, r2)" "allowed rl"
    by (auto simp: limiter_admits_def split: sum.splits)
  then show ?thesis using assms(1-4,6-8) unfolding create_session_def by simp
qed

lemma create_session_db_rejected:
  assumes "filter (\<lambda>c. cs_idempotency_key c = key) (checkout_sessions d) = []"
      "reservation_with_tier d rid = (r, t) # rows"
      "r_status r \<noteq> Active \<or> r_expires_at r \<le> now"
  shows "create_session_db tz now new_id key rid d
           = (Session_error 409
                (if r_status r \<noteq> Active then ''Reservation is not active''
                 else ''Reservation has expired''),
              if r_status r \<noteq> Active then d else set_reservation_status rid Expired d)"
  using assms unfolding create_session_db_def create_session_check_def create_session_write_def by auto

text \<open>
  C3. Expired-hold rejection, as the handlers implement it. A confirmation that reaches a
  pending session without an order whose locked reservation is still marked active but past
  \<open>expires_at\<close> answers 409 \<^verbatim>\<open>reservation_expired_or_invalid\<close>, marks the reservation
  and the session expired in the one transaction it commits, and leaves orders and tickets
  as they were. Creating a session under a new idempotency key for a reservation that is not
  active, or is active and past \<open>expires_at\<close>, answers 409 with the error
  \<^verbatim>\<open>Reservation is not active\<close>, respectively \<^verbatim>\<open>Reservation has expired\<close> (marking the
  reservation expired), and creates no session.
\<close>

theorem expired_hold_rejected:
  "(cq_checkout_id rq = Some cid \<and> cid \<noteq> []
      \<and> (cq_simulate rq = Some ''success'' \<or> cq_simulate rq = Some ''fail'')
      \<and> (truthy (cq_user_id rq) \<longrightarrow>
            limiter_admits (redis s) now (''checkout_confirm:'' @ js_or (cq_user_id rq) []) 10)
      \<and> session_join (db s) cid = (c, j, t) # rows
      \<and> filter (\<lambda>x. o_checkout_session_id x = cid) (orders (db s)) = []
      \<and> cs_status c = Pending
      \<and> filter (\<lambda>r. r_id r = cs_reservation_id c) (reservations (db s)) = x # others
      \<and> r_status x = Active \<and> r_expires_at x \<le> now
    \<longrightarrow>
      fst (confirm hmac qr_secret now ids rq s) = Confirm_error 409 ''reservation_expired_or_invalid''
      \<and> db (snd (confirm hmac qr_secret now ids rq s))
          = set_session_status cid Session_expired (set_reservation_status (r_id x) Expired (db s))
      \<and> orders (db (snd (confirm hmac qr_secret now ids rq s))) = orders (db s)
      \<and> tickets (db (snd (confirm hmac qr_secret now ids rq s))) = tickets (db s))
   \<and> (sq_idempotency_key rq' = Some key \<and> key \<noteq> [] \<and> sq_user_id rq' = Some u \<and> u \<noteq> []
      \<and> limiter_admits (redis s) now (''checkout:'' @ u) 5
      \<and> sq_reservation_id rq' = Some rid \<and> rid \<noteq> []
      \<and> filter (\<lambda>c. cs_idempotency_key c = key) (checkout_sessions (db s)) = []
      \<and> reservation_with_tier (db s) rid = (r, t') # rows'
      \<and> (r_status r \<noteq> Active \<or> r_expires_at r \<le> now)
    \<longrightarrow>
      fst (create_session tz now new_id rq' s)
          = Session_error 409 (if r_status r \<noteq> Active then ''Reservation is not active''
                               else ''Reservation has expired'')
      \<and> db (snd (create_session tz now new_id rq' s))
          = (if r_status r \<noteq> Active then db s else set_reservation_status rid Expired (db s))
      \<and> checkout_sessions (db (snd (create_session tz now new_id rq' s))) = checkout_sessions (db s))"
proof (intro conjI impI)
  assume a: "cq_checkout_id rq = Some cid \<and> cid \<noteq> []
      \<and> (cq_simulate rq = Some ''success'' \<or> cq_simulate rq = Some ''fail'')
      \<and> (truthy (cq_user_id rq) \<longrightarrow>
            limiter_admits (redis s) now (''checkout_confirm:'' @ js_or (cq_user_id rq) []) 10)
      \<and> session_join (db s) cid = (c, j, t) # rows
      \<and> filter (\<lambda>x. o_checkout_session_id x = cid) (orders (db s)) = []
      \<and> cs_status c = Pending
      \<and> filter (\<lambda>r. r_id r = cs_reservation_id c) (reservations (db s)) = x # others
      \<and> r_status x = Active \<and> r_expires_at x \<le> now"
  then have h: "cq_checkout_id rq = Some cid" "cid \<noteq> []"
      "cq_simulate rq = Some ''success'' \<or> cq_simulate rq = Some ''fail''"
      "session_join (db s) cid = (c, j, t) # rows"
      "filter (\<lambda>x. o_checkout_session_id x = cid) (orders (db s)) = []"
      "cs_status c = Pending"
      "filter (\<lambda>r. r_id r = cs_reservation_id c) (reservations (db s)) = x # others"
      "r_status x = Active" "r_expires_at x \<le> now"
    and lim: "truthy (cq_user_id rq) \<longrightarrow>
            limiter_admits (redis s) now (''checkout_confirm:'' @ js_or (cq_user_id rq) []) 10"
    by blast+
  note tx = confirm_tx_expired[OF h, of hmac qr_secret ids]
  note r = confirm_of_tx[OF lim tx]
  show "fst (confirm hmac qr_secret now ids rq s) = Confirm_error 409 ''reservation_expired_or_invalid''"
    using r by blast
  show "db (snd (confirm hmac qr_secret now ids rq s))
          = set_session_status cid Session_expired (set_reservation_status (r_id x) Expired (db s))"
    using r by blast
  then show "orders (db (snd (confirm hmac qr_secret now ids rq s))) = orders (db s)"
    "tickets (db (snd (confirm hmac qr_secret now ids rq s))) = tickets (db s)"
    by simp_all
next
  assume a: "sq_idempotency_key rq' = Some key \<and> key \<noteq> [] \<and> sq_user_id rq' = Some u \<and> u \<noteq> []
      \<and> limiter_admits (redis s) now (''checkout:'' @ u) 5
      \<and> sq_reservation_id rq' = Some rid \<and> rid \<noteq> []
      \<and> filter (\<lambda>c. cs_idempotency_key c = key) (checkout_sessions (db s)) = []
      \<and> reservation_with_tier (db s) rid = (r, t') # rows'
      \<and> (r_status r \<noteq> Active \<or> r_expires_at r \<le> now)"
  then have w: "sq_idempotency_key rq' = Some key" "key \<noteq> []" "sq_user_id rq' = Some u" "u \<noteq> []"
      "limiter_admits (redis s) now (''checkout:'' @ u) 5"
      "sq_reservation_id rq' = Some rid" "rid \<noteq> []"
    and g: "filter (\<lambda>c. cs_idempotency_key c = key) (checkout_sessions (db s)) = []"
      "reservation_with_tier (db s) rid = (r, t') # rows'"
      "r_status r \<noteq> Active \<or> r_expires_at r \<le> now"
    by blast+
  note dbr = create_session_db_rejected[OF g, of tz new_id]
  note r = create_session_of_db[OF w dbr]
  show "fst (create_session tz now new_id rq' s)
          = Session_error 409 (if r_status r \<noteq> Active then ''Reservation is not active''
                               else ''Reservation has expired'')"
    using r by blast
  show "db (snd (create_session tz now new_id rq' s))
          = (if r_status r \<noteq> Active then db s else set_reservation_status rid Expired (db s))"
    using r by blast
  then show "checkout_sessions (db (snd (create_session tz now new_id rq' s))) = checkout_sessions (db s)"
    by simp
qed

theorem expired_hold_rejected_witness:
  "cq_checkout_id ex_confirm = Some ''s1'' \<and> cq_simulate ex_confirm = Some ''success''
   \<and> \<not> truthy (cq_user_id ex_confirm)
   \<and> session_join ex_db_checkout ''s1'' = [(ex_session, ex_held, ex_tier)]
   \<and> filter (\<lambda>x. o_checkout_session_id x = ''s1'') (orders ex_db_checkout) = []
   \<and> cs_status ex_session = Pending
   \<and> filter (\<lambda>r. r_id r = cs_reservation_id ex_session) (reservations ex_db_checkout) = [ex_held]
   \<and> r_status ex_held = Active \<and> r_expires_at ex_held \<le> 200000
   \<and> fst (confirm ex_hmac ''secret'' 200000 ex_ids ex_confirm \<lparr>db = ex_db_checkout, redis = ex_redis\<rparr>)
       = Confirm_error 409 ''reservation_expired_or_invalid''
   \<and> db (snd (confirm ex_hmac ''secret'' 200000 ex_ids ex_confirm
                 \<lparr>db = ex_db_checkout, redis = ex_redis\<rparr>))
       = set_session_status ''s1'' Session_expired
           (set_reservation_status (r_id ex_held) Expired ex_db_checkout)
   \<and> orders (db (snd (confirm ex_hmac ''secret'' 200000 ex_ids ex_confirm
                 \<lparr>db = ex_db_checkout, redis = ex_redis\<rparr>))) = []
   \<and> tickets (db (snd (confirm ex_hmac ''secret'' 200000 ex_ids ex_confirm
                 \<lparr>db = ex_db_checkout, redis = ex_redis\<rparr>))) = []
   \<and> sq_idempotency_key ex_session_request = Some ''idem1''
   \<and> sq_user_id ex_session_request = Some ''alice''
   \<and> sq_reservation_id ex_session_request = Some ''r1''
   \<and> limiter_admits ex_redis 200000 (''checkout:'' @ ''alice'') 5
   \<and> filter (\<lambda>c. cs_idempotency_key c = ''idem1'') (checkout_sessions ex_db_held) = []
   \<and> reservation_with_tier ex_db_held ''r1'' = [(ex_held, ex_tier)]
   \<and> fst (create_session utc_zone 200000 ''s1'' ex_session_request \<lparr>db = ex_db_held, redis = ex_redis\<rparr>)
       = Session_error 409 ''Reservation has expired''
   \<and> db (snd (create_session utc_zone 200000 ''s1'' ex_session_request \<lparr>db = ex_db_held, redis = ex_redis\<rparr>))
       = set_reservation_status ''r1'' Expired ex_db_held
   \<and> checkout_sessions (db (snd (create_session utc_zone 200000 ''s1'' ex_session_request
                                    \<lparr>db = ex_db_held, redis = ex_redis\<rparr>))) = []"
proof -
  have a: "cq_checkout_id ex_confirm = Some ''s1''" "cq_simulate ex_confirm = Some ''success''"
    "\<not> truthy (cq_user_id ex_confirm)"
    "session_join ex_db_checkout ''s1'' = [(ex_session, ex_held, ex_tier)]"
    "filter (\<lambda>x. o_checkout_session_id x = ''s1'') (orders ex_db_checkout) = []"
    "cs_status ex_session = Pending"
    "filter (\<lambda>r. r_id r = cs_reservation_id ex_session) (reservations ex_db_checkout) = [ex_held]"
    "r_status ex_held = Active" "r_expires_at ex_held \<le> 200000"
    by (simp_all add: session_join_def reservation_with_tier_def truthy_def example_defs)
  have b: "sq_idempotency_key ex_session_request = Some ''idem1''"
    "sq_user_id ex_session_request = Some ''alice''"
    "sq_reservation_id ex_session_request = Some ''r1''"
    "limiter_admits ex_redis 200000 (''checkout:'' @ ''alice'') 5"
    "filter (\<lambda>c. cs_idempotency_key c = ''idem1'') (checkout_sessions ex_db_held) = []"
    "reservation_with_tier ex_db_held ''r1'' = [(ex_held, ex_tier)]"
    by (simp_all add: reservation_with_tier_def limiter_admits_def rateLimit_def redis_defs Let_def
          example_defs)
  have e: "orders ex_db_checkout = []" "tickets ex_db_checkout = []" "checkout_sessions ex_db_held = []"
    "''s1'' \<noteq> []" "''idem1'' \<noteq> []" "''alice'' \<noteq> []" "''r1'' \<noteq> []"
    by (simp_all add: example_defs)
  note T = expired_hold_rejected[where s = "\<lparr>db = ex_db_checkout, redis = ex_redis\<rparr>"
      and rq = ex_confirm and cid = "''s1''" and now = 200000 and c = ex_session and j = ex_held
      and t = ex_tier and rows = "[]" and x = ex_held and others = "[]" and hmac = ex_hmac
      and qr_secret = "''secret''" and ids = ex_ids, unfolded stores.select_convs, THEN conjunct1]
  note U = expired_hold_rejected[where s = "\<lparr>db = ex_db_held, redis = ex_redis\<rparr>"
      and rq' = ex_session_request and key = "''idem1''" and u = "''alice''" and now = 200000
      and rid = "''r1''" and r = ex_held and t' = ex_tier and rows' = "[]" and new_id = "''s1''",
      unfolded stores.select_convs, THEN conjunct2]
  from T a e(4) have c:
    "fst (confirm ex_hmac ''secret'' 200000 ex_ids ex_confirm \<lparr>db = ex_db_checkout, redis = ex_redis\<rparr>)
       = Confirm_error 409 ''reservation_expired_or_invalid''"
    "db (snd (confirm ex_hmac ''secret'' 200000 ex_ids ex_confirm
                 \<lparr>db = ex_db_checkout, redis = ex_redis\<rparr>))
       = set_session_status ''s1'' Session_expired
           (set_reservation_status (r_id ex_held) Expired ex_db_checkout)"
    "orders (db (snd (confirm ex_hmac ''secret'' 200000 ex_ids ex_confirm
                 \<lparr>db = ex_db_checkout, redis = ex_redis\<rparr>))) = orders ex_db_checkout"
    "tickets (db (snd (confirm ex_hmac ''secret'' 200000 ex_ids ex_confirm
                 \<lparr>db = ex_db_checkout, redis = ex_redis\<rparr>))) = tickets ex_db_checkout"
    by blast+
  from U b e(5,6,7) a(8,9) have d:
    "fst (create_session utc_zone 200000 ''s1'' ex_session_request \<lparr>db = ex_db_held, redis = ex_redis\<rparr>)
       = Session_error 409 (if r_status ex_held \<noteq> Active then ''Reservation is not active''
                               else ''Reservation has expired'')"
    "db (snd (create_session utc_zone 200000 ''s1'' ex_session_request \<lparr>db = ex_db_held, redis = ex_redis\<rparr>))
       = (if r_status ex_held \<noteq> Active then ex_db_held
          else set_reservation_status ''r1'' Expired ex_db_held)"
    "checkout_sessions (db (snd (create_session utc_zone 200000 ''s1'' ex_session_request
                                    \<lparr>db = ex_db_held, redis = ex_redis\<rparr>))) = checkout_sessions ex_db_held"
    by blast+
  show ?thesis using a b c d e(1,2,3) by simp
qed

theorem create_session_expired_error_kind_counterexample:
  "r_status ex_held = Active \<and> r_expires_at ex_held < 200000
   \<and> session_reply_status
        (fst (create_session utc_zone 200000 ''s1'' ex_session_request \<lparr>db = ex_db_held, redis = ex_redis\<rparr>))
       = 409
   \<and> session_reply_error
        (fst (create_session utc_zone 200000 ''s1'' ex_session_request \<lparr>db = ex_db_held, redis = ex_redis\<rparr>))
       = Some ''Reservation has expired''
   \<and> session_reply_error
        (fst (create_session utc_zone 200000 ''s1'' ex_session_request \<lparr>db = ex_db_held, redis = ex_redis\<rparr>))
       \<noteq> Some ''reservation_expired_or_invalid''"
  by (simp add: create_session_def create_session_db_def create_session_check_def create_session_write_def reservation_with_tier_def rateLimit_def
        redis_defs Let_def example_defs)

subsection \<open>Session creation\<close>

text \<open>A replay of the idempotency key of a created session returns that session and writes
  nothing.\<close>

lemma create_session_db_replay:
  assumes "create_session_db tz now new_id key rid d = (Session_created c r t, d1)"
  shows "\<exists>r' t'. create_session_db tz' now' new_id' key rid' d1 = (Session_existing c r' t', d1)"
proof -
  let ?d1 = "extend_reservation rid (setMinutes_plus tz now 3) d"
  from assms have none: "filter (\<lambda>c. cs_idempotency_key c = key) (checkout_sessions d) = []"
    unfolding create_session_db_def create_session_check_def create_session_write_def by (auto split: list.splits)
  from assms none obtain res tier rows where
    rt: "reservation_with_tier d rid = (res, tier) # rows"
    unfolding create_session_db_def create_session_check_def create_session_write_def by (auto split: list.splits)
  from assms none rt have c: "c = \<lparr>cs_id = new_id, cs_reservation_id = rid,
         cs_idempotency_key = key, cs_status = Pending, cs_created_at = now\<rparr>"
    and d1: "d1 = ?d1\<lparr>checkout_sessions := checkout_sessions ?d1 @ [c]\<rparr>"
    unfolding create_session_db_def create_session_check_def create_session_write_def Let_def
    by (auto split: list.splits if_splits)
  have look: "filter (\<lambda>c. cs_idempotency_key c = key) (checkout_sessions d1) = [c]"
    using none by (simp add: d1 c)
  from reservation_with_tier_hd[OF rt]
  have m: "res \<in> set (reservations d)" "r_id res = rid" "tier \<in> set (ticket_tiers d)"
    "t_id tier = r_tier_id res"
    by blast+
  have rs: "reservations d1
      = map (\<lambda>r. if r_id r = rid \<and> r_status r = Active then r\<lparr>r_expires_at := setMinutes_plus tz now 3\<rparr> else r)
          (reservations d)"
    by (simp add: d1 extend_reservation_def)
  have "(if r_id res = rid \<and> r_status res = Active then res\<lparr>r_expires_at := setMinutes_plus tz now 3\<rparr> else res)
          \<in> set (reservations d1)"
    unfolding rs by (rule map_mem[OF m(1)]) simp
  then obtain res' where m': "res' \<in> set (reservations d1)" "r_id res' = rid"
      "r_tier_id res' = r_tier_id res"
    using m(2) by (cases "r_status res = Active") auto
  have "(res', tier) \<in> set (reservation_with_tier d1 (cs_reservation_id c))"
    unfolding reservation_with_tier_mem using m' m(3,4) by (simp add: d1 c)
  then obtain r' t' rows' where "reservation_with_tier d1 (cs_reservation_id c) = (r', t') # rows'"
    by (cases "reservation_with_tier d1 (cs_reservation_id c)") auto
  then have "create_session_db tz' now' new_id' key rid' d1 = (Session_existing c r' t', d1)"
    using look unfolding create_session_db_def create_session_check_def create_session_write_def by simp
  then show ?thesis by blast
qed

text \<open>
  C4. Session creation under \<^verbatim>\<open>RESERVATION_TTL_MINUTES=10\<close>. Alice's hold of instant 1000
  runs until 601000. Creating the checkout session at instant 2000 sets its expiry to
  182000 = 2000 + 3 minutes: not an extension by the reservation TTL, and earlier than the
  hold ran before. The replay under the same idempotency key, at instant 3000 and with
  another candidate identifier, returns the same session identifier and leaves the database
  as the first call left it.
\<close>

theorem create_session_extends_by_three_minutes:
  "fst (reserve ex_config_long 1000 ''r1'' (ex_reserve ''alice'' ''k1'' 3) ex_stores)
     = Reserved ex_held_long
   \<and> db (snd (reserve ex_config_long 1000 ''r1'' (ex_reserve ''alice'' ''k1'' 3) ex_stores))
     = ex_db\<lparr>reservations := [ex_held_long]\<rparr>
   \<and> r_expires_at ex_held_long = 1000 + ttlMinutes ex_config_long * 60000
   \<and> fst (create_session utc_zone 2000 ''s1'' ex_session_request
            \<lparr>db = ex_db\<lparr>reservations := [ex_held_long]\<rparr>, redis = ex_redis\<rparr>)
     = Session_created (ex_session\<lparr>cs_created_at := 2000\<rparr>)
         (ex_held_long\<lparr>r_expires_at := 182000\<rparr>) ex_tier
   \<and> db (snd (create_session utc_zone 2000 ''s1'' ex_session_request
            \<lparr>db = ex_db\<lparr>reservations := [ex_held_long]\<rparr>, redis = ex_redis\<rparr>))
     = ex_db\<lparr>reservations := [ex_held_long\<lparr>r_expires_at := 182000\<rparr>],
             checkout_sessions := [ex_session\<lparr>cs_created_at := 2000\<rparr>]\<rparr>
   \<and> 182000 < r_expires_at ex_held_long
   \<and> 182000 \<noteq> 2000 + ttlMinutes ex_config_long * 60000
   \<and> 182000 \<noteq> r_expires_at ex_held_long + ttlMinutes ex_config_long * 60000
   \<and> session_reply_id (fst (create_session utc_zone 3000 ''s2'' ex_session_request
            \<lparr>db = ex_db\<lparr>reservations := [ex_held_long\<lparr>r_expires_at := 182000\<rparr>],
                        checkout_sessions := [ex_session\<lparr>cs_created_at := 2000\<rparr>]\<rparr>,
             redis = ex_redis\<rparr>))
     = Some ''s1''
   \<and> db (snd (create_session utc_zone 3000 ''s2'' ex_session_request
            \<lparr>db = ex_db\<lparr>reservations := [ex_held_long\<lparr>r_expires_at := 182000\<rparr>],
                        checkout_sessions := [ex_session\<lparr>cs_created_at := 2000\<rparr>]\<rparr>,
             redis = ex_redis\<rparr>))
     = ex_db\<lparr>reservations := [ex_held_long\<lparr>r_expires_at := 182000\<rparr>],
             checkout_sessions := [ex_session\<lparr>cs_created_at := 2000\<rparr>]\<rparr>"
proof -
  have r: "reserve ex_config_long 1000 ''r1'' (ex_reserve ''alice'' ''k1'' 3) ex_stores
     = (Reserved ex_held_long,
        \<lparr>db = ex_db\<lparr>reservations := [ex_held_long]\<rparr>,
         redis = ex_redis\<lparr>kv := (kv ex_redis)(''rate_limit:reservations:e1:alice'' \<mapsto> (RInt 1, Some 61000))\<rparr>\<rparr>)"
    by (simp add: reserve_defs redis_defs example_defs ex_config_long_def ex_held_long_def)
  have c: "create_session utc_zone 2000 ''s1'' ex_session_request
            \<lparr>db = ex_db\<lparr>reservations := [ex_held_long]\<rparr>, redis = ex_redis\<rparr>
     = (Session_created (ex_session\<lparr>cs_created_at := 2000\<rparr>)
         (ex_held_long\<lparr>r_expires_at := 182000\<rparr>) ex_tier,
        \<lparr>db = ex_db\<lparr>reservations := [ex_held_long\<lparr>r_expires_at := 182000\<rparr>],
             checkout_sessions := [ex_session\<lparr>cs_created_at := 2000\<rparr>]\<rparr>,
         redis = ex_redis\<lparr>kv := (kv ex_redis)(''rate_limit:checkout:alice'' \<mapsto> (RInt 1, Some 62000))\<rparr>\<rparr>)"
    by (simp add: create_session_def create_session_db_def create_session_check_def create_session_write_def reservation_with_tier_def
          extend_reservation_def setMinutes_plus_def rateLimit_def redis_defs Let_def example_defs ex_config_long_def ex_held_long_def)
  have c2: "create_session utc_zone 3000 ''s2'' ex_session_request
            \<lparr>db = ex_db\<lparr>reservations := [ex_held_long\<lparr>r_expires_at := 182000\<rparr>],
                        checkout_sessions := [ex_session\<lparr>cs_created_at := 2000\<rparr>]\<rparr>,
             redis = ex_redis\<rparr>
     = (Session_existing (ex_session\<lparr>cs_created_at := 2000\<rparr>)
         (ex_held_long\<lparr>r_expires_at := 182000\<rparr>) ex_tier,
        \<lparr>db = ex_db\<lparr>reservations := [ex_held_long\<lparr>r_expires_at := 182000\<rparr>],
             checkout_sessions := [ex_session\<lparr>cs_created_at := 2000\<rparr>]\<rparr>,
         redis = ex_redis\<lparr>kv := (kv ex_redis)(''rate_limit:checkout:alice'' \<mapsto> (RInt 1, Some 63000))\<rparr>\<rparr>)"
    by (simp add: create_session_def create_session_db_def create_session_check_def create_session_write_def reservation_with_tier_def
          rateLimit_def redis_defs Let_def example_defs ex_config_long_def ex_held_long_def)
  have n: "r_expires_at ex_held_long = 601000" "ttlMinutes ex_config_long = 10"
    "cs_id (ex_session\<lparr>cs_created_at := 2000\<rparr>) = ''s1''"
    by (simp_all add: example_defs ex_config_long_def ex_held_long_def)
  show ?thesis unfolding r c c2 by (simp add: n)
qed

subsection \<open>Purchase cap\<close>







subsection \<open>Ticket generation\<close>

lemma insert_ticket_error: "insert_ticket k ks = Inl e \<Longrightarrow> e = Unique_violation"
  by (simp add: insert_ticket_def split: if_splits)

lemma insert_all_tickets_taken_code:
  "k \<in> set new \<Longrightarrow> k_code k \<in> set (map k_code ks)
     \<Longrightarrow> insert_all_tickets new ks = Inl Unique_violation"
proof (induction new arbitrary: ks)
  case Nil
  then show ?case by simp
next
  case (Cons a new)
  show ?case
  proof (cases "insert_ticket a ks")
    case (Inl e)
    then show ?thesis using insert_ticket_error[OF Inl] by simp
  next
    case (Inr ks1)
    then have ks1: "ks1 = ks @ [a]" and fresh: "k_code a \<notin> set (map k_code ks)"
      by (auto simp: insert_ticket_def split: if_splits)
    from fresh Cons.prems have "k \<in> set new" by auto
    moreover from Cons.prems(2) ks1 have "k_code k \<in> set (map k_code ks1)" by simp
    ultimately have "insert_all_tickets new ks1 = Inl Unique_violation" by (rule Cons.IH)
    then show ?thesis using Inr by simp
  qed
qed

lemma generated_ticket_mem:
  "i < r_quantity joined \<Longrightarrow>
     make_ticket hmac qr_secret now ids oid (r_event_id joined) (r_tier_id joined) (r_user_token joined) i
       \<in> set (generate_tickets hmac qr_secret now ids oid joined)"
  by (simp add: generate_tickets_def)

lemma make_ticket_code [simp]:
  "k_code (make_ticket hmac qr_secret now ids oid eid tid u i) = new_code ids i"
  by (simp add: make_ticket_def generateTicket_def)

lemma confirm_payment_taken_code:
  assumes fk: "tickets_reference_orders d" and i: "i < r_quantity joined"
    and c: "new_code ids i \<in> set (map k_code (tickets d))"
  shows "confirm_payment hmac qr_secret now ids (Some ''success'') cid session joined tier d
           = (Confirm_error 500 ''Failed to confirm checkout'', d)"
proof (cases "insert_order (new_order now ids cid session joined tier) (orders d)")
  case (Inl e)
  then show ?thesis unfolding confirm_payment_def Let_def by simp
next
  case (Inr os)
  then have fresh: "new_order_id ids \<notin> set (map o_id (orders d))"
    by (auto simp: insert_order_def split: if_splits)
  have none: "filter (\<lambda>k. k_order_id k = new_order_id ids) (tickets d) = []"
    using fk fresh unfolding tickets_reference_orders_def by (force simp: filter_empty_conv)
  have taken: "insert_all_tickets (generate_tickets hmac qr_secret now ids (new_order_id ids) joined)
                 (tickets d) = Inl Unique_violation"
    using generated_ticket_mem[OF i] c
    by (intro insert_all_tickets_taken_code[where k = "make_ticket hmac qr_secret now ids
          (new_order_id ids) (r_event_id joined) (r_tier_id joined) (r_user_token joined) i"]) simp_all
  show ?thesis unfolding confirm_payment_def Let_def using Inr none taken by simp
qed

lemma confirm_tx_taken_code:
  assumes fk: "tickets_reference_orders d" and ok: "cq_simulate rq = Some ''success''"
    and dec: "confirm_decide now rq d = Inr (cid, session, joined, tier)"
    and i: "i < r_quantity joined"
    and c: "new_code ids i \<in> set (map k_code (tickets d))"
  shows "confirm_tx hmac qr_secret now ids rq d = (Confirm_error 500 ''Failed to confirm checkout'', d)"
  unfolding confirm_tx_def using dec ok confirm_payment_taken_code[OF fk i c] by simp

lemma confirm_taken_code:
  assumes fk: "tickets_reference_orders (db s)" and ok: "cq_simulate rq = Some ''success''"
    and dec: "confirm_decide now rq (db s) = Inr (cid, session, joined, tier)"
    and i: "i < r_quantity joined"
    and c: "new_code ids i \<in> set (map k_code (tickets (db s)))"
  shows "db (snd (confirm hmac qr_secret now ids rq s)) = db s
       \<and> (fst (confirm hmac qr_secret now ids rq s) = Confirm_error 500 ''Failed to confirm checkout''
            \<or> (\<exists>n. fst (confirm hmac qr_secret now ids rq s) = Confirm_rate_limited n))
       \<and> ((\<forall>n. fst (confirm hmac qr_secret now ids rq s) \<noteq> Confirm_rate_limited n)
            \<longrightarrow> confirm_status (fst (confirm hmac qr_secret now ids rq s)) = 500)"
proof -
  have tx: "confirm_tx hmac qr_secret now ids rq (db s)
          = (Confirm_error 500 ''Failed to confirm checkout'', db s)"
    by (rule confirm_tx_taken_code[OF fk ok dec i c])
  show ?thesis unfolding confirm_def using tx
    by (simp split: sum.splits prod.splits)
qed

lemma confirm_tx_codes_distinct:
  assumes "distinct (map k_code (tickets d))"
    and "confirm_tx hmac qr_secret now ids rq d = (rep, d')"
  shows "distinct (map k_code (tickets d'))"
proof -
  consider "d' = d" | cid where "d' = set_session_status cid Failed d"
    | cid rid where "d' = set_session_status cid Session_expired (set_reservation_status rid Expired d)"
    | cid c joined t where "confirm_payment hmac qr_secret now ids (cq_simulate rq) cid c joined t d = (rep, d')"
    using confirm_tx_cases[OF assms(2)] by blast
  then show ?thesis
  proof cases
    case 1
    then show ?thesis using assms(1) by simp
  next
    case 2
    then show ?thesis using assms(1) by simp
  next
    case 3
    then show ?thesis using assms(1) by simp
  next
    case 4
    from confirm_payment_cases[OF 4] show ?thesis
    proof (elim disjE exE conjE)
      assume "d' = d"
      then show ?thesis using assms(1) by simp
    next
      assume "d' = set_reservation_status (cs_reservation_id c) Canceled (set_session_status cid Failed d)"
      then show ?thesis using assms(1) by simp
    next
      fix ks tks
      assume d': "d' = set_reservation_status (cs_reservation_id c) Converted
                      (set_session_status cid Completed
                         (d\<lparr>orders := orders d @ [new_order now ids cid c joined t], tickets := ks\<rparr>))"
        and ins: "insert_all_tickets (generate_tickets hmac qr_secret now ids (new_order_id ids) joined)
                    (tickets d) = Inr ks"
      from insert_all_tickets_Inr[OF ins] assms(1) have "distinct (map k_code ks)" by auto
      then show ?thesis using d' by simp
    next
      fix ks tks
      assume d': "d' = set_reservation_status (cs_reservation_id c) Converted
                      (set_session_status cid Completed
                         (d\<lparr>orders := orders d @ [new_order now ids cid c joined t], tickets := ks\<rparr>))"
        and ks: "ks = tickets d"
      then show ?thesis using assms(1) by simp
    qed
  qed
qed

lemma confirm_codes_distinct:
  assumes "distinct (map k_code (tickets (db s)))"
  shows "distinct (map k_code (tickets (db (snd (confirm hmac qr_secret now ids rq s)))))"
proof -
  obtain rep s' where r: "confirm hmac qr_secret now ids rq s = (rep, s')"
    by (cases "confirm hmac qr_secret now ids rq s") auto
  from confirm_cases[OF r] have "distinct (map k_code (tickets (db s')))"
  proof
    assume "db s' = db s \<and> (\<forall>ord ks. rep \<noteq> Order_created ord ks)"
    then show ?thesis using assms by simp
  next
    assume "confirm_tx hmac qr_secret now ids rq (db s) = (rep, db s')"
    then show ?thesis using assms by (rule confirm_tx_codes_distinct[rotated])
  qed
  then show ?thesis using r by simp
qed

text \<open>
  C6. Ticket generation, as the confirmation handler implements it.
  (1) A confirmation that answers with a new order returns exactly \<open>quantity\<close> tickets, the
  quantity of the order and of its reservation. The i-th ticket carries the code that the
  i-th call of \<^verbatim>\<open>uuidv4()\<close> returned and the signature
  \<open>hmac secret (code : order_id : event_id)\<close>; the codes are pairwise distinct and none was
  in the table before, and the tickets are appended to the table.
  (2) Each ticket is inserted with a plain \<^verbatim>\<open>INSERT\<close> under the unique code constraint.
  When a confirmation with \<^verbatim>\<open>simulate = success\<close> reaches the payment step (pending session
  without an order, reservation active and not expired) and the code of one of the tickets
  it generates is already in the table, the insert raises: the transaction is rolled back,
  so the database is as before, with no order and no ticket of the session, and the answer
  is 500 \<^verbatim>\<open>Failed to confirm checkout\<close> (or 429 when the rate limiter has refused the
  request before the transaction).
  (3) Whatever the request and its outcome, a table whose codes are pairwise distinct keeps
  pairwise distinct codes: no code is inserted twice.
\<close>

theorem confirm_generates_tickets:
  "(primary_keys (db s) \<and> tickets_reference_orders (db s)
      \<and> confirm hmac qr_secret now ids rq s = (Order_created ord ks, s1)
    \<longrightarrow>
      length ks = o_quantity ord
      \<and> (\<exists>r \<in> set (reservations (db s)). r_id r = o_reservation_id ord
             \<and> r_quantity r = o_quantity ord)
      \<and> (\<forall>i < o_quantity ord.
             k_code (ks ! i) = new_code ids i
             \<and> k_qr_sig (ks ! i)
                 = hmac qr_secret (new_code ids i @ '':'' @ o_id ord @ '':'' @ o_event_id ord)
             \<and> k_order_id (ks ! i) = o_id ord \<and> k_event_id (ks ! i) = o_event_id ord)
      \<and> distinct (map k_code ks)
      \<and> set (map k_code ks) \<inter> set (map k_code (tickets (db s))) = {}
      \<and> tickets (db s1) = tickets (db s) @ ks)
   \<and> (tickets_reference_orders (db s) \<and> cq_simulate rq = Some ''success''
        \<and> confirm_decide now rq (db s) = Inr (cid, session, joined, tier)
        \<and> j < r_quantity joined
        \<and> new_code ids j \<in> set (map k_code (tickets (db s)))
      \<longrightarrow>
        db (snd (confirm hmac qr_secret now ids rq s)) = db s
        \<and> (fst (confirm hmac qr_secret now ids rq s)
               = Confirm_error 500 ''Failed to confirm checkout''
             \<or> (\<exists>n. fst (confirm hmac qr_secret now ids rq s) = Confirm_rate_limited n))
        \<and> ((\<forall>n. fst (confirm hmac qr_secret now ids rq s) \<noteq> Confirm_rate_limited n)
             \<longrightarrow> confirm_status (fst (confirm hmac qr_secret now ids rq s)) = 500))
   \<and> (distinct (map k_code (tickets (db s)))
      \<longrightarrow> distinct (map k_code (tickets (db (snd (confirm hmac qr_secret now ids rq s))))))"
proof (intro conjI)
  show "primary_keys (db s) \<and> tickets_reference_orders (db s)
      \<and> confirm hmac qr_secret now ids rq s = (Order_created ord ks, s1)
    \<longrightarrow>
      length ks = o_quantity ord
      \<and> (\<exists>r \<in> set (reservations (db s)). r_id r = o_reservation_id ord
             \<and> r_quantity r = o_quantity ord)
      \<and> (\<forall>i < o_quantity ord.
             k_code (ks ! i) = new_code ids i
             \<and> k_qr_sig (ks ! i)
                 = hmac qr_secret (new_code ids i @ '':'' @ o_id ord @ '':'' @ o_event_id ord)
             \<and> k_order_id (ks ! i) = o_id ord \<and> k_event_id (ks ! i) = o_event_id ord)
      \<and> distinct (map k_code ks)
      \<and> set (map k_code ks) \<inter> set (map k_code (tickets (db s))) = {}
      \<and> tickets (db s1) = tickets (db s) @ ks"
  proof (intro conjI impI allI)
    assume a: "primary_keys (db s) \<and> tickets_reference_orders (db s)
        \<and> confirm hmac qr_secret now ids rq s = (Order_created ord ks, s1)"
    then have first: "confirm hmac qr_secret now ids rq s = (Order_created ord ks, s1)" by blast
    from confirm_cases[OF first]
    have tx: "confirm_tx hmac qr_secret now ids rq (db s) = (Order_created ord ks, db s1)" by blast
    from a have pk: "primary_keys (db s)" and fk: "tickets_reference_orders (db s)" by blast+
    from confirm_tx_created[OF pk fk tx]
    obtain len: "length ks = o_quantity ord"
      and res: "\<exists>r \<in> set (reservations (db s)). r_id r = o_reservation_id ord
                    \<and> r_quantity r = o_quantity ord \<and> r_status r = Active \<and> now < r_expires_at r"
      and tk: "tickets (db s1) = tickets (db s) @ ks"
      and codes: "distinct (map k_code ks)"
                 "set (map k_code ks) \<inter> set (map k_code (tickets (db s))) = {}"
      and gen: "ks = map (make_ticket hmac qr_secret now ids (o_id ord) (o_event_id ord) (o_tier_id ord)
                            (o_user_token ord)) [0 ..< o_quantity ord]"
      by blast
    show "length ks = o_quantity ord" using len .
    show "\<exists>r \<in> set (reservations (db s)). r_id r = o_reservation_id ord \<and> r_quantity r = o_quantity ord"
      using res by blast
    show "distinct (map k_code ks)" using codes(1) .
    show "set (map k_code ks) \<inter> set (map k_code (tickets (db s))) = {}" using codes(2) .
    show "tickets (db s1) = tickets (db s) @ ks" using tk .
    fix i assume i: "i < o_quantity ord"
    have ki: "ks ! i = make_ticket hmac qr_secret now ids (o_id ord) (o_event_id ord) (o_tier_id ord)
                   (o_user_token ord) i"
      using i by (subst gen) simp
    show "k_code (ks ! i) = new_code ids i"
      "k_qr_sig (ks ! i) = hmac qr_secret (new_code ids i @ '':'' @ o_id ord @ '':'' @ o_event_id ord)"
      "k_order_id (ks ! i) = o_id ord" "k_event_id (ks ! i) = o_event_id ord"
      unfolding ki by (simp_all add: make_ticket_def generateTicket_def)
  qed
next
  show "tickets_reference_orders (db s) \<and> cq_simulate rq = Some ''success''
        \<and> confirm_decide now rq (db s) = Inr (cid, session, joined, tier)
        \<and> j < r_quantity joined
        \<and> new_code ids j \<in> set (map k_code (tickets (db s)))
      \<longrightarrow>
        db (snd (confirm hmac qr_secret now ids rq s)) = db s
        \<and> (fst (confirm hmac qr_secret now ids rq s)
               = Confirm_error 500 ''Failed to confirm checkout''
             \<or> (\<exists>n. fst (confirm hmac qr_secret now ids rq s) = Confirm_rate_limited n))
        \<and> ((\<forall>n. fst (confirm hmac qr_secret now ids rq s) \<noteq> Confirm_rate_limited n)
             \<longrightarrow> confirm_status (fst (confirm hmac qr_secret now ids rq s)) = 500)"
  proof
    assume a: "tickets_reference_orders (db s) \<and> cq_simulate rq = Some ''success''
        \<and> confirm_decide now rq (db s) = Inr (cid, session, joined, tier)
        \<and> j < r_quantity joined
        \<and> new_code ids j \<in> set (map k_code (tickets (db s)))"
    then have h: "tickets_reference_orders (db s)" "cq_simulate rq = Some ''success''"
      "confirm_decide now rq (db s) = Inr (cid, session, joined, tier)"
      "j < r_quantity joined" "new_code ids j \<in> set (map k_code (tickets (db s)))"
      by blast+
    show "db (snd (confirm hmac qr_secret now ids rq s)) = db s
        \<and> (fst (confirm hmac qr_secret now ids rq s)
               = Confirm_error 500 ''Failed to confirm checkout''
             \<or> (\<exists>n. fst (confirm hmac qr_secret now ids rq s) = Confirm_rate_limited n))
        \<and> ((\<forall>n. fst (confirm hmac qr_secret now ids rq s) \<noteq> Confirm_rate_limited n)
             \<longrightarrow> confirm_status (fst (confirm hmac qr_secret now ids rq s)) = 500)"
      by (rule confirm_taken_code[OF h])
  qed
next
  show "distinct (map k_code (tickets (db s)))
      \<longrightarrow> distinct (map k_code (tickets (db (snd (confirm hmac qr_secret now ids rq s)))))"
    using confirm_codes_distinct by blast
qed

theorem confirm_generates_tickets_witness:
  "primary_keys ex_db_checkout \<and> tickets_reference_orders ex_db_checkout
   \<and> confirm ex_hmac ''secret'' 2000 ex_ids ex_confirm \<lparr>db = ex_db_checkout, redis = ex_redis\<rparr>
       = (Order_created ex_paid ex_tickets, \<lparr>db = ex_db_confirmed, redis = ex_redis\<rparr>)
   \<and> length ex_tickets = o_quantity ex_paid \<and> o_quantity ex_paid = 3
   \<and> r_quantity ex_held = 3
   \<and> k_code (ex_tickets ! 0) = new_code ex_ids 0
   \<and> k_qr_sig (ex_tickets ! 0) = ex_hmac ''secret'' (new_code ex_ids 0 @ '':'' @ ''o1'' @ '':'' @ ''e1'')
   \<and> k_code (ex_tickets ! 1) = new_code ex_ids 1
   \<and> k_qr_sig (ex_tickets ! 1) = ex_hmac ''secret'' (new_code ex_ids 1 @ '':'' @ ''o1'' @ '':'' @ ''e1'')
   \<and> k_code (ex_tickets ! 2) = new_code ex_ids 2
   \<and> k_qr_sig (ex_tickets ! 2) = ex_hmac ''secret'' (new_code ex_ids 2 @ '':'' @ ''o1'' @ '':'' @ ''e1'')
   \<and> distinct (map k_code ex_tickets)
   \<and> set (map k_code ex_tickets) \<inter> set (map k_code (tickets ex_db_checkout)) = {}
   \<and> tickets ex_db_confirmed = tickets ex_db_checkout @ ex_tickets
   \<and> tickets_reference_orders ex_db_collision \<and> cq_simulate ex_confirm = Some ''success''
   \<and> confirm_decide 2000 ex_confirm ex_db_collision = Inr (''s1'', ex_session, ex_held, ex_tier)
   \<and> (0::nat) < r_quantity ex_held
   \<and> new_code ex_ids 0 \<in> set (map k_code (tickets ex_db_collision))
   \<and> db (snd (confirm ex_hmac ''secret'' 2000 ex_ids ex_confirm
                 \<lparr>db = ex_db_collision, redis = ex_redis\<rparr>)) = ex_db_collision
   \<and> confirm_status (fst (confirm ex_hmac ''secret'' 2000 ex_ids ex_confirm
                 \<lparr>db = ex_db_collision, redis = ex_redis\<rparr>)) = 500
   \<and> distinct (map k_code (tickets ex_db_checkout))
   \<and> distinct (map k_code (tickets (db (snd (confirm ex_hmac ''secret'' 2000 ex_ids ex_confirm
                 \<lparr>db = ex_db_checkout, redis = ex_redis\<rparr>)))))"
proof -
  have h: "primary_keys ex_db_checkout" "tickets_reference_orders ex_db_checkout"
    by (simp_all add: primary_keys_def tickets_reference_orders_def example_defs ex_ticket_old_def ex_db_collision_def)
  note h2 = ex_confirm_created
  have q: "o_quantity ex_paid = 3" "r_quantity ex_held = 3" "o_id ex_paid = ''o1''"
    "o_event_id ex_paid = ''e1''"
    by (simp_all add: example_defs ex_ticket_old_def ex_db_collision_def)
  have sn: "show_nat 0 = ''0''" by code_simp
  have g: "tickets_reference_orders ex_db_collision" "cq_simulate ex_confirm = Some ''success''"
    "(0::nat) < r_quantity ex_held"
    "new_code ex_ids 0 \<in> set (map k_code (tickets ex_db_collision))"
    by (simp_all add: tickets_reference_orders_def sn example_defs ex_ticket_old_def ex_db_collision_def
        del: show_nat.simps)
  have dec: "confirm_decide 2000 ex_confirm ex_db_collision = Inr (''s1'', ex_session, ex_held, ex_tier)"
    by (simp add: confirm_decide_def session_join_def reservation_with_tier_def truthy_def js_or_def
        Let_def example_defs ex_ticket_old_def ex_db_collision_def)
  have nl: "\<forall>n. fst (confirm ex_hmac ''secret'' 2000 ex_ids ex_confirm
                 \<lparr>db = ex_db_collision, redis = ex_redis\<rparr>) \<noteq> Confirm_rate_limited n"
    unfolding confirm_def
    using confirm_tx_taken_code[OF g(1,2) dec g(3,4), of ex_hmac "''secret''"]
    by (simp add: truthy_def ex_confirm_def)
  have dk: "distinct (map k_code (tickets ex_db_checkout))"
    by (simp add: example_defs)
  note T = confirm_generates_tickets[where s = "\<lparr>db = ex_db_checkout, redis = ex_redis\<rparr>"
      and hmac = ex_hmac and qr_secret = "''secret''" and now = 2000 and ids = ex_ids
      and rq = ex_confirm and ord = ex_paid and ks = ex_tickets
      and ?s1.0 = "\<lparr>db = ex_db_confirmed, redis = ex_redis\<rparr>",
      unfolded stores.select_convs]
  note U = confirm_generates_tickets[where s = "\<lparr>db = ex_db_collision, redis = ex_redis\<rparr>"
      and hmac = ex_hmac and qr_secret = "''secret''" and now = 2000 and ids = ex_ids
      and rq = ex_confirm and cid = "''s1''" and session = ex_session and joined = ex_held
      and tier = ex_tier and j = 0,
      unfolded stores.select_convs]
  from T h h2 have c: "length ex_tickets = o_quantity ex_paid"
    "distinct (map k_code ex_tickets)"
    "set (map k_code ex_tickets) \<inter> set (map k_code (tickets ex_db_checkout)) = {}"
    "tickets ex_db_confirmed = tickets ex_db_checkout @ ex_tickets"
    by blast+
  from T h h2 have each: "\<forall>i < o_quantity ex_paid.
             k_code (ex_tickets ! i) = new_code ex_ids i
             \<and> k_qr_sig (ex_tickets ! i)
                 = ex_hmac ''secret'' (new_code ex_ids i @ '':'' @ o_id ex_paid @ '':'' @ o_event_id ex_paid)
             \<and> k_order_id (ex_tickets ! i) = o_id ex_paid
             \<and> k_event_id (ex_tickets ! i) = o_event_id ex_paid"
    by blast
  have e0: "k_code (ex_tickets ! 0) = new_code ex_ids 0"
    "k_qr_sig (ex_tickets ! 0) = ex_hmac ''secret'' (new_code ex_ids 0 @ '':'' @ ''o1'' @ '':'' @ ''e1'')"
    using each[rule_format, of 0] q by simp_all
  have e1: "k_code (ex_tickets ! 1) = new_code ex_ids 1"
    "k_qr_sig (ex_tickets ! 1) = ex_hmac ''secret'' (new_code ex_ids 1 @ '':'' @ ''o1'' @ '':'' @ ''e1'')"
    using each[rule_format, of 1] q by simp_all
  have e2: "k_code (ex_tickets ! 2) = new_code ex_ids 2"
    "k_qr_sig (ex_tickets ! 2) = ex_hmac ''secret'' (new_code ex_ids 2 @ '':'' @ ''o1'' @ '':'' @ ''e1'')"
    using each[rule_format, of 2] q by simp_all
  from U g dec have u: "db (snd (confirm ex_hmac ''secret'' 2000 ex_ids ex_confirm
                 \<lparr>db = ex_db_collision, redis = ex_redis\<rparr>)) = ex_db_collision"
    by blast
  from U g dec nl have v: "confirm_status (fst (confirm ex_hmac ''secret'' 2000 ex_ids ex_confirm
                 \<lparr>db = ex_db_collision, redis = ex_redis\<rparr>)) = 500"
    by blast
  from T dk have w: "distinct (map k_code (tickets (db (snd (confirm ex_hmac ''secret'' 2000 ex_ids
                 ex_confirm \<lparr>db = ex_db_checkout, redis = ex_redis\<rparr>)))))"
    by blast
  show ?thesis
    by (intro conjI h h2 c q(1,2) e0 e1 e2 g dec u v dk w)
qed

theorem confirm_insert_raises_on_taken_code_counterexample:
  "k_code (ex_ticket ''k0'' ''c0'') = ''c0'' \<and> map k_code (tickets ex_db_collision) = [''c0'']
   \<and> fst (confirm ex_hmac ''secret'' 2000 ex_ids ex_confirm \<lparr>db = ex_db_collision, redis = ex_redis\<rparr>)
       = Confirm_error 500 ''Failed to confirm checkout''
   \<and> db (snd (confirm ex_hmac ''secret'' 2000 ex_ids ex_confirm
                 \<lparr>db = ex_db_collision, redis = ex_redis\<rparr>)) = ex_db_collision
   \<and> insert_ticket (ex_ticket ''k0'' ''c0'') (tickets ex_db_collision) = Inl Unique_violation
   \<and> insert_ticket_on_conflict_do_nothing (ex_ticket ''k0'' ''c0'') (tickets ex_db_collision)
       = Inr (tickets ex_db_collision)"
proof -
  have up: "[0..<3] = [0, Suc 0, 2]" by (simp add: upt_rec)
  have sn: "show_nat 0 = ''0''" "show_nat (Suc 0) = ''1''" "show_nat 2 = ''2''" by code_simp+
  have tx: "confirm_tx ex_hmac ''secret'' 2000 ex_ids ex_confirm ex_db_collision
       = (Confirm_error 500 ''Failed to confirm checkout'', ex_db_collision)"
    by (simp add: confirm_tx_def confirm_decide_def confirm_payment_def insert_order_def new_order_def generate_tickets_def
        make_ticket_def generateTicket_def insert_ticket_def session_join_def
        reservation_with_tier_def truthy_def
        js_or_def Let_def up sn example_defs ex_ticket_old_def ex_db_collision_def del: show_nat.simps)
  have c: "confirm ex_hmac ''secret'' 2000 ex_ids ex_confirm \<lparr>db = ex_db_collision, redis = ex_redis\<rparr>
       = (Confirm_error 500 ''Failed to confirm checkout'', \<lparr>db = ex_db_collision, redis = ex_redis\<rparr>)"
    unfolding confirm_def using tx by (simp add: truthy_def ex_confirm_def)
  have i: "k_code (ex_ticket ''k0'' ''c0'') = ''c0''" "map k_code (tickets ex_db_collision) = [''c0'']"
    "insert_ticket (ex_ticket ''k0'' ''c0'') (tickets ex_db_collision) = Inl Unique_violation"
    "insert_ticket_on_conflict_do_nothing (ex_ticket ''k0'' ''c0'') (tickets ex_db_collision)
       = Inr (tickets ex_db_collision)"
    by (simp_all add: insert_ticket_def insert_ticket_on_conflict_do_nothing_def example_defs ex_ticket_old_def ex_db_collision_def)
  show ?thesis unfolding c using i by simp
qed

subsection \<open>Waves\<close>

lemma redis_get_up: "redis_get r now k = Inr v \<Longrightarrow> up r"
  by (simp add: redis_get_def split: if_splits)

lemma index_of_bounds: "index_of x ys = Some i \<Longrightarrow> 0 \<le> i \<and> i < int (length ys)"
  by (induction ys arbitrary: i) (auto split: if_splits option.splits)

lemma zrank_zcard:
  assumes "redis_zrank r now k member = Inr (Some i)" "redis_zcard r now k = Inr n"
  shows "0 \<le> i \<and> i < n"
proof -
  from assms obtain z e where z: "zset_of r now k = Inr (z, e)"
    by (auto simp: redis_zrank_def split: sum.splits)
  with assms have "index_of member (map snd z) = Some i" "n = int (length z)"
    by (simp_all add: redis_zrank_def redis_zcard_def)
  with index_of_bounds[of member "map snd z" i] show ?thesis by simp
qed

lemma wave_progress_init:
  assumes "redis_get r now (''queue_wave_end:'' @ eid) = Inr we" "parse_int_or_0 we = 0"
      "0 < waveSize cfg" "0 < waveAdvanceIntervalMs cfg" "waveAdvanceIntervalMs cfg \<le> now"
      "0 \<le> queueTotal"
      "w = min (if queueTotal = 0 then waveSize cfg else queueTotal) (waveSize cfg)"
  shows "wave_progress cfg now eid queueTotal r
           = Inr (w, r\<lparr>kv := (kv r)(''queue_wave_end:'' @ eid \<mapsto> (RInt w, None),
                                     ''queue_wave_last_advance:'' @ eid \<mapsto> (RInt now, None))\<rparr>)"
proof -
  have u: "up r" using assms(1) by (rule redis_get_up)
  have pos: "0 < w" using assms(3,6,7) by (auto simp: min_def)
  have le: "\<not> queueTotal > w \<or> (w = waveSize cfg \<and> now \<noteq> 0 \<and> \<not> 0 \<ge> waveAdvanceIntervalMs cfg)"
    using assms(3-7) by (auto simp: min_def)
  have g: "redis_get (r\<lparr>kv := (kv r)(''queue_wave_end:'' @ eid \<mapsto> (RInt w, None),
                                     ''queue_wave_last_advance:'' @ eid \<mapsto> (RInt now, None))\<rparr>)
             now (''queue_wave_last_advance:'' @ eid) = Inr (Some (RInt now))"
    using u by (simp add: redis_get_def live_def)
  show ?thesis
    unfolding wave_progress_def Let_def assms(1) assms(7)[symmetric]
    using assms(2) u pos le g
    by (auto simp: redis_set_def parse_int_or_0_def)
qed

lemma wave_progress_next:
  assumes "redis_get r now (''queue_wave_end:'' @ eid) = Inr we" "parse_int_or_0 we = w" "0 < w"
      "redis_get r now (''queue_wave_last_advance:'' @ eid) = Inr la" "parse_int_or_0 la = l"
      "0 < waveSize cfg" "0 < waveAdvanceIntervalMs cfg" "waveAdvanceIntervalMs cfg \<le> now"
  shows "wave_progress cfg now eid queueTotal r
           = (if queueTotal > w \<and> now - l \<ge> waveAdvanceIntervalMs cfg
              then Inr (min queueTotal (w + waveSize cfg),
                        r\<lparr>kv := (kv r)(''queue_wave_end:'' @ eid
                                          \<mapsto> (RInt (min queueTotal (w + waveSize cfg)), None),
                                        ''queue_wave_last_advance:'' @ eid \<mapsto> (RInt now, None))\<rparr>)
              else Inr (w, r))"
proof -
  have u: "up r" using assms(1) by (rule redis_get_up)
  have z: "l = 0 \<Longrightarrow> now - l \<ge> waveAdvanceIntervalMs cfg" using assms(8) by simp
  have ne: "queueTotal > w \<Longrightarrow> min queueTotal (w + waveSize cfg) \<noteq> w" using assms(6) by (simp add: min_def)
  show ?thesis
    unfolding wave_progress_def Let_def
    using assms(1,2,3,4,5) u z ne
    by (auto simp: redis_set_def)
qed

lemma redis_set_up: "redis_set r k v = Inr r' \<Longrightarrow> up r'"
  by (auto simp: redis_set_def split: if_splits)

lemma wave_progress_up:
  assumes "wave_progress cfg now eid queueTotal r = Inr (w, r1)" "up r"
  shows "up r1"
  using assms unfolding wave_progress_def Let_def
  by (auto split: sum.splits if_splits prod.splits dest: redis_set_up)

lemma ceil_div_0 [simp]: "ceil_div 0 b = 0"
  by (simp add: ceil_div_def)

lemma status_open:
  assumes "truthy (st_token rq)"
      "filter (\<lambda>e. e_id e = st_event_id rq \<and> e_status e \<noteq> Draft) (events (db s)) = ev # evs"
      "redis_get (redis s) now (''waiting_room:'' @ st_event_id rq @ '':'' @ js_or (st_token rq) [])
         = Inr td"
      "truthy_val td" "e_on_sale_at ev \<le> now"
      "redis_zcard (redis s) now (''waiting_room:queue:'' @ st_event_id rq) = Inr queueTotal"
      "redis_zrank (redis s) now (''waiting_room:queue:'' @ st_event_id rq) (js_or (st_token rq) [])
         = Inr (Some k)"
      "wave_progress cfg now (st_event_id rq) queueTotal (redis s) = Inr (w, r1)" "w \<noteq> 0"
  shows "fst (status cfg now rq s)
           = Status_open (e_on_sale_at ev) (Some (k + 1)) queueTotal (k + 1 \<le> w \<and> \<not> e_paused ev)
               (ceil_div (max 0 (k + 1 - w)) (waveSize cfg)
                  * ceil_div (waveAdvanceIntervalMs cfg) 1000)
               (e_paused ev)"
proof -
  have u: "up r1" using assms(8) redis_get_up[OF assms(3)] by (rule wave_progress_up)
  have pos: "0 < queueTotal" using zrank_zcard[OF assms(7,6)] by simp
  have eta: "estimateETA (Some (k + 1)) w (waveSize cfg) (waveAdvanceIntervalMs cfg)
      = ceil_div (max 0 (k + 1 - w)) (waveSize cfg) * ceil_div (waveAdvanceIntervalMs cfg) 1000"
    by (simp add: estimateETA_def Let_def)
  have ce: "canEnterWave (Some (k + 1)) (Some w) = (k + 1 \<le> w)"
    using assms(9) by (simp add: canEnterWave_def)
  show ?thesis
    unfolding status_def Let_def
    using assms(1-8) u pos eta ce
    by (simp add: redis_set_ex_def)
qed

text \<open>
  C7. Wave algorithm, as the status handler implements it, with a positive wave size, a
  positive wave interval that the clock has passed, and a stored cursor that is not
  negative. A poll that finds no cursor initialises it to \<open>min(total, wave_size)\<close>, and to
  \<open>wave_size\<close> when the queue is empty, and sets \<open>last_advance\<close> to now. A poll that finds
  the cursor \<open>wave_end\<close> advances it to \<open>min(total, wave_end + wave_size)\<close> and sets
  \<open>last_advance\<close> to now if \<open>total > wave_end\<close> and \<open>now - last_advance \<ge> wave_interval\<close>
  (a missing \<open>last_advance\<close> counting as 0), and else leaves the store as it is. A queued
  token at position \<open>p\<close> polled after the sale has opened is told that it can enter iff
  \<open>p \<le> wave_end\<close> and the event is not paused, for the cursor the poll ends with, and
  \<open>eta_seconds = ceil(max(0, p - wave_end) / wave_size) * ceil(wave_interval_ms / 1000)\<close>.
\<close>

theorem wave_algorithm:
  "(redis_get r now (''queue_wave_end:'' @ eid) = Inr we
      \<and> redis_get r now (''queue_wave_last_advance:'' @ eid) = Inr la
      \<and> 0 \<le> parse_int_or_0 we
      \<and> 0 < waveSize cfg \<and> 0 < waveAdvanceIntervalMs cfg \<and> waveAdvanceIntervalMs cfg \<le> now
      \<and> 0 \<le> queueTotal
    \<longrightarrow>
      wave_progress cfg now eid queueTotal r
        = (if parse_int_or_0 we = 0 then
             Inr (min (if queueTotal = 0 then waveSize cfg else queueTotal) (waveSize cfg),
                  r\<lparr>kv := (kv r)(''queue_wave_end:'' @ eid
                         \<mapsto> (RInt (min (if queueTotal = 0 then waveSize cfg else queueTotal)
                                        (waveSize cfg)), None),
                       ''queue_wave_last_advance:'' @ eid \<mapsto> (RInt now, None))\<rparr>)
           else if queueTotal > parse_int_or_0 we
                   \<and> now - parse_int_or_0 la \<ge> waveAdvanceIntervalMs cfg then
             Inr (min queueTotal (parse_int_or_0 we + waveSize cfg),
                  r\<lparr>kv := (kv r)(''queue_wave_end:'' @ eid
                         \<mapsto> (RInt (min queueTotal (parse_int_or_0 we + waveSize cfg)), None),
                       ''queue_wave_last_advance:'' @ eid \<mapsto> (RInt now, None))\<rparr>)
           else Inr (parse_int_or_0 we, r)))
   \<and> (truthy (st_token rq)
      \<and> filter (\<lambda>e. e_id e = st_event_id rq \<and> e_status e \<noteq> Draft) (events (db s)) = ev # evs
      \<and> redis_get (redis s) now (''waiting_room:'' @ st_event_id rq @ '':'' @ js_or (st_token rq) [])
           = Inr td
      \<and> truthy_val td \<and> e_on_sale_at ev \<le> now
      \<and> redis_zcard (redis s) now (''waiting_room:queue:'' @ st_event_id rq) = Inr queued
      \<and> redis_zrank (redis s) now (''waiting_room:queue:'' @ st_event_id rq) (js_or (st_token rq) [])
           = Inr (Some k)
      \<and> wave_progress cfg now (st_event_id rq) queued (redis s) = Inr (wave_end, r1)
      \<and> wave_end \<noteq> 0 \<and> 0 < waveSize cfg
    \<longrightarrow>
      fst (status cfg now rq s)
        = Status_open (e_on_sale_at ev) (Some (k + 1)) queued
            (k + 1 \<le> wave_end \<and> \<not> e_paused ev)
            (ceil_div (max 0 (k + 1 - wave_end)) (waveSize cfg)
               * ceil_div (waveAdvanceIntervalMs cfg) 1000)
            (e_paused ev))"
proof (intro conjI impI)
  assume a: "redis_get r now (''queue_wave_end:'' @ eid) = Inr we
      \<and> redis_get r now (''queue_wave_last_advance:'' @ eid) = Inr la
      \<and> 0 \<le> parse_int_or_0 we
      \<and> 0 < waveSize cfg \<and> 0 < waveAdvanceIntervalMs cfg \<and> waveAdvanceIntervalMs cfg \<le> now
      \<and> 0 \<le> queueTotal"
  then have g: "redis_get r now (''queue_wave_end:'' @ eid) = Inr we"
      "redis_get r now (''queue_wave_last_advance:'' @ eid) = Inr la"
    and n: "0 \<le> parse_int_or_0 we"
    and c: "0 < waveSize cfg" "0 < waveAdvanceIntervalMs cfg" "waveAdvanceIntervalMs cfg \<le> now"
    and t: "0 \<le> queueTotal"
    by blast+
  show "wave_progress cfg now eid queueTotal r
        = (if parse_int_or_0 we = 0 then
             Inr (min (if queueTotal = 0 then waveSize cfg else queueTotal) (waveSize cfg),
                  r\<lparr>kv := (kv r)(''queue_wave_end:'' @ eid
                         \<mapsto> (RInt (min (if queueTotal = 0 then waveSize cfg else queueTotal)
                                        (waveSize cfg)), None),
                       ''queue_wave_last_advance:'' @ eid \<mapsto> (RInt now, None))\<rparr>)
           else if queueTotal > parse_int_or_0 we
                   \<and> now - parse_int_or_0 la \<ge> waveAdvanceIntervalMs cfg then
             Inr (min queueTotal (parse_int_or_0 we + waveSize cfg),
                  r\<lparr>kv := (kv r)(''queue_wave_end:'' @ eid
                         \<mapsto> (RInt (min queueTotal (parse_int_or_0 we + waveSize cfg)), None),
                       ''queue_wave_last_advance:'' @ eid \<mapsto> (RInt now, None))\<rparr>)
           else Inr (parse_int_or_0 we, r))"
  proof (cases "parse_int_or_0 we = 0")
    case True
    from wave_progress_init[OF g(1) True c t refl] True show ?thesis by simp
  next
    case False
    with n have p: "0 < parse_int_or_0 we" by simp
    from wave_progress_next[OF g(1) refl p g(2) refl c] False show ?thesis by simp
  qed
next
  assume a: "truthy (st_token rq)
      \<and> filter (\<lambda>e. e_id e = st_event_id rq \<and> e_status e \<noteq> Draft) (events (db s)) = ev # evs
      \<and> redis_get (redis s) now (''waiting_room:'' @ st_event_id rq @ '':'' @ js_or (st_token rq) [])
           = Inr td
      \<and> truthy_val td \<and> e_on_sale_at ev \<le> now
      \<and> redis_zcard (redis s) now (''waiting_room:queue:'' @ st_event_id rq) = Inr queued
      \<and> redis_zrank (redis s) now (''waiting_room:queue:'' @ st_event_id rq) (js_or (st_token rq) [])
           = Inr (Some k)
      \<and> wave_progress cfg now (st_event_id rq) queued (redis s) = Inr (wave_end, r1)
      \<and> wave_end \<noteq> 0 \<and> 0 < waveSize cfg"
  then have h: "truthy (st_token rq)"
      "filter (\<lambda>e. e_id e = st_event_id rq \<and> e_status e \<noteq> Draft) (events (db s)) = ev # evs"
      "redis_get (redis s) now (''waiting_room:'' @ st_event_id rq @ '':'' @ js_or (st_token rq) [])
           = Inr td"
      "truthy_val td" "e_on_sale_at ev \<le> now"
      "redis_zcard (redis s) now (''waiting_room:queue:'' @ st_event_id rq) = Inr queued"
      "redis_zrank (redis s) now (''waiting_room:queue:'' @ st_event_id rq) (js_or (st_token rq) [])
           = Inr (Some k)"
      "wave_progress cfg now (st_event_id rq) queued (redis s) = Inr (wave_end, r1)"
      "wave_end \<noteq> 0"
    by blast+
  show "fst (status cfg now rq s)
        = Status_open (e_on_sale_at ev) (Some (k + 1)) queued
            (k + 1 \<le> wave_end \<and> \<not> e_paused ev)
            (ceil_div (max 0 (k + 1 - wave_end)) (waveSize cfg)
               * ceil_div (waveAdvanceIntervalMs cfg) 1000)
            (e_paused ev)"
    by (rule status_open[OF h])
qed

theorem wave_algorithm_witness:
  "redis_get ex_redis_queue 1030000 ''queue_wave_end:e1'' = Inr (Some (RInt 2))
   \<and> redis_get ex_redis_queue 1030000 ''queue_wave_last_advance:e1'' = Inr (Some (RInt 1000000))
   \<and> parse_int_or_0 (Some (RInt 2)) = 2 \<and> parse_int_or_0 (Some (RInt 1000000)) = 1000000
   \<and> waveSize ex_config_waves = 2 \<and> waveAdvanceIntervalMs ex_config_waves = 30000
   \<and> wave_progress ex_config_waves 1030000 ''e1'' 3 ex_redis_queue
       = Inr (3, ex_redis_queue\<lparr>kv := (kv ex_redis_queue)
                  (''queue_wave_end:e1'' \<mapsto> (RInt 3, None),
                   ''queue_wave_last_advance:e1'' \<mapsto> (RInt 1030000, None))\<rparr>)
   \<and> truthy (st_token ex_poll)
   \<and> filter (\<lambda>e. e_id e = st_event_id ex_poll \<and> e_status e \<noteq> Draft) (events ex_db) = [ex_event]
   \<and> e_on_sale_at ex_event \<le> 1030000 \<and> \<not> e_paused ex_event
   \<and> redis_zcard ex_redis_queue 1030000 ''waiting_room:queue:e1'' = Inr 3
   \<and> redis_zrank ex_redis_queue 1030000 ''waiting_room:queue:e1'' ''k3'' = Inr (Some 2)
   \<and> fst (status ex_config_waves 1030000 ex_poll \<lparr>db = ex_db, redis = ex_redis_queue\<rparr>)
       = Status_open 0 (Some 3) 3 True 0 False"
proof -
  have g: "redis_get ex_redis_queue 1030000 (''queue_wave_end:'' @ ''e1'') = Inr (Some (RInt 2))"
    "redis_get ex_redis_queue 1030000 (''queue_wave_last_advance:'' @ ''e1'') = Inr (Some (RInt 1000000))"
    by (simp_all add: redis_defs ex_redis_queue_def)
  have n: "parse_int_or_0 (Some (RInt 2)) = 2" "parse_int_or_0 (Some (RInt 1000000)) = 1000000"
    "waveSize ex_config_waves = 2" "waveAdvanceIntervalMs ex_config_waves = 30000"
    by (simp_all add: parse_int_or_0_def example_defs ex_config_waves_def ex_redis_queue_def ex_poll_def ex_redis_unqueued_def)
  have q: "truthy (st_token ex_poll)" "st_event_id ex_poll = ''e1''" "js_or (st_token ex_poll) [] = ''k3''"
    "filter (\<lambda>e. e_id e = st_event_id ex_poll \<and> e_status e \<noteq> Draft) (events ex_db) = [ex_event]"
    "e_on_sale_at ex_event \<le> 1030000" "\<not> e_paused ex_event" "e_on_sale_at ex_event = 0"
    by (simp_all add: truthy_def js_or_def example_defs ex_config_waves_def ex_redis_queue_def ex_poll_def ex_redis_unqueued_def)
  have z: "redis_zcard ex_redis_queue 1030000 (''waiting_room:queue:'' @ ''e1'') = Inr 3"
    "redis_zrank ex_redis_queue 1030000 (''waiting_room:queue:'' @ ''e1'') ''k3'' = Inr (Some 2)"
    "redis_get ex_redis_queue 1030000 (''waiting_room:'' @ ''e1'' @ '':'' @ ''k3'')
       = Inr (Some (RTok \<lparr>td_eventId = ''e1'', td_token = ''k3'', td_userId = ''k3'',
                            td_joinedAt = 900030\<rparr>))"
    "truthy_val (Some (RTok \<lparr>td_eventId = ''e1'', td_token = ''k3'', td_userId = ''k3'',
                            td_joinedAt = 900030\<rparr>))"
    by (simp_all add: redis_defs truthy_val_def ex_redis_queue_def)
  note T = wave_algorithm[where r = ex_redis_queue and now = 1030000 and eid = "''e1''"
      and we = "Some (RInt 2)" and la = "Some (RInt 1000000)" and cfg = ex_config_waves
      and queueTotal = 3 and rq = ex_poll and s = "\<lparr>db = ex_db, redis = ex_redis_queue\<rparr>"
      and ev = ex_event and evs = "[]"
      and td = "Some (RTok \<lparr>td_eventId = ''e1'', td_token = ''k3'', td_userId = ''k3'',
                            td_joinedAt = 900030\<rparr>)"
      and queued = 3 and k = 2 and wave_end = 3
      and ?r1.0 = "ex_redis_queue\<lparr>kv := (kv ex_redis_queue)
                  (''queue_wave_end:e1'' \<mapsto> (RInt 3, None),
                   ''queue_wave_last_advance:e1'' \<mapsto> (RInt 1030000, None))\<rparr>",
      unfolded stores.select_convs q(2,3)]
  have w: "wave_progress ex_config_waves 1030000 ''e1'' 3 ex_redis_queue
       = Inr (3, ex_redis_queue\<lparr>kv := (kv ex_redis_queue)
                  (''queue_wave_end:e1'' \<mapsto> (RInt 3, None),
                   ''queue_wave_last_advance:e1'' \<mapsto> (RInt 1030000, None))\<rparr>)"
    using T[THEN conjunct1] g n by simp
  have st: "fst (status ex_config_waves 1030000 ex_poll \<lparr>db = ex_db, redis = ex_redis_queue\<rparr>)
       = Status_open 0 (Some 3) 3 True 0 False"
    using T[THEN conjunct2] q z w n by (simp add: ceil_div_def)
  show ?thesis using g n w q(1,4,5,6) z(1,2) st by simp
qed

theorem wave_initialised_on_empty_queue_counterexample:
  "redis_zcard ex_redis_unqueued 1030000 ''waiting_room:queue:e1'' = Inr 0
   \<and> redis_get ex_redis_unqueued 1030000 ''queue_wave_end:e1'' = Inr None
   \<and> fst (status default_config 1030000 ex_poll \<lparr>db = ex_db, redis = ex_redis_unqueued\<rparr>)
       = Status_open 0 None 0 False 0 False
   \<and> redis_get (redis (snd (status default_config 1030000 ex_poll
                                \<lparr>db = ex_db, redis = ex_redis_unqueued\<rparr>)))
        1030000 ''queue_wave_end:e1'' = Inr (Some (RInt 100))
   \<and> min 0 (waveSize default_config) = 0
   \<and> estimateETA (Some 150) 100 100 1500 = 2
   \<and> ceil_div (max 0 (150 - 100)) 100 * 1500 \<noteq> 2 * 1000"
proof -
  have w: "wave_progress default_config 1030000 ''e1'' 0 ex_redis_unqueued
       = Inr (100, ex_redis_unqueued\<lparr>kv := (kv ex_redis_unqueued)
                  (''queue_wave_end:e1'' \<mapsto> (RInt 100, None),
                   ''queue_wave_last_advance:e1'' \<mapsto> (RInt 1030000, None))\<rparr>)"
    by (simp add: wave_progress_def redis_defs parse_int_or_0_def Let_def ex_redis_unqueued_def
          default_config_def)
  have s: "status default_config 1030000 ex_poll \<lparr>db = ex_db, redis = ex_redis_unqueued\<rparr>
       = (Status_open 0 None 0 False 0 False,
          \<lparr>db = ex_db, redis = ex_redis_unqueued\<lparr>kv := (kv ex_redis_unqueued)
                  (''queue_wave_end:e1'' \<mapsto> (RInt 100, None),
                   ''queue_wave_last_advance:e1'' \<mapsto> (RInt 1030000, None))\<rparr>\<rparr>)"
    unfolding status_def Let_def
    using w by (simp add: redis_defs truthy_def truthy_val_def js_or_def ex_poll_def ex_db_def
                  ex_event_def ex_redis_unqueued_def)
  have e: "redis_zcard ex_redis_unqueued 1030000 ''waiting_room:queue:e1'' = Inr 0"
    "redis_get ex_redis_unqueued 1030000 ''queue_wave_end:e1'' = Inr None"
    "min 0 (waveSize default_config) = 0"
    "estimateETA (Some 150) 100 100 1500 = 2"
    "ceil_div (max 0 (150 - 100)) 100 * 1500 \<noteq> 2 * 1000"
    by (simp_all add: redis_defs estimateETA_def ceil_div_def ex_redis_unqueued_def
          default_config_def)
  show ?thesis unfolding s using e by (simp add: redis_defs ex_redis_unqueued_def)
qed

subsection \<open>The admission grant\<close>

lemma rateLimit_keeps_grant:
  assumes "rateLimit r now key limit w = Inr (rl, r1)"
  shows "redis_get r1 t (''waiting_room_access:'' @ k) = redis_get r t (''waiting_room_access:'' @ k)"
proof -
  have "''waiting_room_access:'' @ k \<noteq> ''rate_limit:'' @ key" by simp
  with rateLimit_frame[OF assms]
  have "up r1 = up r" "kv r1 (''waiting_room_access:'' @ k) = kv r (''waiting_room_access:'' @ k)"
    by blast+
  then show ?thesis by (simp add: redis_get_def live_def)
qed

lemma reserve_tx_admitted: "reserve_tx cfg now new_id eid tid q u d = (rep, d') \<Longrightarrow> rep \<noteq> Not_admitted"
  unfolding reserve_tx_def Let_def by (auto split: list.splits if_splits)

lemma reserve_admission_cases:
  assumes "reserve cfg now new_id rq s = (rep, s')"
  shows "(db s' = db s \<and> rep \<noteq> Not_admitted \<and> (\<forall>row. rep \<noteq> Reserved row))
       \<or> (db s' = db s \<and> rep = Not_admitted
           \<and> (\<exists>tok key rl r1 g. rq_token rq = Some tok
                 \<and> rateLimit (redis s) now key 5 60 = Inr (rl, r1)
                 \<and> redis_get r1 now (''waiting_room_access:'' @ rq_event_id rq @ '':'' @ tok) = Inr g
                 \<and> \<not> truthy_val g))
       \<or> (\<exists>tok key rl r1 g tid q u. rq_token rq = Some tok
             \<and> rateLimit (redis s) now key 5 60 = Inr (rl, r1)
             \<and> redis_get r1 now (''waiting_room_access:'' @ rq_event_id rq @ '':'' @ tok) = Inr g
             \<and> truthy_val g
             \<and> reserve_tx cfg now new_id (rq_event_id rq) tid q u (db s) = (rep, db s'))"
  using assms unfolding reserve_def
  by (simp split: option.splits if_splits sum.splits prod.splits) force+

lemma reserve_admission:
  assumes r: "reserve cfg now new_id rq s = (rep, s')"
      and tok: "rq_token rq = Some tok"
      and g: "redis_get (redis s) now (''waiting_room_access:'' @ rq_event_id rq @ '':'' @ tok) = Inr g"
  shows "(truthy_val g \<longrightarrow> rep \<noteq> Not_admitted)
       \<and> (\<not> truthy_val g \<longrightarrow> (\<forall>row. rep \<noteq> Reserved row) \<and> db s' = db s)"
proof -
  from reserve_admission_cases[OF r]
  consider "db s' = db s" "rep \<noteq> Not_admitted" "\<forall>row. rep \<noteq> Reserved row"
    | key rl r1 g' where "db s' = db s" "rep = Not_admitted"
        "rateLimit (redis s) now key 5 60 = Inr (rl, r1)"
        "redis_get r1 now (''waiting_room_access:'' @ rq_event_id rq @ '':'' @ tok) = Inr g'"
        "\<not> truthy_val g'"
    | key rl r1 g' tid q u where
        "rateLimit (redis s) now key 5 60 = Inr (rl, r1)"
        "redis_get r1 now (''waiting_room_access:'' @ rq_event_id rq @ '':'' @ tok) = Inr g'"
        "truthy_val g'"
        "reserve_tx cfg now new_id (rq_event_id rq) tid q u (db s) = (rep, db s')"
    using tok by auto
  then show ?thesis
  proof cases
    case 1
    then show ?thesis by simp
  next
    case 2
    from rateLimit_keeps_grant[OF 2(3), of now "rq_event_id rq @ '':'' @ tok"] 2(4) g
    have "g' = g" by simp
    with 2 show ?thesis by simp
  next
    case 3
    from rateLimit_keeps_grant[OF 3(1), of now "rq_event_id rq @ '':'' @ tok"] 3(2) g
    have "g' = g" by simp
    with 3(3) reserve_tx_admitted[OF 3(4)] show ?thesis by simp
  qed
qed

lemma reserve_granted_has_grant:
  assumes r: "reserve cfg now new_id rq s = (Reserved row, s')"
  shows "\<exists>tok g. rq_token rq = Some tok
           \<and> redis_get (redis s) now (''waiting_room_access:'' @ rq_event_id rq @ '':'' @ tok) = Inr g
           \<and> truthy_val g"
proof -
  from reserve_admission_cases[OF r]
  obtain tok key rl r1 g where tok: "rq_token rq = Some tok"
    and rl: "rateLimit (redis s) now key 5 60 = Inr (rl, r1)"
    and g: "redis_get r1 now (''waiting_room_access:'' @ rq_event_id rq @ '':'' @ tok) = Inr g"
      "truthy_val g"
    by auto
  from rateLimit_keeps_grant[OF rl, of now "rq_event_id rq @ '':'' @ tok"] g(1)
  have "redis_get (redis s) now (''waiting_room_access:'' @ rq_event_id rq @ '':'' @ tok) = Inr g"
    by simp
  with tok g(2) show ?thesis by blast
qed

lemma reserve_not_admitted:
  assumes "rq_tier_id rq = Some tid" "tid \<noteq> []" "rq_quantity rq = Some q" "0 < q"
      "rq_token rq = Some tok" "tok \<noteq> []" "rq_user_id rq = Some u" "u \<noteq> []"
      "limiter_admits (redis s) now (''reservations:'' @ rq_event_id rq @ '':'' @ u) 5"
      "redis_get (redis s) now (''waiting_room_access:'' @ rq_event_id rq @ '':'' @ tok) = Inr g"
      "\<not> truthy_val g"
  shows "fst (reserve cfg now new_id rq s) = Not_admitted"
proof -
  from assms(9) obtain rl r1 where
    rl: "rateLimit (redis s) now (''reservations:'' @ rq_event_id rq @ '':'' @ u) 5 60 = Inr (rl, r1)"
      "allowed rl"
    by (auto simp: limiter_admits_def split: sum.splits)
  have "redis_get r1 now (''waiting_room_access:'' @ rq_event_id rq @ '':'' @ tok) = Inr g"
    using rateLimit_keeps_grant[OF rl(1), of now "rq_event_id rq @ '':'' @ tok"] assms(10) by simp
  then show ?thesis
    using assms(1-8,11) rl unfolding reserve_def by simp
qed

lemma reserve_frame_grant:
  "redis_get (redis (snd (reserve cfg now new_id rq s))) t
       (''waiting_room_access:'' @ eid @ '':'' @ token)
     = redis_get (redis s) t (''waiting_room_access:'' @ eid @ '':'' @ token)"
proof -
  obtain rep s' where r: "reserve cfg now new_id rq s = (rep, s')"
    by (cases "reserve cfg now new_id rq s") auto
  have "take 11 (''waiting_room_access:'' @ eid @ '':'' @ token) \<noteq> ''rate_limit:''" by simp
  with reserve_redis_frame[OF r]
  have "up (redis s') = up (redis s)"
    "kv (redis s') (''waiting_room_access:'' @ eid @ '':'' @ token)
       = kv (redis s) (''waiting_room_access:'' @ eid @ '':'' @ token)"
    by blast+
  then show ?thesis using r by (simp add: redis_get_def live_def)
qed

text \<open>
  C8, as the code has it. A reservation requires the admission grant and does not consume
  it. (1) While the grant of the token of a request does not read as set, no reservation is
  made and the database stays as it is; (2) a well-formed request that the rate limiter lets
  through is then refused as not admitted, with status 403; (3) every reservation that is
  made had its grant set. (4) A reservation request reads the grant and never writes it:
  whatever the reply, the grant of every token of every event reads after the call as it
  read before, at every instant; (5) so a later request whose grant was set before the call
  still passes the admission check after it: it is not refused as not admitted.
\<close>

theorem reserve_requires_and_keeps_grant:
  "(rq_token rq = Some tok
      \<and> redis_get (redis s) now (''waiting_room_access:'' @ rq_event_id rq @ '':'' @ tok) = Inr g
      \<and> \<not> truthy_val g
    \<longrightarrow> (\<forall>row. fst (reserve cfg now new_id rq s) \<noteq> Reserved row)
        \<and> db (snd (reserve cfg now new_id rq s)) = db s)
   \<and> (rq_tier_id rq = Some tid \<and> tid \<noteq> [] \<and> rq_quantity rq = Some q \<and> 0 < q
      \<and> rq_token rq = Some tok \<and> tok \<noteq> [] \<and> rq_user_id rq = Some u \<and> u \<noteq> []
      \<and> limiter_admits (redis s) now (''reservations:'' @ rq_event_id rq @ '':'' @ u) 5
      \<and> redis_get (redis s) now (''waiting_room_access:'' @ rq_event_id rq @ '':'' @ tok) = Inr g
      \<and> \<not> truthy_val g
    \<longrightarrow> fst (reserve cfg now new_id rq s) = Not_admitted
        \<and> reserve_status (fst (reserve cfg now new_id rq s)) = 403)
   \<and> (fst (reserve cfg now new_id rq s) = Reserved row
    \<longrightarrow> (\<exists>tok' g'. rq_token rq = Some tok'
            \<and> redis_get (redis s) now (''waiting_room_access:'' @ rq_event_id rq @ '':'' @ tok')
                = Inr g'
            \<and> truthy_val g'))
   \<and> redis_get (redis (snd (reserve cfg now new_id rq s))) t
         (''waiting_room_access:'' @ eid @ '':'' @ token)
       = redis_get (redis s) t (''waiting_room_access:'' @ eid @ '':'' @ token)
   \<and> (rq_token rq2 = Some tok2
      \<and> redis_get (redis s) now2 (''waiting_room_access:'' @ rq_event_id rq2 @ '':'' @ tok2) = Inr g2
      \<and> truthy_val g2
    \<longrightarrow> fst (reserve cfg now2 new_id2 rq2 (snd (reserve cfg now new_id rq s))) \<noteq> Not_admitted)"
proof (intro conjI impI)
  assume a: "rq_token rq = Some tok
      \<and> redis_get (redis s) now (''waiting_room_access:'' @ rq_event_id rq @ '':'' @ tok) = Inr g
      \<and> \<not> truthy_val g"
  obtain rep s' where r: "reserve cfg now new_id rq s = (rep, s')"
    by (cases "reserve cfg now new_id rq s") auto
  from a have tok: "rq_token rq = Some tok"
    and g: "redis_get (redis s) now (''waiting_room_access:'' @ rq_event_id rq @ '':'' @ tok) = Inr g"
    and n: "\<not> truthy_val g" by blast+
  from reserve_admission[OF r tok g] n
  show "\<forall>row. fst (reserve cfg now new_id rq s) \<noteq> Reserved row"
    "db (snd (reserve cfg now new_id rq s)) = db s"
    using r by simp_all
next
  assume a: "rq_tier_id rq = Some tid \<and> tid \<noteq> [] \<and> rq_quantity rq = Some q \<and> 0 < q
      \<and> rq_token rq = Some tok \<and> tok \<noteq> [] \<and> rq_user_id rq = Some u \<and> u \<noteq> []
      \<and> limiter_admits (redis s) now (''reservations:'' @ rq_event_id rq @ '':'' @ u) 5
      \<and> redis_get (redis s) now (''waiting_room_access:'' @ rq_event_id rq @ '':'' @ tok) = Inr g
      \<and> \<not> truthy_val g"
  then have h: "rq_tier_id rq = Some tid" "tid \<noteq> []" "rq_quantity rq = Some q" "0 < q"
      "rq_token rq = Some tok" "tok \<noteq> []" "rq_user_id rq = Some u" "u \<noteq> []"
      "limiter_admits (redis s) now (''reservations:'' @ rq_event_id rq @ '':'' @ u) 5"
      "redis_get (redis s) now (''waiting_room_access:'' @ rq_event_id rq @ '':'' @ tok) = Inr g"
      "\<not> truthy_val g"
    by blast+
  show na: "fst (reserve cfg now new_id rq s) = Not_admitted"
    by (rule reserve_not_admitted[OF h])
  show "reserve_status (fst (reserve cfg now new_id rq s)) = 403"
    unfolding na by simp
next
  assume a: "fst (reserve cfg now new_id rq s) = Reserved row"
  then have "reserve cfg now new_id rq s = (Reserved row, snd (reserve cfg now new_id rq s))"
    by (simp add: prod_eq_iff)
  then show "\<exists>tok' g'. rq_token rq = Some tok'
            \<and> redis_get (redis s) now (''waiting_room_access:'' @ rq_event_id rq @ '':'' @ tok')
                = Inr g'
            \<and> truthy_val g'"
    by (rule reserve_granted_has_grant)
next
  show "redis_get (redis (snd (reserve cfg now new_id rq s))) t
         (''waiting_room_access:'' @ eid @ '':'' @ token)
       = redis_get (redis s) t (''waiting_room_access:'' @ eid @ '':'' @ token)"
    by (rule reserve_frame_grant)
next
  assume a: "rq_token rq2 = Some tok2
      \<and> redis_get (redis s) now2 (''waiting_room_access:'' @ rq_event_id rq2 @ '':'' @ tok2) = Inr g2
      \<and> truthy_val g2"
  let ?s1 = "snd (reserve cfg now new_id rq s)"
  obtain rep s2 where r: "reserve cfg now2 new_id2 rq2 ?s1 = (rep, s2)"
    by (cases "reserve cfg now2 new_id2 rq2 ?s1") auto
  from a have tok: "rq_token rq2 = Some tok2" and t: "truthy_val g2"
    and g: "redis_get (redis s) now2 (''waiting_room_access:'' @ rq_event_id rq2 @ '':'' @ tok2) = Inr g2"
    by blast+
  have g1: "redis_get (redis ?s1) now2 (''waiting_room_access:'' @ rq_event_id rq2 @ '':'' @ tok2) = Inr g2"
    using reserve_frame_grant[of cfg now new_id rq s now2 "rq_event_id rq2" tok2] g by simp
  from reserve_admission[OF r tok g1] t
  show "fst (reserve cfg now2 new_id2 rq2 ?s1) \<noteq> Not_admitted" using r by simp
qed

theorem reserve_requires_and_keeps_grant_witness:
  "rq_token (ex_reserve ''alice'' ''k9'' 1) = Some ''k9''
   \<and> rq_tier_id (ex_reserve ''alice'' ''k9'' 1) = Some ''t1''
   \<and> rq_quantity (ex_reserve ''alice'' ''k9'' 1) = Some 1
   \<and> rq_user_id (ex_reserve ''alice'' ''k9'' 1) = Some ''alice''
   \<and> limiter_admits ex_redis 1000 ''reservations:e1:alice'' 5
   \<and> redis_get ex_redis 1000 ''waiting_room_access:e1:k9'' = Inr None
   \<and> \<not> truthy_val None
   \<and> (\<forall>row. fst (reserve default_config 1000 ''r1'' (ex_reserve ''alice'' ''k9'' 1) ex_stores)
               \<noteq> Reserved row)
   \<and> db (snd (reserve default_config 1000 ''r1'' (ex_reserve ''alice'' ''k9'' 1) ex_stores)) = ex_db
   \<and> fst (reserve default_config 1000 ''r1'' (ex_reserve ''alice'' ''k9'' 1) ex_stores) = Not_admitted
   \<and> reserve_status (fst (reserve default_config 1000 ''r1'' (ex_reserve ''alice'' ''k9'' 1) ex_stores))
       = 403
   \<and> fst (reserve default_config 1000 ''r1'' (ex_reserve ''alice'' ''k1'' 1) ex_stores)
       = Reserved \<lparr>r_id = ''r1'', r_event_id = ''e1'', r_tier_id = ''t1'', r_user_token = ''alice'',
                    r_quantity = 1, r_status = Active, r_expires_at = 181000, r_created_at = 1000\<rparr>
   \<and> redis_get ex_redis 1000 ''waiting_room_access:e1:k1'' = Inr (Some (RStr ''1''))
   \<and> truthy_val (Some (RStr ''1''))
   \<and> redis_get (redis (snd (reserve default_config 1000 ''r1'' (ex_reserve ''alice'' ''k1'' 1) ex_stores)))
         2000 ''waiting_room_access:e1:k1''
       = redis_get ex_redis 2000 ''waiting_room_access:e1:k1''
   \<and> redis_get ex_redis 2000 ''waiting_room_access:e1:k1'' = Inr (Some (RStr ''1''))
   \<and> fst (reserve default_config 2000 ''r2'' (ex_reserve ''bob'' ''k1'' 1)
             (snd (reserve default_config 1000 ''r1'' (ex_reserve ''alice'' ''k1'' 1) ex_stores)))
       \<noteq> Not_admitted"
proof -
  have q: "rq_token (ex_reserve ''alice'' ''k9'' 1) = Some ''k9''"
    "rq_tier_id (ex_reserve ''alice'' ''k9'' 1) = Some ''t1''"
    "rq_quantity (ex_reserve ''alice'' ''k9'' 1) = Some 1"
    "rq_user_id (ex_reserve ''alice'' ''k9'' 1) = Some ''alice''"
    "rq_event_id (ex_reserve ''alice'' ''k9'' 1) = ''e1''"
    "rq_token (ex_reserve ''bob'' ''k1'' 1) = Some ''k1''"
    "rq_event_id (ex_reserve ''bob'' ''k1'' 1) = ''e1''"
    "redis ex_stores = ex_redis" "db ex_stores = ex_db"
    by (simp_all add: ex_reserve_def ex_stores_def)
  have l: "limiter_admits ex_redis 1000 ''reservations:e1:alice'' 5"
    by (simp add: limiter_admits_def rateLimit_def redis_defs ex_redis_def Let_def)
  have g: "redis_get ex_redis 1000 ''waiting_room_access:e1:k9'' = Inr None"
    "\<not> truthy_val None"
    "redis_get ex_redis 1000 ''waiting_room_access:e1:k1'' = Inr (Some (RStr ''1''))"
    "truthy_val (Some (RStr ''1''))"
    "redis_get ex_redis 2000 ''waiting_room_access:e1:k1'' = Inr (Some (RStr ''1''))"
    by (simp_all add: redis_defs truthy_val_def ex_redis_def)
  have r: "fst (reserve default_config 1000 ''r1'' (ex_reserve ''alice'' ''k1'' 1) ex_stores)
       = Reserved \<lparr>r_id = ''r1'', r_event_id = ''e1'', r_tier_id = ''t1'', r_user_token = ''alice'',
                    r_quantity = 1, r_status = Active, r_expires_at = 181000, r_created_at = 1000\<rparr>"
    by (simp add: reserve_defs redis_defs example_defs)
  note T = reserve_requires_and_keeps_grant[where rq = "ex_reserve ''alice'' ''k9'' 1"
      and tok = "''k9''" and s = ex_stores and now = 1000 and g = None and cfg = default_config
      and new_id = "''r1''" and tid = "''t1''" and q = 1 and u = "''alice''",
      unfolded q]
  note U = reserve_requires_and_keeps_grant[where rq = "ex_reserve ''alice'' ''k1'' 1"
      and s = ex_stores and now = 1000 and cfg = default_config and new_id = "''r1''"
      and t = 2000 and eid = "''e1''" and token = "''k1''"
      and ?rq2.0 = "ex_reserve ''bob'' ''k1'' 1" and ?tok2.0 = "''k1''" and ?now2.0 = 2000
      and ?g2.0 = "Some (RStr ''1'')" and ?new_id2.0 = "''r2''",
      unfolded q]
  from T g(1,2) have c1:
    "\<forall>row. fst (reserve default_config 1000 ''r1'' (ex_reserve ''alice'' ''k9'' 1) ex_stores)
               \<noteq> Reserved row"
    "db (snd (reserve default_config 1000 ''r1'' (ex_reserve ''alice'' ''k9'' 1) ex_stores)) = ex_db"
    by simp_all
  from T g(1,2) l have c2:
    "fst (reserve default_config 1000 ''r1'' (ex_reserve ''alice'' ''k9'' 1) ex_stores) = Not_admitted"
    "reserve_status (fst (reserve default_config 1000 ''r1'' (ex_reserve ''alice'' ''k9'' 1) ex_stores))
       = 403"
    by simp_all
  from U have c3:
    "redis_get (redis (snd (reserve default_config 1000 ''r1'' (ex_reserve ''alice'' ''k1'' 1) ex_stores)))
         2000 ''waiting_room_access:e1:k1''
       = redis_get ex_redis 2000 ''waiting_room_access:e1:k1''"
    by simp
  from U g(5,4) have c4:
    "fst (reserve default_config 2000 ''r2'' (ex_reserve ''bob'' ''k1'' 1)
             (snd (reserve default_config 1000 ''r1'' (ex_reserve ''alice'' ''k1'' 1) ex_stores)))
       \<noteq> Not_admitted"
    by simp
  show ?thesis
    by (intro conjI q(1,2,3,4) l g(1,2) c1 c2 r g(3,4) c3 g(5) c4)
qed

text \<open>
  One grant, several reservations. After alice's reservation with token k1 has succeeded,
  the grant of k1 still reads \<^verbatim>\<open>1\<close>; bob's reservation with the same token passes the
  admission check and succeeds, and alice's own second request passes it too and is
  answered 409 for the hold she already has, not 403.
\<close>

theorem grant_not_consumed_counterexample:
  "reserve_status (fst (reserve default_config 1000 ''r1'' (ex_reserve ''alice'' ''k1'' 1) ex_stores))
     = 201
   \<and> redis_get (redis (snd (reserve default_config 1000 ''r1'' (ex_reserve ''alice'' ''k1'' 1) ex_stores)))
        2000 ''waiting_room_access:e1:k1''
     = Inr (Some (RStr ''1''))
   \<and> reserve_status
        (fst (reserve default_config 2000 ''r2'' (ex_reserve ''bob'' ''k1'' 1)
               (snd (reserve default_config 1000 ''r1'' (ex_reserve ''alice'' ''k1'' 1) ex_stores))))
     = 201
   \<and> fst (reserve default_config 2000 ''r2'' (ex_reserve ''alice'' ''k1'' 1)
               (snd (reserve default_config 1000 ''r1'' (ex_reserve ''alice'' ''k1'' 1) ex_stores)))
     = Double_hold ''r1'' 181000"
  by (simp add: reserve_defs redis_defs example_defs)

subsection \<open>Rate limiter and an unreachable store\<close>

lemma rateLimit_unreachable:
  "\<not> up r \<Longrightarrow> rateLimit r now key limit windowSeconds = Inl Redis_unreachable"
  by (simp add: rateLimit_def redis_incr_def)

lemma rateLimit_fail_open_unreachable:
  "\<not> up r \<Longrightarrow>
     rateLimit_fail_open r now key limit windowSeconds
       = Inr (\<lparr>allowed = True, remaining = limit, retryAfter = None\<rparr>, r)"
  by (simp add: rateLimit_fail_open_def rateLimit_unreachable)

lemma rateLimit_fail_open_never_raises:
  "\<exists>res. rateLimit_fail_open r now key limit windowSeconds = Inr res"
  by (cases "rateLimit r now key limit windowSeconds") (auto simp: rateLimit_fail_open_def)

text \<open>
  C9. The rate limiter must fail open. The limiter the handlers import
  (\<^verbatim>\<open>api/src/utils/rateLimiter.ts\<close>) has no \<^verbatim>\<open>try\<close>: with the store unreachable,
  \<^verbatim>\<open>INCR\<close> raises, the limiter raises, and the reservation handler answers 500. The copy
  in \<^verbatim>\<open>src/utils/rateLimiter.ts\<close> allows the same call.
\<close>

theorem rateLimit_raises_when_store_unreachable:
  "rateLimit (ex_redis\<lparr>up := False\<rparr>) 1000 ''reservations:e1:alice'' 5 60 = Inl Redis_unreachable
   \<and> reserve default_config 1000 ''r1'' (ex_reserve ''alice'' ''k1'' 1)
        (ex_stores\<lparr>redis := ex_redis\<lparr>up := False\<rparr>\<rparr>)
      = (Reserve_failed, ex_stores\<lparr>redis := ex_redis\<lparr>up := False\<rparr>\<rparr>)
   \<and> reserve_status Reserve_failed = 500
   \<and> rateLimit_fail_open (ex_redis\<lparr>up := False\<rparr>) 1000 ''reservations:e1:alice'' 5 60
      = Inr (\<lparr>allowed = True, remaining = 5, retryAfter = None\<rparr>, ex_redis\<lparr>up := False\<rparr>)"
  by (simp add: rateLimit_unreachable rateLimit_fail_open_unreachable reserve_def ex_reserve_def)

subsection \<open>Identity\<close>

lemma redis_zadd_frame:
  "redis_zadd r now k score member = Inr r' \<Longrightarrow> up r' = up r \<and> (\<forall>k'. k' \<noteq> k \<longrightarrow> kv r' k' = kv r k')"
  by (auto simp: redis_zadd_def zset_of_def split: sum.splits if_splits option.splits prod.splits rval.splits)

lemma redis_expire_frame:
  "redis_expire r now k seconds = Inr r' \<Longrightarrow> up r' = up r \<and> (\<forall>k'. k' \<noteq> k \<longrightarrow> kv r' k' = kv r k')"
  by (auto simp: redis_expire_def split: if_splits option.splits prod.splits)

lemma redis_incr_frame:
  "redis_incr r now k = Inr (n, r') \<Longrightarrow> up r' = up r \<and> (\<forall>k'. k' \<noteq> k \<longrightarrow> kv r' k' = kv r k')"
  by (auto simp: redis_incr_def split: if_splits option.splits prod.splits rval.splits)

lemma redis_del_frame:
  "redis_del r k = Inr r' \<Longrightarrow> up r' = up r \<and> (\<forall>k'. k' \<noteq> k \<longrightarrow> kv r' k' = kv r k')"
  by (auto simp: redis_del_def split: if_splits)

lemma redis_set_ex_get:
  "redis_set_ex r now k v seconds = Inr r' \<Longrightarrow> 0 < seconds \<Longrightarrow>
     up r' \<and> kv r' k = Some (v, Some (now + seconds * 1000))"
  by (auto simp: redis_set_ex_def split: if_splits)
lemma join_cases:
  assumes "join cfg now token rq s = (Joined token', s')"
  shows "\<exists>r1 r2 r3 r4 n r5.
           redis_set_ex r1 now (''waiting_room:'' @ jq_event_id rq @ '':'' @ token)
              (RTok \<lparr>td_eventId = jq_event_id rq, td_token = token,
                     td_userId = js_or (jq_user_id rq) token, td_joinedAt = now\<rparr>)
              (tokenTtlSeconds cfg) = Inr r2
           \<and> redis_zadd r2 now (''waiting_room:queue:'' @ jq_event_id rq) now token = Inr r3
           \<and> redis_expire r3 now (''waiting_room:queue:'' @ jq_event_id rq) (tokenTtlSeconds cfg) = Inr r4
           \<and> redis_incr r4 now (''queue_size:'' @ jq_event_id rq) = Inr (n, r5)
           \<and> (redis s' = r5
               \<or> redis_del r5 (''positions_assigned:'' @ jq_event_id rq) = Inr (redis s'))"
  using assms unfolding join_def Let_def
  by (simp split: sum.splits if_splits list.splits prod.splits) force+

lemma join_records_identity:
  assumes j: "join cfg now token rq s = (Joined token', s')"
      and ttl: "0 < tokenTtlSeconds cfg"
      and ne: "jq_event_id rq @ '':'' @ token \<noteq> ''queue:'' @ jq_event_id rq"
  shows "redis_get (redis s') now (''waiting_room:'' @ jq_event_id rq @ '':'' @ token)
           = Inr (Some (RTok \<lparr>td_eventId = jq_event_id rq, td_token = token,
                                td_userId = js_or (jq_user_id rq) token, td_joinedAt = now\<rparr>))"
proof -
  let ?k = "''waiting_room:'' @ jq_event_id rq @ '':'' @ token"
  let ?v = "RTok \<lparr>td_eventId = jq_event_id rq, td_token = token,
                   td_userId = js_or (jq_user_id rq) token, td_joinedAt = now\<rparr>"
  from join_cases[OF j] obtain r1 r2 r3 r4 n r5 where
    a: "redis_set_ex r1 now ?k ?v (tokenTtlSeconds cfg) = Inr r2"
    and b: "redis_zadd r2 now (''waiting_room:queue:'' @ jq_event_id rq) now token = Inr r3"
    and c: "redis_expire r3 now (''waiting_room:queue:'' @ jq_event_id rq) (tokenTtlSeconds cfg) = Inr r4"
    and d: "redis_incr r4 now (''queue_size:'' @ jq_event_id rq) = Inr (n, r5)"
    and e: "redis s' = r5
            \<or> redis_del r5 (''positions_assigned:'' @ jq_event_id rq) = Inr (redis s')"
    by blast
  have k1: "?k \<noteq> ''waiting_room:queue:'' @ jq_event_id rq" using ne by simp
  have k2: "?k \<noteq> ''queue_size:'' @ jq_event_id rq" "?k \<noteq> ''positions_assigned:'' @ jq_event_id rq"
    by simp_all
  from redis_set_ex_get[OF a ttl]
  have s2: "up r2" "kv r2 ?k = Some (?v, Some (now + tokenTtlSeconds cfg * 1000))" by blast+
  from redis_zadd_frame[OF b] k1 s2 have s3: "up r3" "kv r3 ?k = kv r2 ?k" by simp_all
  from redis_expire_frame[OF c] k1 s3 have s4: "up r4" "kv r4 ?k = kv r2 ?k" by simp_all
  from redis_incr_frame[OF d] k2(1) s4 have s5: "up r5" "kv r5 ?k = kv r2 ?k" by simp_all
  have s6: "up (redis s') \<and> kv (redis s') ?k = kv r2 ?k"
  proof (rule disjE[OF e])
    assume "redis s' = r5"
    then show ?thesis using s5 by simp
  next
    assume "redis_del r5 (''positions_assigned:'' @ jq_event_id rq) = Inr (redis s')"
    from redis_del_frame[OF this] k2(2) s5 show ?thesis by simp
  qed
  have "now < now + tokenTtlSeconds cfg * 1000" using ttl by simp
  then show ?thesis using s6 s2(2) by (simp add: redis_get_def live_def)
qed

lemma sort_key_hd_mem: "sort_key f xs = x # ys \<Longrightarrow> x \<in> set xs"
proof -
  assume "sort_key f xs = x # ys"
  then have "x \<in> set (sort_key f xs)" by simp
  then show ?thesis by simp
qed

lemma active_reservations_of_mem:
  "(r, t) \<in> set (active_reservations_of d eid userId now) \<Longrightarrow>
     r \<in> set (reservations d) \<and> r_event_id r = eid \<and> r_user_token r = userId
     \<and> r_status r = Active \<and> now < r_expires_at r"
  by (auto simp: active_reservations_of_def)

lemma lookup_active_found:
  assumes "lookup_active now rq s = Active_reservation r t n"
  shows "r \<in> set (reservations (db s)) \<and> r_event_id r = lq_event_id rq
       \<and> r_user_token r = js_or (lq_user_id rq) (js_or (lq_token rq) [])
       \<and> r_status r = Active \<and> now < r_expires_at r"
proof -
  let ?rows = "active_reservations_of (db s) (lq_event_id rq)
                 (js_or (lq_user_id rq) (js_or (lq_token rq) [])) now"
  from assms obtain rows where
    "sort_key (\<lambda>(r, t). - r_created_at r) ?rows = (r, t) # rows"
    unfolding lookup_active_def Let_def
    by (auto split: if_splits list.splits)
  then have "(r, t) \<in> set ?rows" by (rule sort_key_hd_mem)
  then show ?thesis by (rule active_reservations_of_mem)
qed

text \<open>
  C10. Identity fallback, as the handlers implement it. A join that succeeds stores the
  token with the canonical user id: the minted token when the request carries no
  \<^verbatim>\<open>X-User-Id\<close> header or an empty one, and else the header value. A lookup of the active
  reservation with a token and without a header, or with an empty one, answers as the lookup
  for the user id equal to the token, and the reservation it returns has that
  \<open>user_token\<close>. With a header that is not empty the reservation it returns has the header
  value as \<open>user_token\<close>, and the answer is the same for every token.
\<close>

theorem identity_fallback:
  "(join cfg now token jq s = (Joined tk, s') \<and> 0 < tokenTtlSeconds cfg
      \<and> jq_event_id jq @ '':'' @ token \<noteq> ''queue:'' @ jq_event_id jq
      \<and> (\<not> truthy (jq_user_id jq) \<and> uid = token \<or> jq_user_id jq = Some uid \<and> uid \<noteq> [])
    \<longrightarrow>
      redis_get (redis s') now (''waiting_room:'' @ jq_event_id jq @ '':'' @ token)
        = Inr (Some (RTok \<lparr>td_eventId = jq_event_id jq, td_token = token, td_userId = uid,
                             td_joinedAt = now\<rparr>)))
   \<and> (\<not> truthy (lq_user_id rq) \<and> lq_token rq = Some k \<and> k \<noteq> []
    \<longrightarrow>
      lookup_active now rq st = lookup_active now (rq\<lparr>lq_user_id := Some k\<rparr>) st
      \<and> (\<forall>r t n. lookup_active now rq st = Active_reservation r t n
             \<longrightarrow> r \<in> set (reservations (db st)) \<and> r_user_token r = k))
   \<and> (lq_user_id rq = Some h \<and> h \<noteq> [] \<and> k1 \<noteq> [] \<and> k2 \<noteq> []
    \<longrightarrow>
      lookup_active now (rq\<lparr>lq_token := Some k1\<rparr>) st
        = lookup_active now (rq\<lparr>lq_token := Some k2\<rparr>) st
      \<and> (\<forall>r t n. lookup_active now (rq\<lparr>lq_token := Some k1\<rparr>) st = Active_reservation r t n
             \<longrightarrow> r \<in> set (reservations (db st)) \<and> r_user_token r = h))"
proof (intro conjI impI allI)
  assume a: "join cfg now token jq s = (Joined tk, s') \<and> 0 < tokenTtlSeconds cfg
      \<and> jq_event_id jq @ '':'' @ token \<noteq> ''queue:'' @ jq_event_id jq
      \<and> (\<not> truthy (jq_user_id jq) \<and> uid = token \<or> jq_user_id jq = Some uid \<and> uid \<noteq> [])"
  then have j: "join cfg now token jq s = (Joined tk, s')" and ttl: "0 < tokenTtlSeconds cfg"
    and ne: "jq_event_id jq @ '':'' @ token \<noteq> ''queue:'' @ jq_event_id jq"
    and u: "\<not> truthy (jq_user_id jq) \<and> uid = token \<or> jq_user_id jq = Some uid \<and> uid \<noteq> []"
    by blast+
  from u have "js_or (jq_user_id jq) token = uid"
    by (auto simp: js_or_def truthy_def split: option.splits)
  with join_records_identity[OF j ttl ne]
  show "redis_get (redis s') now (''waiting_room:'' @ jq_event_id jq @ '':'' @ token)
        = Inr (Some (RTok \<lparr>td_eventId = jq_event_id jq, td_token = token, td_userId = uid,
                             td_joinedAt = now\<rparr>))"
    by simp
next
  assume a: "\<not> truthy (lq_user_id rq) \<and> lq_token rq = Some k \<and> k \<noteq> []"
  then have f: "js_or (lq_user_id rq) (js_or (lq_token rq) []) = k"
    by (auto simp: js_or_def truthy_def split: option.splits)
  from a show "lookup_active now rq st = lookup_active now (rq\<lparr>lq_user_id := Some k\<rparr>) st"
    by (auto simp: lookup_active_def js_or_def truthy_def Let_def split: option.splits)
  fix r t n assume "lookup_active now rq st = Active_reservation r t n"
  from lookup_active_found[OF this] f
  show "r \<in> set (reservations (db st))" "r_user_token r = k" by simp_all
next
  assume a: "lq_user_id rq = Some h \<and> h \<noteq> [] \<and> k1 \<noteq> [] \<and> k2 \<noteq> []"
  then show "lookup_active now (rq\<lparr>lq_token := Some k1\<rparr>) st
        = lookup_active now (rq\<lparr>lq_token := Some k2\<rparr>) st"
    by (simp add: lookup_active_def js_or_def truthy_def Let_def)
  fix r t n assume "lookup_active now (rq\<lparr>lq_token := Some k1\<rparr>) st = Active_reservation r t n"
  from lookup_active_found[OF this] a
  show "r \<in> set (reservations (db st))" "r_user_token r = h" by (simp_all add: js_or_def)
qed

theorem identity_fallback_witness:
  "fst (join default_config 1000 ''k3'' ex_join ex_stores) = Joined ''k3''
   \<and> \<not> truthy (jq_user_id ex_join)
   \<and> redis_get (redis (snd (join default_config 1000 ''k3'' ex_join ex_stores))) 1000
         ''waiting_room:e1:k3''
       = Inr (Some (RTok \<lparr>td_eventId = ''e1'', td_token = ''k3'', td_userId = ''k3'',
                            td_joinedAt = 1000\<rparr>))
   \<and> \<not> truthy (lq_user_id (ex_lookup ''alice'' None))
   \<and> lookup_active 2000 (ex_lookup ''alice'' None) \<lparr>db = ex_db_held, redis = ex_redis\<rparr>
       = Active_reservation ex_held ex_tier 179
   \<and> lookup_active 2000 (ex_lookup ''alice'' None) \<lparr>db = ex_db_held, redis = ex_redis\<rparr>
       = lookup_active 2000 (ex_lookup ''alice'' (Some ''alice'')) \<lparr>db = ex_db_held, redis = ex_redis\<rparr>
   \<and> r_user_token ex_held = ''alice''
   \<and> lookup_active 2000 (ex_lookup ''k1'' (Some ''alice'')) \<lparr>db = ex_db_held, redis = ex_redis\<rparr>
       = lookup_active 2000 (ex_lookup ''k2'' (Some ''alice'')) \<lparr>db = ex_db_held, redis = ex_redis\<rparr>
   \<and> lookup_active 2000 (ex_lookup ''k1'' (Some ''alice'')) \<lparr>db = ex_db_held, redis = ex_redis\<rparr>
       = Active_reservation ex_held ex_tier 179"
proof -
  have j: "fst (join default_config 1000 ''k3'' ex_join ex_stores) = Joined ''k3''"
    by (simp add: join_def rateLimit_def redis_defs Let_def example_defs ex_join_def ex_lookup_def)
  then have j': "join default_config 1000 ''k3'' ex_join ex_stores
      = (Joined ''k3'', snd (join default_config 1000 ''k3'' ex_join ex_stores))"
    by (simp add: prod_eq_iff)
  have p: "0 < tokenTtlSeconds default_config"
    "jq_event_id ex_join @ '':'' @ ''k3'' \<noteq> ''queue:'' @ jq_event_id ex_join"
    "\<not> truthy (jq_user_id ex_join)" "jq_event_id ex_join = ''e1''"
    by (simp_all add: truthy_def example_defs ex_join_def ex_lookup_def)
  have l: "\<not> truthy (lq_user_id (ex_lookup ''alice'' None))"
    "lq_token (ex_lookup ''alice'' None) = Some ''alice''"
    "(ex_lookup ''alice'' None)\<lparr>lq_user_id := Some ''alice''\<rparr> = ex_lookup ''alice'' (Some ''alice'')"
    "lq_user_id (ex_lookup ''k1'' (Some ''alice'')) = Some ''alice''"
    "(ex_lookup ''k1'' (Some ''alice''))\<lparr>lq_token := Some ''k1''\<rparr> = ex_lookup ''k1'' (Some ''alice'')"
    "(ex_lookup ''k1'' (Some ''alice''))\<lparr>lq_token := Some ''k2''\<rparr> = ex_lookup ''k2'' (Some ''alice'')"
    by (simp_all add: truthy_def ex_lookup_def)
  have v: "lookup_active 2000 (ex_lookup ''alice'' None) \<lparr>db = ex_db_held, redis = ex_redis\<rparr>
       = Active_reservation ex_held ex_tier 179"
    "lookup_active 2000 (ex_lookup ''k1'' (Some ''alice'')) \<lparr>db = ex_db_held, redis = ex_redis\<rparr>
       = Active_reservation ex_held ex_tier 179"
    "r_user_token ex_held = ''alice''"
    by (simp_all add: lookup_active_def active_reservations_of_def js_or_def truthy_def Let_def
          example_defs ex_join_def ex_lookup_def)
  note T = identity_fallback[where cfg = default_config and now = 1000 and token = "''k3''"
      and jq = ex_join and s = ex_stores and tk = "''k3''"
      and s' = "snd (join default_config 1000 ''k3'' ex_join ex_stores)" and uid = "''k3''",
      THEN conjunct1]
  note U = identity_fallback[where now = 2000 and rq = "ex_lookup ''alice'' None"
      and k = "''alice''" and st = "\<lparr>db = ex_db_held, redis = ex_redis\<rparr>",
      THEN conjunct2, THEN conjunct1]
  note V = identity_fallback[where now = 2000 and rq = "ex_lookup ''k1'' (Some ''alice'')"
      and h = "''alice''" and ?k1.0 = "''k1''" and ?k2.0 = "''k2''"
      and st = "\<lparr>db = ex_db_held, redis = ex_redis\<rparr>",
      THEN conjunct2, THEN conjunct2]
  have c1: "redis_get (redis (snd (join default_config 1000 ''k3'' ex_join ex_stores))) 1000
         ''waiting_room:e1:k3''
       = Inr (Some (RTok \<lparr>td_eventId = ''e1'', td_token = ''k3'', td_userId = ''k3'',
                            td_joinedAt = 1000\<rparr>))"
    using T j' p by simp
  have c2: "lookup_active 2000 (ex_lookup ''alice'' None) \<lparr>db = ex_db_held, redis = ex_redis\<rparr>
       = lookup_active 2000 (ex_lookup ''alice'' (Some ''alice'')) \<lparr>db = ex_db_held, redis = ex_redis\<rparr>"
    using U l(1,2,3) by simp
  have c3: "lookup_active 2000 (ex_lookup ''k1'' (Some ''alice'')) \<lparr>db = ex_db_held, redis = ex_redis\<rparr>
       = lookup_active 2000 (ex_lookup ''k2'' (Some ''alice'')) \<lparr>db = ex_db_held, redis = ex_redis\<rparr>"
    using V l(4,5,6) by simp
  show ?thesis
    by (intro conjI j p(3) c1 l(1) v c2 c3)
qed

theorem empty_header_falls_back_to_token_counterexample:
  "lq_user_id (ex_lookup ''alice'' (Some '''')) = Some ''''
   \<and> lookup_active 2000 (ex_lookup ''alice'' (Some '''')) \<lparr>db = ex_db_held, redis = ex_redis\<rparr>
       = Active_reservation ex_held ex_tier 179
   \<and> r_user_token ex_held = ''alice'' \<and> r_user_token ex_held \<noteq> ''''
   \<and> lookup_active 2000 (ex_lookup ''k1'' (Some '''')) \<lparr>db = ex_db_held, redis = ex_redis\<rparr>
       = Lookup_error 404 ''No active reservation found''"
  by (simp add: lookup_active_def active_reservations_of_def js_or_def truthy_def Let_def
        example_defs ex_join_def ex_lookup_def)

end
